theory Spec2Isabelle
  imports Complex_Main
begin

section \<open>The C-867.2U2 stage controller driver (pi_C_867_2U2.py)\<close>

text \<open>
  The driver is one Python class, \<^verbatim>\<open>Controller\<close>, whose methods talk to the device over
  a pyserial port. The embedding keeps the class as a record, every method as a function
  from the record to a result and the updated record, and every exception as a value.
  A Python float is modelled as the real it denotes, so the object holds finite floats
  only: infinities, NaN and negative zero are absent from it. The products, quotients
  and the difference of the tolerance and settling-time setters are rounded as binary64
  rounds them (\<open>rnd\<close> below); the sum of a relative move is taken exactly. Printing (the
  \<^verbatim>\<open>verbose\<close> and \<^verbatim>\<open>very_verbose\<close> branches) has no effect on the port and is left out;
  the attribute \<^verbatim>\<open>verbose\<close> itself is kept, since \<^verbatim>\<open>_reboot\<close> assigns it.
\<close>

subsection \<open>Bytes and text\<close>

abbreviation NL :: char where
  "NL \<equiv> CHR 0x0A"

abbreviation ENQ :: char where
  "ENQ \<equiv> CHR 0x05"

text \<open>\<^verbatim>\<open>bytes.endswith(b'\n')\<close>.\<close>

definition endswith_NL :: "string \<Rightarrow> bool" where
  "endswith_NL bs = (bs \<noteq> [] \<and> last bs = NL)"

text \<open>
  The bytes that \<^verbatim>\<open>bytes.rstrip()\<close> removes with no argument: space, tab, newline,
  carriage return, vertical tab and form feed.
\<close>

definition is_space :: "char \<Rightarrow> bool" where
  "is_space c = (c = CHR 0x20 \<or> c = CHR 0x09 \<or> c = CHR 0x0A \<or> c = CHR 0x0D
     \<or> c = CHR 0x0B \<or> c = CHR 0x0C)"

definition rstrip :: "string \<Rightarrow> string" where
  "rstrip bs = rev (dropWhile is_space (rev bs))"

definition is_ascii :: "string \<Rightarrow> bool" where
  "is_ascii bs = list_all (\<lambda>c. (of_char c :: nat) < 128) bs"

subsection \<open>Errors\<close>

text \<open>
  Every \<^verbatim>\<open>assert\<close> of the source raises \<^verbatim>\<open>AssertionError\<close>; the model records which
  assertion failed (Python reports it in the traceback).
\<close>

datatype assertion =
    response_endswith_newline
  | in_waiting_is_zero
  | x_within_limits
  | y_within_limits
  | tolerance_below_max
  | tolerance_above_margin
  | settling_time_in_range
  | velocity_in_range
  | acceleration_in_range
  | deceleration_in_range

datatype error =
    AssertionError assertion
  | RuntimeError string
  | UnicodeDecodeError
  | UnicodeEncodeError
  | IndexError
  | ValueError
  | TypeError
  | ZeroDivisionError
  | OverflowError

text \<open>\<^verbatim>\<open>bytes.decode('ascii')\<close> and \<^verbatim>\<open>bytes(cmd, encoding='ascii')\<close>.\<close>

definition decode_ascii :: "string \<Rightarrow> error + string" where
  "decode_ascii bs = (if is_ascii bs then Inr bs else Inl UnicodeDecodeError)"

definition encode_ascii :: "string \<Rightarrow> error + string" where
  "encode_ascii s = (if is_ascii s then Inr s else Inl UnicodeEncodeError)"

subsection \<open>The serial port\<close>

text \<open>
  The port is pyserial's, outside the repository. It is modelled as a scripted
  transport: \<open>written\<close> logs the argument of every \<^verbatim>\<open>write\<close> call, \<open>in_buf\<close> holds the
  bytes received and not yet read, and \<open>script\<close> holds the device's future replies, one
  per \<^verbatim>\<open>write\<close> call (an empty reply for a command the device does not answer). A
  \<^verbatim>\<open>write\<close> moves the next reply into the input buffer. The port is opened with a
  timeout, so \<^verbatim>\<open>readline\<close> returns the bytes up to and including the first newline, or
  after the timeout whatever has arrived, and \<^verbatim>\<open>read(n)\<close> returns at most \<open>n\<close> bytes.
\<close>

record port =
  written :: "string list"
  in_buf :: string
  script :: "string list"

definition port_write :: "string \<Rightarrow> port \<Rightarrow> port" where
  "port_write bs p =
     p\<lparr>written := written p @ [bs],
       in_buf := in_buf p @ (case script p of [] \<Rightarrow> [] | r # _ \<Rightarrow> r),
       script := tl (script p)\<rparr>"

definition port_readline :: "port \<Rightarrow> string \<times> port" where
  "port_readline p =
     (let line = takeWhile (\<lambda>c. c \<noteq> NL) (in_buf p);
          rest = dropWhile (\<lambda>c. c \<noteq> NL) (in_buf p)
      in case rest of
           [] \<Rightarrow> (line, p\<lparr>in_buf := []\<rparr>)
         | c # rest' \<Rightarrow> (line @ [c], p\<lparr>in_buf := rest'\<rparr>))"

definition port_read :: "nat \<Rightarrow> port \<Rightarrow> string \<times> port" where
  "port_read n p = (take n (in_buf p), p\<lparr>in_buf := drop n (in_buf p)\<rparr>)"

definition in_waiting :: "port \<Rightarrow> nat" where
  "in_waiting p = length (in_buf p)"

subsection \<open>The controller object\<close>

record controller =
  self_port :: port
  self_error :: string
  self_x_ecpu :: real
  self_y_ecpu :: real
  self_x :: real
  self_y :: real
  self_x_min :: real
  self_y_min :: real
  self_x_max :: real
  self_y_max :: real
  self_xptc :: int
  self_yptc :: int
  self_xpt :: real
  self_ypt :: real
  self_xptc_max :: int
  self_yptc_max :: int
  self_xpt_max :: real
  self_ypt_max :: real
  self_xst :: real
  self_yst :: real
  self_xv :: real
  self_yv :: real
  self_xv_max :: real
  self_yv_max :: real
  self_xa :: real
  self_ya :: real
  self_xa_max :: real
  self_ya_max :: real
  self_xd :: real
  self_yd :: real
  self_xd_max :: real
  self_yd_max :: real
  self_servo_enabled :: bool
  self_joystick_enabled :: bool
  self_moving :: bool
  self_verbose :: bool
  self_cmd_list :: "string list option"
  self_parameter_list :: "string list option"

text \<open>
  A method returns its value or the exception it raised, and the object as the call
  left it: \<open>(Inr v, s')\<close> or \<open>(Inl e, s')\<close>.
\<close>

type_synonym 'a result = "(error + 'a) \<times> controller"

definition and_then :: "'a result \<Rightarrow> ('a \<Rightarrow> controller \<Rightarrow> 'b result) \<Rightarrow> 'b result" where
  "and_then m f = (case m of (Inl e, s) \<Rightarrow> (Inl e, s) | (Inr v, s) \<Rightarrow> f v s)"

subsection \<open>\<^verbatim>\<open>_check_errors\<close> and \<^verbatim>\<open>_send\<close>\<close>

definition check_errors :: "controller \<Rightarrow> unit result" where
  "check_errors s =
     (let (line, p) = port_readline (port_write ''ERR?\<newline>'' (self_port s));
          s' = s\<lparr>self_port := p, self_error := line\<rparr>
      in if line \<noteq> ''0\<newline>''
         then (case decode_ascii line of
                 Inl e \<Rightarrow> (Inl e, s')
               | Inr msg \<Rightarrow> (Inl (RuntimeError msg), s'))
         else (Inr (), s'))"

text \<open>
  The read loop of \<^verbatim>\<open>_send\<close>. It touches only the port; \<open>responses\<close> is the list
  built so far. A line that passes the first assertion is not empty, so every round
  consumes input and the loop ends.
\<close>

function read_responses :: "port \<Rightarrow> string list \<Rightarrow> (error + string list) \<times> port" where
  "read_responses p responses =
     (case port_readline p of
        (response, p') \<Rightarrow>
          if \<not> endswith_NL response
          then (Inl (AssertionError response_endswith_newline), p')
          else (case decode_ascii (rstrip response) of
                  Inl e \<Rightarrow> (Inl e, p')
                | Inr line \<Rightarrow>
                    if length response = 1 then (Inr (responses @ [line]), p')
                    else if response ! (length response - 2) \<noteq> CHR 0x20
                    then (Inr (responses @ [line]), p')
                    else read_responses p' (responses @ [line])))"
  by pat_completeness auto

termination read_responses
proof (relation "measure (\<lambda>(p, responses). length (in_buf p))")
  show "wf (measure (\<lambda>(p, responses). length (in_buf p)))"
    by (rule wf_measure)
next
  fix p :: port and responses :: "string list" and response :: string and p' :: port
    and line :: string
  assume line_read: "(response, p') = port_readline p"
    and terminated: "\<not> \<not> endswith_NL response"
  from terminated have nonempty: "response \<noteq> []"
    by (simp add: endswith_NL_def)
  have "length (in_buf p') < length (in_buf p)"
  proof (cases "dropWhile (\<lambda>c. c \<noteq> NL) (in_buf p)")
    case Nil
    have "takeWhile (\<lambda>c. c \<noteq> NL) (in_buf p) @ dropWhile (\<lambda>c. c \<noteq> NL) (in_buf p) = in_buf p"
      by (rule takeWhile_dropWhile_id)
    then have "takeWhile (\<lambda>c. c \<noteq> NL) (in_buf p) = in_buf p"
      by (simp only: Nil append_Nil2)
    then have "port_readline p = (in_buf p, p\<lparr>in_buf := []\<rparr>)"
      by (simp only: port_readline_def Let_def Nil list.case)
    with line_read have "response = in_buf p" and "p' = p\<lparr>in_buf := []\<rparr>"
      by (simp_all only: prod.inject)
    with nonempty show ?thesis
      by simp
  next
    case (Cons c rest)
    have "length (dropWhile (\<lambda>c. c \<noteq> NL) (in_buf p)) \<le> length (in_buf p)"
      by (rule length_dropWhile_le)
    then have less: "length rest < length (in_buf p)"
      by (simp only: Cons list.size)
    have "port_readline p = (takeWhile (\<lambda>c. c \<noteq> NL) (in_buf p) @ [c], p\<lparr>in_buf := rest\<rparr>)"
      by (simp only: port_readline_def Let_def Cons list.case)
    with line_read have "p' = p\<lparr>in_buf := rest\<rparr>"
      by (simp only: prod.inject)
    with less show ?thesis
      by simp
  qed
  then show "((p', responses @ [line]), (p, responses))
      \<in> measure (\<lambda>(p, responses). length (in_buf p))"
    by (simp only: in_measure prod.case)
qed

declare read_responses.simps [simp del]

definition send :: "string \<Rightarrow> bool \<Rightarrow> controller \<Rightarrow> string list option result" where
  "send cmd respond s =
     (case encode_ascii cmd of
        Inl e \<Rightarrow> (Inl e, s)
      | Inr bs \<Rightarrow>
          and_then
            (if respond
             then (case read_responses (port_write (bs @ [NL]) (self_port s)) [] of
                     (Inl e, p') \<Rightarrow> (Inl e, s\<lparr>self_port := p'\<rparr>)
                   | (Inr responses, p') \<Rightarrow> (Inr (Some responses), s\<lparr>self_port := p'\<rparr>))
             else (Inr None, s\<lparr>self_port := port_write (bs @ [NL]) (self_port s)\<rparr>))
            (\<lambda>responses s1.
               if in_waiting (self_port s1) \<noteq> 0
               then (Inl (AssertionError in_waiting_is_zero), s1)
               else and_then (check_errors s1) (\<lambda>_ s2. (Inr responses, s2))))"

subsection \<open>Numbers to text and back\<close>

text \<open>\<^verbatim>\<open>'%i' % n\<close> for an integer: decimal digits, a minus sign when negative.\<close>

definition digit_char :: "nat \<Rightarrow> char" where
  "digit_char d = ''0123456789'' ! d"

fun show_nat :: "nat \<Rightarrow> string" where
  "show_nat n =
     (if n < 10 then [digit_char n]
      else show_nat (n div 10) @ [digit_char (n mod 10)])"

declare show_nat.simps [simp del]

definition show_int :: "int \<Rightarrow> string" where
  "show_int i = (if i < 0 then ''-'' @ show_nat (nat (- i)) else show_nat (nat i))"

text \<open>\<^verbatim>\<open>int(x)\<close> of a float truncates toward zero.\<close>

definition py_int :: "real \<Rightarrow> int" where
  "py_int v = (if v < 0 then \<lceil>v\<rceil> else \<lfloor>v\<rfloor>)"

text \<open>
  \<^verbatim>\<open>'%0.9f' % v\<close>: the sign, the integer part, a point and nine decimals, the value
  rounded to the nearest multiple of \<open>10\<^sup>-\<^sup>9\<close>, a tie going to the even one.
\<close>

definition round_half_even :: "real \<Rightarrow> int" where
  "round_half_even v =
     (let n = \<lfloor>v\<rfloor>; f = v - of_int n
      in if f < 1 / 2 then n
         else if 1 / 2 < f then n + 1
         else if even n then n else n + 1)"

definition fmt9 :: "real \<Rightarrow> string" where
  "fmt9 v =
     (let r = nat (round_half_even (\<bar>v\<bar> * 10 ^ 9));
          frac = show_nat (r mod 10 ^ 9)
      in (if v < 0 then ''-'' else [])
         @ show_nat (r div 10 ^ 9) @ ''.''
         @ replicate (9 - length frac) (CHR ''0'') @ frac)"

text \<open>\<^verbatim>\<open>a.split('=')[1]\<close>: the text between the first and the second equals sign.\<close>

definition split_eq_1 :: "string \<Rightarrow> error + string" where
  "split_eq_1 a =
     (case dropWhile (\<lambda>c. c \<noteq> CHR ''='') a of
        [] \<Rightarrow> Inl IndexError
      | _ # rest \<Rightarrow> Inr (takeWhile (\<lambda>c. c \<noteq> CHR ''='') rest))"

text \<open>
  \<^verbatim>\<open>[float(a.split('=')[1]) for a in responses]\<close>. Python's \<^verbatim>\<open>float\<close> on a string is a
  parameter \<open>float_of\<close>: \<open>None\<close> where it raises \<^verbatim>\<open>ValueError\<close>.
\<close>

fun parse_floats :: "(string \<Rightarrow> real option) \<Rightarrow> string list \<Rightarrow> error + real list" where
  "parse_floats float_of [] = Inr []"
| "parse_floats float_of (a # as) =
     (case split_eq_1 a of
        Inl e \<Rightarrow> Inl e
      | Inr v \<Rightarrow>
          (case float_of v of
             None \<Rightarrow> Inl ValueError
           | Some r \<Rightarrow>
               (case parse_floats float_of as of
                  Inl e \<Rightarrow> Inl e
                | Inr rs \<Rightarrow> Inr (r # rs))))"

subsection \<open>Float arithmetic\<close>

text \<open>
  A float operation of Python returns the exact result rounded to the nearest binary64
  number, a tie going to the one with the even significand. \<open>rnd\<close> is this rounding
  on the reals: for \<open>2\<^sup>e \<le> \<bar>x\<bar> < 2\<^sup>e\<^sup>+\<^sup>1\<close> the neighbours of \<open>x\<close> are the multiples of
  \<open>2\<^sup>e\<^sup>-\<^sup>5\<^sup>2\<close>, and below \<open>2\<^sup>-\<^sup>1\<^sup>0\<^sup>2\<^sup>2\<close> (the subnormal numbers) the multiples of \<open>2\<^sup>-\<^sup>1\<^sup>0\<^sup>7\<^sup>4\<close>.
  \<open>milli\<close> is the float that the literal \<^verbatim>\<open>1e-3\<close> denotes, \<open>rnd (1 / 1000)\<close>; the
  literal \<^verbatim>\<open>1e3\<close> is 1000 itself.
\<close>

definition rnd :: "real \<Rightarrow> real" where
  "rnd x =
     (if x = 0 then 0
      else let e = max \<lfloor>log 2 \<bar>x\<bar>\<rfloor> (- 1022);
               q = 2 powi (e - 52)
           in of_int (round_half_even (x / q)) * q)"

definition milli :: real where
  "milli = 1152921504606847 / 2 ^ 60"

text \<open>
  A result of magnitude \<open>2\<^sup>1\<^sup>0\<^sup>2\<^sup>4\<close> or more after rounding is an infinity. \<open>pyfloat\<close> is
  a float with the infinities and NaN, \<open>fl\<close> the rounding with the overflow, \<open>fmul\<close>
  and \<open>fdiv\<close> the product and the quotient of a float and a finite float (Python raises
  \<^verbatim>\<open>ZeroDivisionError\<close> on a zero divisor, whatever the dividend), \<open>float_of_int\<close> the
  conversion of an \<^verbatim>\<open>int\<close> operand, which raises \<^verbatim>\<open>OverflowError\<close> instead of
  returning an infinity, and \<open>int_of_float\<close> is \<^verbatim>\<open>int(x)\<close>, which raises
  \<^verbatim>\<open>OverflowError\<close> on an infinity and \<^verbatim>\<open>ValueError\<close> on NaN.
\<close>

datatype pyfloat = Finite real | PosInf | NegInf | NaN

definition fl :: "real \<Rightarrow> pyfloat" where
  "fl x =
     (let y = rnd x
      in if 2 ^ 1024 \<le> y then PosInf else if y \<le> - (2 ^ 1024) then NegInf else Finite y)"

definition fmul :: "pyfloat \<Rightarrow> real \<Rightarrow> pyfloat" where
  "fmul x b =
     (case x of
        Finite a \<Rightarrow> fl (a * b)
      | PosInf \<Rightarrow> if b = 0 then NaN else if 0 < b then PosInf else NegInf
      | NegInf \<Rightarrow> if b = 0 then NaN else if 0 < b then NegInf else PosInf
      | NaN \<Rightarrow> NaN)"

definition fdiv :: "pyfloat \<Rightarrow> real \<Rightarrow> error + pyfloat" where
  "fdiv x b =
     (if b = 0 then Inl ZeroDivisionError
      else Inr (case x of
                  Finite a \<Rightarrow> fl (a / b)
                | PosInf \<Rightarrow> if 0 < b then PosInf else NegInf
                | NegInf \<Rightarrow> if 0 < b then NegInf else PosInf
                | NaN \<Rightarrow> NaN))"

definition float_of_int :: "int \<Rightarrow> error + real" where
  "float_of_int n = (case fl (of_int n) of Finite v \<Rightarrow> Inr v | _ \<Rightarrow> Inl OverflowError)"

definition int_of_float :: "pyfloat \<Rightarrow> error + int" where
  "int_of_float x =
     (case x of Finite v \<Rightarrow> Inr (py_int v) | NaN \<Rightarrow> Inl ValueError | _ \<Rightarrow> Inl OverflowError)"

subsection \<open>Servo, joystick and position\<close>

definition enable_servo :: "bool \<Rightarrow> controller \<Rightarrow> unit result" where
  "enable_servo enable s =
     and_then (if enable then send ''SVO 1 1 2 1'' False s else send ''SVO 1 0 2 0'' False s)
       (\<lambda>_ s1. (Inr (), s1\<lparr>self_servo_enabled := enable\<rparr>))"

definition enable_joystick :: "bool \<Rightarrow> controller \<Rightarrow> unit result" where
  "enable_joystick enable s =
     and_then
       (if enable
        then and_then (send ''HIN 1 1'' False s) (\<lambda>_. send ''HIN 2 1'' False)
        else and_then (send ''HIN 1 0'' False s) (\<lambda>_. send ''HIN 2 0'' False))
       (\<lambda>_ s1. (Inr (), s1\<lparr>self_joystick_enabled := enable\<rparr>))"

definition get_position_mm :: "(string \<Rightarrow> real option) \<Rightarrow> controller \<Rightarrow> (real \<times> real) result" where
  "get_position_mm float_of s =
     and_then (send ''MOV? 1 2'' True s)
       (\<lambda>responses s1.
          case responses of
            None \<Rightarrow> (Inl TypeError, s1)
          | Some lines \<Rightarrow>
              (case parse_floats float_of lines of
                 Inl e \<Rightarrow> (Inl e, s1)
               | Inr [a, b] \<Rightarrow> (Inr (a, b), s1\<lparr>self_x := a, self_y := b\<rparr>)
               | Inr _ \<Rightarrow> (Inl ValueError, s1)))"

subsection \<open>Moving\<close>

text \<open>
  The status poll of \<^verbatim>\<open>_finish_moving\<close> has no bound: it returns only when the device
  answers \<^verbatim>\<open>b'0\n'\<close>. Not returning is the value \<open>None\<close>.
\<close>

partial_function (option) poll_motion_status :: "port \<Rightarrow> port option" where
  "poll_motion_status p =
     (case port_read 2 (port_write [ENQ] p) of
        (response, p') \<Rightarrow>
          if response = ''0\<newline>'' then Some p' else poll_motion_status p')"

definition finish_moving :: "controller \<Rightarrow> unit result option" where
  "finish_moving s =
     (if \<not> self_moving s then Some (Inr (), s)
      else case poll_motion_status (self_port s) of
             None \<Rightarrow> None
           | Some p \<Rightarrow>
               Some (and_then
                 (if self_joystick_enabled s
                  then and_then (send ''HIN 1 1'' False (s\<lparr>self_port := p, self_moving := False\<rparr>))
                         (\<lambda>_. send ''HIN 2 1'' False)
                  else (Inr None, s\<lparr>self_port := p, self_moving := False\<rparr>))
                 (\<lambda>_. check_errors)))"

text \<open>
  The part of \<^verbatim>\<open>move_mm\<close> between its two calls of \<^verbatim>\<open>_finish_moving\<close>: the joystick
  is switched off at the device, the target is stored in \<open>self_x\<close> and \<open>self_y\<close>, the two
  limit assertions are checked, the move command is sent and the moving flag is set.
\<close>

definition move_cmd :: "real \<Rightarrow> real \<Rightarrow> string" where
  "move_cmd vx vy = ''MOV 1 '' @ fmt9 vx @ '' 2 '' @ fmt9 vy @ '' ''"

definition start_move :: "(string \<Rightarrow> real option) \<Rightarrow> real \<Rightarrow> real \<Rightarrow> bool \<Rightarrow> controller \<Rightarrow> unit result" where
  "start_move float_of dx dy relative s =
     and_then
       (if self_joystick_enabled s
        then and_then (send ''HIN 1 0'' False s) (\<lambda>_. send ''HIN 2 0'' False)
        else (Inr None, s))
       (\<lambda>_ s1.
          and_then
            (if relative
             then and_then (get_position_mm float_of s1)
                    (\<lambda>_ s2. (Inr (), s2\<lparr>self_x := self_x s2 + dx, self_y := self_y s2 + dy\<rparr>))
             else (Inr (), s1\<lparr>self_x := dx, self_y := dy\<rparr>))
            (\<lambda>_ s3.
               if \<not> (self_x_min s3 \<le> self_x s3 \<and> self_x s3 \<le> self_x_max s3)
               then (Inl (AssertionError x_within_limits), s3)
               else if \<not> (self_y_min s3 \<le> self_y s3 \<and> self_y s3 \<le> self_y_max s3)
               then (Inl (AssertionError y_within_limits), s3)
               else and_then (send (move_cmd (self_x s3) (self_y s3)) False s3)
                      (\<lambda>_ s4. (Inr (), s4\<lparr>self_moving := True\<rparr>))))"

definition move_mm :: "(string \<Rightarrow> real option) \<Rightarrow> real \<Rightarrow> real \<Rightarrow> bool \<Rightarrow> bool \<Rightarrow> controller \<Rightarrow> unit result option" where
  "move_mm float_of dx dy relative block s =
     (case finish_moving s of
        None \<Rightarrow> None
      | Some (Inl e, s1) \<Rightarrow> Some (Inl e, s1)
      | Some (Inr _, s1) \<Rightarrow>
          (case start_move float_of dx dy relative s1 of
             (Inl e, s2) \<Rightarrow> Some (Inl e, s2)
           | (Inr _, s2) \<Rightarrow> if block then finish_moving s2 else Some (Inr (), s2)))"

subsection \<open>The parameter setters\<close>

text \<open>
  The two unit conversions that \<^verbatim>\<open>set_positional_tolerance_um\<close> writes inline:
  \<^verbatim>\<open>int(1e-3 * um * ecpu)\<close>, which is \<^verbatim>\<open>int((1e-3 * um) * ecpu)\<close>, and
  \<^verbatim>\<open>1e3 * counts / ecpu\<close>, which is \<^verbatim>\<open>(1e3 * float(counts)) / ecpu\<close>. The division
  raises \<^verbatim>\<open>ZeroDivisionError\<close> on a zero divisor. \<open>float_um_to_counts\<close> and
  \<open>float_counts_to_um\<close> are the two expressions with the infinities: a quotient beyond
  the float range is an infinity, which the code keeps as the tolerance, and \<^verbatim>\<open>int\<close> of
  an infinity raises \<^verbatim>\<open>OverflowError\<close>. \<open>um_to_counts\<close> and \<open>counts_to_um\<close> are the
  same expressions on the finite floats the object holds; they are the values of the
  former two whenever no infinity arises (\<open>float_um_to_counts_finite\<close> and
  \<open>float_counts_to_um_finite\<close> below), and it is these that the model of the setter
  uses.
\<close>

definition float_um_to_counts :: "pyfloat \<Rightarrow> real \<Rightarrow> error + int" where
  "float_um_to_counts um ecpu = int_of_float (fmul (fmul um milli) ecpu)"

definition float_counts_to_um :: "int \<Rightarrow> real \<Rightarrow> error + pyfloat" where
  "float_counts_to_um counts ecpu =
     (case float_of_int counts of
        Inl e \<Rightarrow> Inl e
      | Inr n \<Rightarrow> fdiv (fl (1000 * n)) ecpu)"

definition um_to_counts :: "real \<Rightarrow> real \<Rightarrow> int" where
  "um_to_counts um ecpu = py_int (rnd (rnd (milli * um) * ecpu))"

definition counts_to_um :: "int \<Rightarrow> real \<Rightarrow> error + real" where
  "counts_to_um counts ecpu =
     (if ecpu = 0 then Inl ZeroDivisionError
      else Inr (rnd (rnd (1000 * rnd (of_int counts)) / ecpu)))"

definition tolerance_exit_cmd :: "int \<Rightarrow> int \<Rightarrow> string" where
  "tolerance_exit_cmd cx cy =
     ''SPA 1 0x407 '' @ show_int cx @ '' 2 0x407 '' @ show_int cy @ '' ''"

text \<open>
  The second command formats \<^verbatim>\<open>self.xptc - margin\<close>, a float, with \<^verbatim>\<open>%i\<close>, which
  truncates it.
\<close>

definition tolerance_enter_cmd :: "int \<Rightarrow> int \<Rightarrow> real \<Rightarrow> string" where
  "tolerance_enter_cmd cx cy margin =
     ''SPA 1 0x406 '' @ show_int (py_int (rnd (rnd (of_int cx) - margin)))
       @ '' 2 0x406 '' @ show_int (py_int (rnd (rnd (of_int cy) - margin))) @ '' ''"

definition set_positional_tolerance_um ::
    "real option \<Rightarrow> real option \<Rightarrow> real \<Rightarrow> controller \<Rightarrow> unit result" where
  "set_positional_tolerance_um xpt ypt margin s =
     (let xpt = (case xpt of None \<Rightarrow> self_xpt s | Some v \<Rightarrow> v);
          ypt = (case ypt of None \<Rightarrow> self_ypt s | Some v \<Rightarrow> v);
          s1 = s\<lparr>self_xptc := um_to_counts xpt (self_x_ecpu s),
                 self_yptc := um_to_counts ypt (self_x_ecpu s)\<rparr>;
          margin_counts = um_to_counts margin (self_x_ecpu s)
      in if \<not> (self_xptc s1 < self_xptc_max s1 \<and> self_yptc s1 \<le> self_yptc_max s1)
         then (Inl (AssertionError tolerance_below_max), s1)
         else if \<not> (self_xptc s1 - margin_counts > 0 \<and> self_yptc s1 - margin_counts > 0)
         then (Inl (AssertionError tolerance_above_margin), s1)
         else and_then (send (tolerance_exit_cmd (self_xptc s1) (self_yptc s1)) False s1)
           (\<lambda>_ s2.
              and_then (send (tolerance_enter_cmd (self_xptc s2) (self_yptc s2) margin) False s2)
                (\<lambda>_ s3.
                   case counts_to_um (self_xptc s3) (self_x_ecpu s3) of
                     Inl e \<Rightarrow> (Inl e, s3)
                   | Inr vx \<Rightarrow>
                       (case counts_to_um (self_yptc s3) (self_y_ecpu s3) of
                          Inl e \<Rightarrow> (Inl e, s3\<lparr>self_xpt := vx\<rparr>)
                        | Inr vy \<Rightarrow> (Inr (), s3\<lparr>self_xpt := vx, self_ypt := vy\<rparr>)))))"

text \<open>The settling times are sent in seconds: \<^verbatim>\<open>1e-3 * self.xst\<close>, a float product.\<close>

definition settling_cmd :: "real \<Rightarrow> real \<Rightarrow> string" where
  "settling_cmd vx vy =
     ''SPA 1 0x3F '' @ fmt9 (rnd (milli * vx)) @ '' 2 0x3F '' @ fmt9 (rnd (milli * vy)) @ '' ''"

definition set_settling_time_ms :: "real option \<Rightarrow> real option \<Rightarrow> controller \<Rightarrow> unit result" where
  "set_settling_time_ms xst yst s =
     (let xst = (case xst of None \<Rightarrow> self_xst s | Some v \<Rightarrow> v);
          yst = (case yst of None \<Rightarrow> self_yst s | Some v \<Rightarrow> v);
          s1 = s\<lparr>self_xst := xst, self_yst := yst\<rparr>
      in if \<not> (0 \<le> self_xst s1 \<and> self_xst s1 \<le> 1000 \<and> 0 \<le> self_yst s1 \<and> self_yst s1 \<le> 1000)
         then (Inl (AssertionError settling_time_in_range), s1)
         else and_then (send (settling_cmd (self_xst s1) (self_yst s1)) False s1)
                (\<lambda>_ s2. (Inr (), s2)))"

definition velocity_cmd :: "real \<Rightarrow> real \<Rightarrow> string" where
  "velocity_cmd vx vy = ''VEL 1 '' @ fmt9 vx @ '' 2 '' @ fmt9 vy @ '' ''"

definition set_velocity :: "real option \<Rightarrow> real option \<Rightarrow> controller \<Rightarrow> unit result" where
  "set_velocity xv yv s =
     (let xv = (case xv of None \<Rightarrow> self_xv s | Some v \<Rightarrow> v);
          yv = (case yv of None \<Rightarrow> self_yv s | Some v \<Rightarrow> v);
          s1 = s\<lparr>self_xv := xv, self_yv := yv\<rparr>
      in if \<not> (0 \<le> self_xv s1 \<and> self_xv s1 \<le> self_xv_max s1
               \<and> 0 \<le> self_yv s1 \<and> self_yv s1 \<le> self_yv_max s1)
         then (Inl (AssertionError velocity_in_range), s1)
         else and_then (send (velocity_cmd (self_xv s1) (self_yv s1)) False s1)
                (\<lambda>_ s2. (Inr (), s2)))"

definition acceleration_cmd :: "real \<Rightarrow> real \<Rightarrow> string" where
  "acceleration_cmd vx vy = ''ACC 1 '' @ fmt9 vx @ '' 2 '' @ fmt9 vy @ '' ''"

definition set_acceleration :: "real option \<Rightarrow> real option \<Rightarrow> controller \<Rightarrow> unit result" where
  "set_acceleration xa ya s =
     (let xa = (case xa of None \<Rightarrow> self_xa s | Some v \<Rightarrow> v);
          ya = (case ya of None \<Rightarrow> self_ya s | Some v \<Rightarrow> v);
          s1 = s\<lparr>self_xa := xa, self_ya := ya\<rparr>
      in if \<not> (0 \<le> self_xa s1 \<and> self_xa s1 \<le> self_xa_max s1
               \<and> 0 \<le> self_ya s1 \<and> self_ya s1 \<le> self_ya_max s1)
         then (Inl (AssertionError acceleration_in_range), s1)
         else and_then (send (acceleration_cmd (self_xa s1) (self_ya s1)) False s1)
                (\<lambda>_ s2. (Inr (), s2)))"

text \<open>The format string of \<^verbatim>\<open>set_deceleration\<close> is \<^verbatim>\<open>'ACC 1 %0.9f 2 %0.9f '\<close> as well.\<close>

definition deceleration_cmd :: "real \<Rightarrow> real \<Rightarrow> string" where
  "deceleration_cmd vx vy = ''ACC 1 '' @ fmt9 vx @ '' 2 '' @ fmt9 vy @ '' ''"

definition set_deceleration :: "real option \<Rightarrow> real option \<Rightarrow> controller \<Rightarrow> unit result" where
  "set_deceleration xd yd s =
     (let xd = (case xd of None \<Rightarrow> self_xd s | Some v \<Rightarrow> v);
          yd = (case yd of None \<Rightarrow> self_yd s | Some v \<Rightarrow> v);
          s1 = s\<lparr>self_xd := xd, self_yd := yd\<rparr>
      in if \<not> (0 \<le> self_xd s1 \<and> self_xd s1 \<le> self_xd_max s1
               \<and> 0 \<le> self_yd s1 \<and> self_yd s1 \<le> self_yd_max s1)
         then (Inl (AssertionError deceleration_in_range), s1)
         else and_then (send (deceleration_cmd (self_xd s1) (self_yd s1)) False s1)
                (\<lambda>_ s2. (Inr (), s2)))"

subsection \<open>The developer methods, \<^verbatim>\<open>_reboot\<close> and \<^verbatim>\<open>close\<close>\<close>

text \<open>
  \<^verbatim>\<open>_get_cmd_list\<close> and \<^verbatim>\<open>_get_parameter_list\<close> store the reply in an attribute that
  does not exist before the first call (\<open>None\<close> here). The arguments of
  \<^verbatim>\<open>_get_parameter\<close> and \<^verbatim>\<open>_set_parameter\<close> are given as text: \<open>p_id\<close> as
  \<^verbatim>\<open>'%s'\<close> formats it (\<^verbatim>\<open>_set_parameter\<close> concatenates it, so there it is a string),
  \<open>v\<close> as \<^verbatim>\<open>str(value)\<close>.
\<close>

definition get_cmd_list :: "controller \<Rightarrow> string list option result" where
  "get_cmd_list s =
     and_then (send ''HLP?'' True s)
       (\<lambda>responses s1. (Inr responses, s1\<lparr>self_cmd_list := responses\<rparr>))"

definition get_parameter_list :: "controller \<Rightarrow> string list option result" where
  "get_parameter_list s =
     and_then (send ''HPA?'' True s)
       (\<lambda>responses s1. (Inr responses, s1\<lparr>self_parameter_list := responses\<rparr>))"

definition get_parameter :: "string \<Rightarrow> controller \<Rightarrow> string list option result" where
  "get_parameter p_id s = send (''SPA? 1 '' @ p_id @ '' 2 '' @ p_id) True s"

definition set_parameter :: "string \<Rightarrow> string \<Rightarrow> controller \<Rightarrow> unit result" where
  "set_parameter p_id v s =
     and_then (send (''SPA 1 '' @ p_id @ '' '' @ v @ '' 2 '' @ p_id @ '' '' @ v) False s)
       (\<lambda>_ s1. (Inr (), s1))"

text \<open>
  The loop of \<^verbatim>\<open>_reboot\<close>, \<^verbatim>\<open>while self._send('RMC?')[0] != ''\<close>, has no bound: it
  asks for the running macros until the first line of the reply is empty. \<^verbatim>\<open>_reboot\<close>
  writes \<^verbatim>\<open>b'RBT\n'\<close> to the port itself and checks the error; around the loop it
  switches \<^verbatim>\<open>verbose\<close> off and restores it after, so an error raised in the loop leaves
  \<^verbatim>\<open>verbose\<close> off.
\<close>

partial_function (option) wait_for_macro :: "controller \<Rightarrow> unit result option" where
  "wait_for_macro s =
     (case send ''RMC?'' True s of
        (Inl e, s1) \<Rightarrow> Some (Inl e, s1)
      | (Inr None, s1) \<Rightarrow> Some (Inl TypeError, s1)
      | (Inr (Some []), s1) \<Rightarrow> Some (Inl IndexError, s1)
      | (Inr (Some (first # others)), s1) \<Rightarrow>
          if first \<noteq> [] then wait_for_macro s1 else Some (Inr (), s1))"

definition reboot :: "bool \<Rightarrow> controller \<Rightarrow> unit result option" where
  "reboot finish_macro s =
     (case check_errors (s\<lparr>self_port := port_write ''RBT\<newline>'' (self_port s)\<rparr>) of
        (Inl e, s1) \<Rightarrow> Some (Inl e, s1)
      | (Inr _, s1) \<Rightarrow>
          if finish_macro
          then (case wait_for_macro (s1\<lparr>self_verbose := False\<rparr>) of
                  None \<Rightarrow> None
                | Some (Inl e, s2) \<Rightarrow> Some (Inl e, s2)
                | Some (Inr _, s2) \<Rightarrow> Some (Inr (), s2\<lparr>self_verbose := self_verbose s1\<rparr>))
          else Some (Inr (), s1))"

text \<open>
  \<^verbatim>\<open>close\<close> closes the port and touches nothing else. On a closed port nothing is
  received any more; the model has no state for a closed port (pyserial raises on
  every later use), so a call after \<^verbatim>\<open>close\<close> is outside it.
\<close>

definition close :: "controller \<Rightarrow> unit result" where
  "close s = (Inr (), s\<lparr>self_port := (self_port s)\<lparr>in_buf := [], script := []\<rparr>\<rparr>)"

subsection \<open>An example object\<close>

text \<open>
  A controller as \<^verbatim>\<open>__init__\<close> leaves it, for a stage with 1000 counts per millimetre
  on the x axis and 2000 on the y axis, travel from 0 to 100 mm, the servo and the
  joystick on, at rest, \<^verbatim>\<open>verbose\<close> at its default and the two lists not yet read. The
  argument is the list of replies the device will give.
\<close>

definition example_stage :: "string list \<Rightarrow> controller" where
  "example_stage replies =
     \<lparr>self_port = \<lparr>written = [], in_buf = [], script = replies\<rparr>,
      self_error = ''0\<newline>'',
      self_x_ecpu = 1000, self_y_ecpu = 2000,
      self_x = 0, self_y = 0,
      self_x_min = 0, self_y_min = 0, self_x_max = 100, self_y_max = 100,
      self_xptc = 2, self_yptc = 2, self_xpt = 2, self_ypt = 1,
      self_xptc_max = 10, self_yptc_max = 10, self_xpt_max = 10, self_ypt_max = 5,
      self_xst = 1, self_yst = 1,
      self_xv = 10, self_yv = 10, self_xv_max = 120, self_yv_max = 120,
      self_xa = 100, self_ya = 100, self_xa_max = 500, self_ya_max = 500,
      self_xd = 100, self_yd = 100, self_xd_max = 500, self_yd_max = 500,
      self_servo_enabled = True, self_joystick_enabled = True, self_moving = False,
      self_verbose = True, self_cmd_list = None, self_parameter_list = None\<rparr>"

text \<open>
  A parser for \<^verbatim>\<open>float\<close> that accepts no text. An absolute move never reads the
  position, so it never parses.
\<close>

definition no_float :: "string \<Rightarrow> real option" where
  "no_float v = None"

section \<open>Notions used in the properties\<close>

subsection \<open>Frames and traces\<close>

text \<open>
  \<open>io_only s s'\<close>: the object \<open>s'\<close> differs from \<open>s\<close> at most in the port and in the last
  error reply. \<open>motion_only s s'\<close>: it differs at most in these two, the cached position
  and the moving flag. \<open>wrote s s' ws\<close>: between \<open>s\<close> and \<open>s'\<close> exactly the byte strings
  \<open>ws\<close> were passed to \<^verbatim>\<open>write\<close>, in this order. \<open>send_port\<close> is the port after the write
  and the read loop of \<^verbatim>\<open>_send\<close>.
\<close>

definition io_only :: "controller \<Rightarrow> controller \<Rightarrow> bool" where
  "io_only s s' = (s'\<lparr>self_port := self_port s, self_error := self_error s\<rparr> = s)"

definition motion_only :: "controller \<Rightarrow> controller \<Rightarrow> bool" where
  "motion_only s s' =
     (s'\<lparr>self_port := self_port s, self_error := self_error s, self_x := self_x s,
         self_y := self_y s, self_moving := self_moving s\<rparr> = s)"

definition wrote :: "controller \<Rightarrow> controller \<Rightarrow> string list \<Rightarrow> bool" where
  "wrote s s' ws = (written (self_port s') = written (self_port s) @ ws)"

definition send_port :: "string \<Rightarrow> bool \<Rightarrow> port \<Rightarrow> port" where
  "send_port cmd respond p =
     (if respond then snd (read_responses (port_write (cmd @ [NL]) p) []) else port_write (cmd @ [NL]) p)"

text \<open>
  The byte strings of the joystick commands with their error queries, of the position
  query of a relative move, and the test for a move command.
\<close>

definition enable_trace :: "bool \<Rightarrow> string list" where
  "enable_trace joystick =
     (if joystick then [''HIN 1 1\<newline>'', ''ERR?\<newline>'', ''HIN 2 1\<newline>'', ''ERR?\<newline>''] else [])"

definition disable_trace :: "bool \<Rightarrow> string list" where
  "disable_trace joystick =
     (if joystick then [''HIN 1 0\<newline>'', ''ERR?\<newline>'', ''HIN 2 0\<newline>'', ''ERR?\<newline>''] else [])"

definition position_query :: "bool \<Rightarrow> string list" where
  "position_query relative = (if relative then [''MOV? 1 2\<newline>'', ''ERR?\<newline>''] else [])"


subsection \<open>Relative distance\<close>


subsection \<open>Replies\<close>

text \<open>
  \<open>frame\<close> puts the newline after each line of a reply. \<open>ack\<close> is what the device
  replies to a command it accepts: nothing to the command, \<^verbatim>\<open>0\<close> to the error query.
\<close>

definition frame :: "string list \<Rightarrow> string" where
  "frame bodies = concat (map (\<lambda>b. b @ [NL]) bodies)"

definition ack :: "string list" where
  "ack = ['''', ''0\<newline>'']"

subsection \<open>The limits and the stages of a move\<close>

text \<open>
  \<open>within_limits\<close> is the conjunction of the two limit assertions of \<^verbatim>\<open>move_mm\<close>, and
  \<open>is_limit_error\<close> holds of the two errors they raise. \<open>joystick_off s s1\<close>: the first
  stage of a move, switching the joystick off at the device when the flag is on, took
  \<open>s\<close> to \<open>s1\<close> without an error. \<open>target_stored\<close>: the second stage, reading the position
  for a relative move and storing the target, took \<open>s1\<close> to \<open>s3\<close> without an error.
\<close>

definition within_limits :: "controller \<Rightarrow> bool" where
  "within_limits s =
     (self_x_min s \<le> self_x s \<and> self_x s \<le> self_x_max s
      \<and> self_y_min s \<le> self_y s \<and> self_y s \<le> self_y_max s)"

definition is_limit_error :: "error \<Rightarrow> bool" where
  "is_limit_error e = (e = AssertionError x_within_limits \<or> e = AssertionError y_within_limits)"

definition joystick_off :: "controller \<Rightarrow> controller \<Rightarrow> bool" where
  "joystick_off s s1 =
     (if self_joystick_enabled s
      then \<exists>v. and_then (send ''HIN 1 0'' False s) (\<lambda>_. send ''HIN 2 0'' False) = (Inr v, s1)
      else s1 = s)"

definition target_stored ::
    "(string \<Rightarrow> real option) \<Rightarrow> real \<Rightarrow> real \<Rightarrow> bool \<Rightarrow> controller \<Rightarrow> controller \<Rightarrow> bool" where
  "target_stored float_of dx dy relative s1 s3 =
     (if relative
      then \<exists>pos s2. get_position_mm float_of s1 = (Inr pos, s2)
             \<and> s3 = s2\<lparr>self_x := fst pos + dx, self_y := snd pos + dy\<rparr>
      else s3 = s1\<lparr>self_x := dx, self_y := dy\<rparr>)"

subsection \<open>Sequences of calls\<close>

text \<open>
  A call of one of the methods of the class, and the object it leaves, whether the call
  returns or raises; \<open>None\<close> when the call does not return. \<open>call_methods\<close> makes the
  calls of a list one after the other. The methods are all those of the class but
  \<^verbatim>\<open>__init__\<close>, which makes the object (and sets the joystick flag by calling
  \<^verbatim>\<open>_enable_joystick(True)\<close>), \<^verbatim>\<open>_print_attributes\<close>, which only prints, and the two
  helpers \<^verbatim>\<open>_send\<close> and \<^verbatim>\<open>_check_errors\<close>, which every call below goes through.
\<close>

datatype call =
    Move real real bool bool
  | FinishMoving
  | GetPosition
  | SetTolerance "real option" "real option" real
  | SetSettlingTime "real option" "real option"
  | SetVelocity "real option" "real option"
  | SetAcceleration "real option" "real option"
  | SetDeceleration "real option" "real option"
  | EnableServo bool
  | EnableJoystick bool
  | GetCmdList
  | GetParameterList
  | GetParameter string
  | SetParameter string string
  | Reboot bool
  | Close

fun call_method :: "(string \<Rightarrow> real option) \<Rightarrow> call \<Rightarrow> controller \<Rightarrow> controller option" where
  "call_method float_of (Move dx dy relative block) s =
     map_option snd (move_mm float_of dx dy relative block s)"
| "call_method float_of FinishMoving s = map_option snd (finish_moving s)"
| "call_method float_of GetPosition s = Some (snd (get_position_mm float_of s))"
| "call_method float_of (SetTolerance a b margin) s = Some (snd (set_positional_tolerance_um a b margin s))"
| "call_method float_of (SetSettlingTime a b) s = Some (snd (set_settling_time_ms a b s))"
| "call_method float_of (SetVelocity a b) s = Some (snd (set_velocity a b s))"
| "call_method float_of (SetAcceleration a b) s = Some (snd (set_acceleration a b s))"
| "call_method float_of (SetDeceleration a b) s = Some (snd (set_deceleration a b s))"
| "call_method float_of (EnableServo enable) s = Some (snd (enable_servo enable s))"
| "call_method float_of (EnableJoystick enable) s = Some (snd (enable_joystick enable s))"
| "call_method float_of GetCmdList s = Some (snd (get_cmd_list s))"
| "call_method float_of GetParameterList s = Some (snd (get_parameter_list s))"
| "call_method float_of (GetParameter p_id) s = Some (snd (get_parameter p_id s))"
| "call_method float_of (SetParameter p_id v) s = Some (snd (set_parameter p_id v s))"
| "call_method float_of (Reboot finish_macro) s = map_option snd (reboot finish_macro s)"
| "call_method float_of Close s = Some (snd (close s))"

fun call_methods :: "(string \<Rightarrow> real option) \<Rightarrow> call list \<Rightarrow> controller \<Rightarrow> controller option" where
  "call_methods float_of [] s = Some s"
| "call_methods float_of (c # cs) s =
     (case call_method float_of c s of None \<Rightarrow> None | Some s1 \<Rightarrow> call_methods float_of cs s1)"

fun is_enable_joystick :: "call \<Rightarrow> bool" where
  "is_enable_joystick (EnableJoystick enable) = True"
| "is_enable_joystick c = False"

section \<open>Properties\<close>

subsection \<open>Reading a line\<close>

lemma port_readline_Nil:
  "dropWhile (\<lambda>c. c \<noteq> NL) (in_buf p) = [] \<Longrightarrow> port_readline p = (in_buf p, p\<lparr>in_buf := []\<rparr>)"
proof -
  assume a: "dropWhile (\<lambda>c. c \<noteq> NL) (in_buf p) = []"
  have "takeWhile (\<lambda>c. c \<noteq> NL) (in_buf p) @ dropWhile (\<lambda>c. c \<noteq> NL) (in_buf p) = in_buf p"
    by (rule takeWhile_dropWhile_id)
  then have "takeWhile (\<lambda>c. c \<noteq> NL) (in_buf p) = in_buf p"
    by (simp only: a append_Nil2)
  then show ?thesis
    by (simp only: port_readline_def Let_def a list.case)
qed

lemma port_readline_Cons:
  "dropWhile (\<lambda>c. c \<noteq> NL) (in_buf p) = c # rest \<Longrightarrow>
   port_readline p = (takeWhile (\<lambda>c. c \<noteq> NL) (in_buf p) @ [c], p\<lparr>in_buf := rest\<rparr>)"
  by (simp only: port_readline_def Let_def list.case)



subsection \<open>What a call changes and what it writes\<close>

lemma io_only_refl: "io_only s s"
  by (simp add: io_only_def)

lemma io_only_port: "io_only s (s\<lparr>self_port := p\<rparr>)"
  by (simp add: io_only_def)

lemma io_only_port_error: "io_only s (s\<lparr>self_port := p, self_error := e\<rparr>)"
  by (simp add: io_only_def)

lemma io_only_trans:
  assumes "io_only s s1" and "io_only s1 s2"
  shows "io_only s s2"
proof -
  from assms have a: "s1\<lparr>self_port := self_port s, self_error := self_error s\<rparr> = s"
    and b: "s2\<lparr>self_port := self_port s1, self_error := self_error s1\<rparr> = s1"
    by (simp_all only: io_only_def)
  have "s2\<lparr>self_port := self_port s, self_error := self_error s\<rparr>
      = (s2\<lparr>self_port := self_port s1, self_error := self_error s1\<rparr>)
          \<lparr>self_port := self_port s, self_error := self_error s\<rparr>"
    by simp
  also have "\<dots> = s1\<lparr>self_port := self_port s, self_error := self_error s\<rparr>"
    by (simp only: b)
  also have "\<dots> = s"
    by (rule a)
  finally show ?thesis
    by (simp only: io_only_def)
qed

lemma io_only_fields:
  assumes "io_only s s'"
  shows
    "self_x_ecpu s' = self_x_ecpu s" "self_y_ecpu s' = self_y_ecpu s" "self_x s' = self_x s"
    "self_y s' = self_y s" "self_x_min s' = self_x_min s" "self_y_min s' = self_y_min s"
    "self_x_max s' = self_x_max s" "self_y_max s' = self_y_max s" "self_xptc s' = self_xptc s"
    "self_yptc s' = self_yptc s" "self_xpt s' = self_xpt s" "self_ypt s' = self_ypt s"
    "self_xptc_max s' = self_xptc_max s" "self_yptc_max s' = self_yptc_max s"
    "self_xpt_max s' = self_xpt_max s" "self_ypt_max s' = self_ypt_max s"
    "self_xst s' = self_xst s" "self_yst s' = self_yst s" "self_xv s' = self_xv s"
    "self_yv s' = self_yv s" "self_xv_max s' = self_xv_max s" "self_yv_max s' = self_yv_max s"
    "self_xa s' = self_xa s" "self_ya s' = self_ya s" "self_xa_max s' = self_xa_max s"
    "self_ya_max s' = self_ya_max s" "self_xd s' = self_xd s" "self_yd s' = self_yd s"
    "self_xd_max s' = self_xd_max s" "self_yd_max s' = self_yd_max s"
    "self_servo_enabled s' = self_servo_enabled s"
    "self_joystick_enabled s' = self_joystick_enabled s" "self_moving s' = self_moving s"
proof -
  from assms have a: "s = s'\<lparr>self_port := self_port s, self_error := self_error s\<rparr>"
    by (simp only: io_only_def)
  show
    "self_x_ecpu s' = self_x_ecpu s" "self_y_ecpu s' = self_y_ecpu s" "self_x s' = self_x s"
    "self_y s' = self_y s" "self_x_min s' = self_x_min s" "self_y_min s' = self_y_min s"
    "self_x_max s' = self_x_max s" "self_y_max s' = self_y_max s" "self_xptc s' = self_xptc s"
    "self_yptc s' = self_yptc s" "self_xpt s' = self_xpt s" "self_ypt s' = self_ypt s"
    "self_xptc_max s' = self_xptc_max s" "self_yptc_max s' = self_yptc_max s"
    "self_xpt_max s' = self_xpt_max s" "self_ypt_max s' = self_ypt_max s"
    "self_xst s' = self_xst s" "self_yst s' = self_yst s" "self_xv s' = self_xv s"
    "self_yv s' = self_yv s" "self_xv_max s' = self_xv_max s" "self_yv_max s' = self_yv_max s"
    "self_xa s' = self_xa s" "self_ya s' = self_ya s" "self_xa_max s' = self_xa_max s"
    "self_ya_max s' = self_ya_max s" "self_xd s' = self_xd s" "self_yd s' = self_yd s"
    "self_xd_max s' = self_xd_max s" "self_yd_max s' = self_yd_max s"
    "self_servo_enabled s' = self_servo_enabled s"
    "self_joystick_enabled s' = self_joystick_enabled s" "self_moving s' = self_moving s"
    by (subst a, simp)+
qed

lemma written_port_write: "written (port_write bs p) = written p @ [bs]"
  by (simp add: port_write_def)

lemma written_port_readline: "written (snd (port_readline p)) = written p"
  by (simp add: port_readline_def Let_def split: list.split)

lemma written_port_read: "written (snd (port_read n p)) = written p"
  by (simp add: port_read_def)

lemma written_read_responses: "written (snd (read_responses p acc)) = written p"
proof (induction p acc rule: read_responses.induct)
  case (1 p responses)
  show ?case
  proof (cases "port_readline p")
    case (Pair response p')
    then have w: "written p' = written p"
      using written_port_readline [of p] by simp
    show ?thesis
      using 1 [OF Pair [symmetric]] Pair w
      by (subst read_responses.simps) (simp split: sum.split)
  qed
qed

lemma check_errors_io:
  assumes "check_errors s = (r, s')"
  shows "io_only s s'" and "written (self_port s') = written (self_port s) @ [''ERR?\<newline>'']"
proof -
  obtain line p where rl: "port_readline (port_write ''ERR?\<newline>'' (self_port s)) = (line, p)"
    by (cases "port_readline (port_write ''ERR?\<newline>'' (self_port s))")
  have s': "s' = s\<lparr>self_port := p, self_error := line\<rparr>"
    using assms rl by (auto simp: check_errors_def Let_def split: if_splits sum.splits)
  show "io_only s s'"
    unfolding s' by (rule io_only_port_error)
  have "written p = written (port_write ''ERR?\<newline>'' (self_port s))"
    using written_port_readline [of "port_write ''ERR?\<newline>'' (self_port s)"] rl by simp
  then show "written (self_port s') = written (self_port s) @ [''ERR?\<newline>'']"
    by (simp add: s' written_port_write)
qed

lemma check_errors_Inr:
  "check_errors s = (Inr u, s') \<Longrightarrow> self_error s' = ''0\<newline>''"
  by (auto simp: check_errors_def Let_def split: if_splits sum.splits prod.splits)

lemma check_errors_Inl:
  "check_errors s = (Inl e, s') \<Longrightarrow>
     self_error s' \<noteq> ''0\<newline>'' \<and> (e = RuntimeError (self_error s') \<or> e = UnicodeDecodeError)"
  by (auto simp: check_errors_def Let_def decode_ascii_def split: if_splits sum.splits prod.splits)

lemma and_then_cases:
  assumes "and_then m f = (r, s')"
  obtains (raised) e where "m = (Inl e, s')" and "r = Inl e"
        | (returned) v s1 where "m = (Inr v, s1)" and "f v s1 = (r, s')"
proof (cases m)
  case (Pair a s1)
  show ?thesis
  proof (cases a)
    case (Inl e)
    with Pair assms have "m = (Inl e, s')" and "r = Inl e"
      by (simp_all add: and_then_def)
    then show ?thesis by (rule raised)
  next
    case (Inr v)
    with Pair assms have "m = (Inr v, s1)" and "f v s1 = (r, s')"
      by (simp_all add: and_then_def)
    then show ?thesis by (rule returned)
  qed
qed

lemma and_then_Inr: "and_then (Inr v, s) f = f v s"
  by (simp add: and_then_def)


lemma written_send_port: "written (send_port cmd respond p) = written p @ [cmd @ [NL]]"
  by (simp add: send_port_def written_read_responses written_port_write)

lemma send_cases:
  assumes "send cmd respond s = (r, s')"
  obtains (encode) "\<not> is_ascii cmd" and "r = Inl UnicodeEncodeError" and "s' = s"
  | (read) e where "is_ascii cmd" and "r = Inl e" and "s' = s\<lparr>self_port := send_port cmd respond (self_port s)\<rparr>"
  | (checked) u where "is_ascii cmd" and "in_waiting (send_port cmd respond (self_port s)) = 0"
      and "check_errors (s\<lparr>self_port := send_port cmd respond (self_port s)\<rparr>) = (u, s')"
      and "case u of Inl e \<Rightarrow> r = Inl e | Inr _ \<Rightarrow> \<exists>v. r = Inr v"
proof (cases "is_ascii cmd")
  case False
  with assms have "r = Inl UnicodeEncodeError" and "s' = s"
    by (auto simp: send_def encode_ascii_def)
  with False show ?thesis by (rule encode)
next
  case True
  let ?p = "send_port cmd respond (self_port s)"
  let ?s1 = "s\<lparr>self_port := ?p\<rparr>"
  let ?k = "\<lambda>responses s1.
               if in_waiting (self_port s1) \<noteq> 0
               then (Inl (AssertionError in_waiting_is_zero), s1)
               else and_then (check_errors s1) (\<lambda>_ s2. (Inr responses, s2))"
  obtain m where m: "send cmd respond s = and_then m ?k" and fst_m: "snd m = ?s1"
    using True
    by (cases respond; cases "read_responses (port_write (cmd @ [NL]) (self_port s)) []")
       (auto simp: send_def encode_ascii_def send_port_def split: sum.splits)
  from assms m have "and_then m ?k = (r, s')" by simp
  then show ?thesis
  proof (cases rule: and_then_cases)
    case (raised e)
    with fst_m have "s' = ?s1" by simp
    with True raised(2) show ?thesis by (rule read)
  next
    case (returned v s1)
    with fst_m have s1: "s1 = ?s1" by simp
    show ?thesis
    proof (cases "in_waiting ?p = 0")
      case False
      with returned(2) s1 have "r = Inl (AssertionError in_waiting_is_zero)" and "s' = ?s1"
        by simp_all
      with True show ?thesis by (rule read)
    next
      case zero: True
      with returned(2) s1 have ce: "and_then (check_errors ?s1) (\<lambda>_ s2. (Inr v, s2)) = (r, s')"
        by simp
      obtain u s2 where u: "check_errors ?s1 = (u, s2)"
        by (cases "check_errors ?s1")
      with ce have "s2 = s'" and "case u of Inl e \<Rightarrow> r = Inl e | Inr _ \<Rightarrow> \<exists>v. r = Inr v"
        by (auto simp: and_then_def split: sum.splits)
      with True zero u show ?thesis
        by (auto intro: checked)
    qed
  qed
qed

lemma wrote_Nil: "wrote s s []"
  by (simp add: wrote_def)

lemma wrote_trans: "wrote s s1 a \<Longrightarrow> wrote s1 s2 b \<Longrightarrow> wrote s s2 (a @ b)"
  by (simp add: wrote_def)

lemma send_io:
  assumes "send cmd respond s = (r, s')"
  shows "io_only s s'"
  using assms
proof (cases rule: send_cases)
  case encode
  then show ?thesis by (simp add: io_only_refl)
next
  case (read e)
  then show ?thesis by (simp add: io_only_port)
next
  case (checked u)
  from checked(3) have "io_only (s\<lparr>self_port := send_port cmd respond (self_port s)\<rparr>) s'"
    by (rule check_errors_io)
  with io_only_port show ?thesis by (rule io_only_trans)
qed

lemma send_wrote:
  assumes "send cmd respond s = (r, s')"
  shows "wrote s s' [] \<or> wrote s s' [cmd @ [NL]] \<or> wrote s s' [cmd @ [NL], ''ERR?\<newline>'']"
  using assms
proof (cases rule: send_cases)
  case encode
  then show ?thesis by (simp add: wrote_def)
next
  case (read e)
  then show ?thesis by (simp add: wrote_def written_send_port)
next
  case (checked u)
  from checked(3) have "written (self_port s')
      = written (self_port (s\<lparr>self_port := send_port cmd respond (self_port s)\<rparr>)) @ [''ERR?\<newline>'']"
    by (rule check_errors_io)
  then show ?thesis by (simp add: wrote_def written_send_port)
qed

lemma send_Inr:
  assumes "send cmd respond s = (Inr v, s')"
  shows "wrote s s' [cmd @ [NL], ''ERR?\<newline>''] \<and> self_error s' = ''0\<newline>''
    \<and> in_waiting (send_port cmd respond (self_port s)) = 0"
  using assms
proof (cases rule: send_cases)
  case encode
  then show ?thesis by simp
next
  case (read e)
  then show ?thesis by simp
next
  case (checked u)
  from checked(4) obtain u' where u: "u = Inr u'"
    by (cases u) simp_all
  from checked(3) have "written (self_port s')
      = written (self_port (s\<lparr>self_port := send_port cmd respond (self_port s)\<rparr>)) @ [''ERR?\<newline>'']"
    by (rule check_errors_io)
  then have "wrote s s' [cmd @ [NL], ''ERR?\<newline>'']"
    by (simp add: wrote_def written_send_port)
  moreover from checked(3) u have "self_error s' = ''0\<newline>''"
    by (simp add: check_errors_Inr)
  ultimately show ?thesis
    using checked(2) by simp
qed

lemma poll_motion_status_written:
  assumes "poll_motion_status p = Some p'"
  shows "\<exists>k. written p' = written p @ replicate (Suc k) [ENQ]"
  using assms
proof (induction p p' rule: poll_motion_status.raw_induct [rotated, consumes 1, case_names step])
  case (step poll p p')
  obtain response p1 where rd: "port_read 2 (port_write [ENQ] p) = (response, p1)"
    by (cases "port_read 2 (port_write [ENQ] p)")
  then have w1: "written p1 = written p @ [[ENQ]]"
    using written_port_read [of 2 "port_write [ENQ] p"] by (simp add: written_port_write)
  show ?case
  proof (cases "response = ''0\<newline>''")
    case True
    with step(2) rd have "p' = p1" by simp
    with w1 have "written p' = written p @ replicate (Suc 0) [ENQ]" by simp
    then show ?thesis by blast
  next
    case False
    with step(2) rd have "poll p1 = Some p'" by simp
    then obtain k where "written p' = written p1 @ replicate (Suc k) [ENQ]"
      using step(1) by blast
    with w1 have "written p' = written p @ replicate (Suc (Suc k)) [ENQ]"
      by simp
    then show ?thesis by blast
  qed
qed

subsection \<open>The commands are ASCII text\<close>

lemma is_ascii_append [simp]: "is_ascii (a @ b) = (is_ascii a \<and> is_ascii b)"
  by (simp add: is_ascii_def)

lemma is_ascii_Cons: "is_ascii (c # cs) = ((of_char c :: nat) < 128 \<and> is_ascii cs)"
  by (simp add: is_ascii_def)

lemma is_ascii_Nil [simp]: "is_ascii []"
  by (simp add: is_ascii_def)

lemma is_ascii_replicate: "(of_char c :: nat) < 128 \<Longrightarrow> is_ascii (replicate n c)"
  by (simp add: is_ascii_def list_all_iff)

lemma digit_char_ascii: "d < 10 \<Longrightarrow> (of_char (digit_char d) :: nat) < 128"
proof -
  assume "d < 10"
  then have "d \<in> {0, 1, 2, 3, 4, 5, 6, 7, 8, 9}"
    by auto
  then show ?thesis
    by (auto simp: digit_char_def)
qed

lemma is_ascii_show_nat: "is_ascii (show_nat n)"
proof (induction n rule: show_nat.induct)
  case (1 n)
  show ?case
  proof (cases "n < 10")
    case True
    then show ?thesis
      by (subst show_nat.simps) (simp add: is_ascii_Cons digit_char_ascii)
  next
    case False
    with 1 have "is_ascii (show_nat (n div 10))" by simp
    moreover have "(of_char (digit_char (n mod 10)) :: nat) < 128"
      by (rule digit_char_ascii) simp
    ultimately show ?thesis
      using False by (subst show_nat.simps) (simp add: is_ascii_Cons)
  qed
qed

lemma is_ascii_show_int: "is_ascii (show_int i)"
  by (simp add: show_int_def is_ascii_Cons is_ascii_show_nat)

lemma is_ascii_fmt9: "is_ascii (fmt9 v)"
  by (simp add: fmt9_def Let_def is_ascii_Cons is_ascii_show_nat is_ascii_replicate)

lemma is_ascii_cmds:
  "is_ascii (move_cmd vx vy)" "is_ascii (velocity_cmd vx vy)" "is_ascii (acceleration_cmd vx vy)"
  "is_ascii (settling_cmd vx vy)" "is_ascii (deceleration_cmd vx vy)"
  "is_ascii (tolerance_exit_cmd cx cy)"
  "is_ascii (tolerance_enter_cmd cx cy margin)"
  by (simp_all add: move_cmd_def velocity_cmd_def acceleration_cmd_def settling_cmd_def
      deceleration_cmd_def
      tolerance_exit_cmd_def tolerance_enter_cmd_def is_ascii_Cons is_ascii_fmt9 is_ascii_show_int)

subsection \<open>Evaluating on concrete inputs\<close>

lemma show_nat_digit: "n < 10 \<Longrightarrow> show_nat n = [digit_char n]"
  by (simp add: show_nat.simps)

lemma show_nat_more: "\<not> n < 10 \<Longrightarrow> show_nat n = show_nat (n div 10) @ [digit_char (n mod 10)]"
  by (subst show_nat.simps) simp

lemma replicate_numeral: "replicate (numeral k) c = c # replicate (pred_numeral k) c"
  by (simp add: numeral_eq_Suc)

lemmas eval_text = fmt9_def round_half_even_def show_int_def py_int_def Let_def
  show_nat_digit show_nat_more digit_char_def replicate_numeral

lemmas eval_port = send_def encode_ascii_def is_ascii_def and_then_def check_errors_def
  decode_ascii_def port_write_def port_readline_def port_read_def in_waiting_def

subsection \<open>Rounding\<close>


lemma round_half_even_of_int: "round_half_even (of_int n) = n"
  by (simp add: round_half_even_def)

lemma floor_log2_eqI:
  fixes x :: real
  assumes "2 powi e \<le> x" "x < 2 powi (e + 1)"
  shows "\<lfloor>log 2 x\<rfloor> = e"
proof -
  have pos: "0 < x"
    using assms(1) by (smt (verit) zero_less_power_int)
  have a: "2 powr real_of_int e \<le> x"
    by (subst powr_real_of_int') (use assms in simp_all)
  have b: "x < 2 powr real_of_int (e + 1)"
    by (subst powr_real_of_int') (use assms in simp_all)
  have "(1::real) < 2"
    by simp
  from floor_log_eq_powr_iff [OF pos this, of e] a b show ?thesis
    by blast
qed

lemma rnd_eval:
  assumes "2 powi e \<le> \<bar>x\<bar>" "\<bar>x\<bar> < 2 powi (e + 1)" "- 1022 \<le> e"
  shows "rnd x = of_int (round_half_even (x / 2 powi (e - 52))) * 2 powi (e - 52)"
proof -
  have "\<lfloor>log 2 \<bar>x\<bar>\<rfloor> = e"
    using assms(1,2) by (rule floor_log2_eqI)
  moreover have "x \<noteq> 0"
    using assms(1) by (smt (verit) zero_less_power_int abs_zero)
  ultimately show ?thesis
    using assms(3) by (simp add: rnd_def Let_def max_def)
qed

lemma rnd_eval_subnormal:
  assumes "x \<noteq> 0" "\<bar>x\<bar> < 2 powi (- 1022)"
  shows "rnd x = of_int (round_half_even (x / 2 powi (- 1074))) * 2 powi (- 1074)"
proof -
  have pos: "0 < \<bar>x\<bar>" using assms(1) by simp
  have "log 2 \<bar>x\<bar> < - 1022"
  proof -
    have "\<bar>x\<bar> < 2 powr (- 1022)"
      using assms(2) powr_real_of_int' [of "2::real" "- 1022"] by simp
    with pos show ?thesis
      by (simp add: log_less_iff)
  qed
  then have "\<lfloor>log 2 \<bar>x\<bar>\<rfloor> \<le> - 1022"
    by linarith
  then have "max \<lfloor>log 2 \<bar>x\<bar>\<rfloor> (- 1022) = - 1022"
    by simp
  with assms(1) show ?thesis
    by (simp add: rnd_def Let_def)
qed




















subsection \<open>Unit conversion\<close>

lemma py_int_of_int: "py_int (of_int n) = n"
  by (simp add: py_int_def)




text \<open>The conversions on the values used in the examples below.\<close>

lemma um_to_counts_4_1000: "um_to_counts 4 1000 = 4"
proof -
  have a: "rnd (milli * 4) = 1152921504606847 / 2 ^ 58"
    using rnd_eval [of "- 8" "milli * 4"] by (simp add: round_half_even_def milli_def)
  have b: "rnd ((1152921504606847 / 2 ^ 58) * 1000) = 4"
    using rnd_eval [of "2" "(1152921504606847 / 2 ^ 58) * 1000"] by (simp add: round_half_even_def)
  show ?thesis
    by (simp only: um_to_counts_def a b) (simp add: py_int_def)
qed

lemma um_to_counts_4_2000: "um_to_counts 4 2000 = 8"
proof -
  have a: "rnd (milli * 4) = 1152921504606847 / 2 ^ 58"
    using rnd_eval [of "- 8" "milli * 4"] by (simp add: round_half_even_def milli_def)
  have b: "rnd ((1152921504606847 / 2 ^ 58) * 2000) = 8"
    using rnd_eval [of "3" "(1152921504606847 / 2 ^ 58) * 2000"] by (simp add: round_half_even_def)
  show ?thesis
    by (simp only: um_to_counts_def a b) (simp add: py_int_def)
qed

lemma um_to_counts_tenth_1000: "um_to_counts (1 / 10) 1000 = 0"
proof -
  have a: "rnd (milli * (1 / 10)) = 7378697629483821 / 2 ^ 66"
    using rnd_eval [of "- 14" "milli * (1 / 10)"] by (simp add: round_half_even_def milli_def)
  have b: "rnd ((7378697629483821 / 2 ^ 66) * 1000) = 3602879701896397 / 2 ^ 55"
    using rnd_eval [of "- 4" "(7378697629483821 / 2 ^ 66) * 1000"] by (simp add: round_half_even_def)
  show ?thesis
    by (simp only: um_to_counts_def a b) (simp add: py_int_def)
qed

lemma um_to_counts_2_1000: "um_to_counts 2 1000 = 2"
proof -
  have a: "rnd (milli * 2) = 1152921504606847 / 2 ^ 59"
    using rnd_eval [of "- 9" "milli * 2"] by (simp add: round_half_even_def milli_def)
  have b: "rnd ((1152921504606847 / 2 ^ 59) * 1000) = 2"
    using rnd_eval [of "1" "(1152921504606847 / 2 ^ 59) * 1000"] by (simp add: round_half_even_def)
  show ?thesis
    by (simp only: um_to_counts_def a b) (simp add: py_int_def)
qed

lemma um_to_counts_10_1000: "um_to_counts 10 1000 = 10"
proof -
  have a: "rnd (milli * 10) = 5764607523034235 / 2 ^ 59"
    using rnd_eval [of "- 7" "milli * 10"] by (simp add: round_half_even_def milli_def)
  have b: "rnd ((5764607523034235 / 2 ^ 59) * 1000) = 10"
    using rnd_eval [of "3" "(5764607523034235 / 2 ^ 59) * 1000"] by (simp add: round_half_even_def)
  show ?thesis
    by (simp only: um_to_counts_def a b) (simp add: py_int_def)
qed

lemma um_to_counts_20_1000: "um_to_counts 20 1000 = 20"
proof -
  have a: "rnd (milli * 20) = 5764607523034235 / 2 ^ 58"
    using rnd_eval [of "- 6" "milli * 20"] by (simp add: round_half_even_def milli_def)
  have b: "rnd ((5764607523034235 / 2 ^ 58) * 1000) = 20"
    using rnd_eval [of "4" "(5764607523034235 / 2 ^ 58) * 1000"] by (simp add: round_half_even_def)
  show ?thesis
    by (simp only: um_to_counts_def a b) (simp add: py_int_def)
qed

lemma counts_to_um_4_1000: "counts_to_um 4 1000 = Inr 4"
proof -
  have i: "rnd (real_of_int 4) = 4"
    using rnd_eval [of "2" "real_of_int 4"] by (simp add: round_half_even_def)
  have m: "rnd (1000 * 4) = 4000"
    using rnd_eval [of "11" "1000 * 4"] by (simp add: round_half_even_def)
  have d: "rnd (4000 / 1000) = 4"
    using rnd_eval [of "2" "4000 / 1000"] by (simp add: round_half_even_def)
  show ?thesis
    by (simp only: counts_to_um_def i m d) simp
qed

lemma counts_to_um_4_2000: "counts_to_um 4 2000 = Inr 2"
proof -
  have i: "rnd (real_of_int 4) = 4"
    using rnd_eval [of "2" "real_of_int 4"] by (simp add: round_half_even_def)
  have m: "rnd (1000 * 4) = 4000"
    using rnd_eval [of "11" "1000 * 4"] by (simp add: round_half_even_def)
  have d: "rnd (4000 / 2000) = 2"
    using rnd_eval [of "1" "4000 / 2000"] by (simp add: round_half_even_def)
  show ?thesis
    by (simp only: counts_to_um_def i m d) simp
qed

lemma counts_to_um_2_1000: "counts_to_um 2 1000 = Inr 2"
proof -
  have i: "rnd (real_of_int 2) = 2"
    using rnd_eval [of "1" "real_of_int 2"] by (simp add: round_half_even_def)
  have m: "rnd (1000 * 2) = 2000"
    using rnd_eval [of "10" "1000 * 2"] by (simp add: round_half_even_def)
  have d: "rnd (2000 / 1000) = 2"
    using rnd_eval [of "1" "2000 / 1000"] by (simp add: round_half_even_def)
  show ?thesis
    by (simp only: counts_to_um_def i m d) simp
qed

lemma counts_to_um_10_2000: "counts_to_um 10 2000 = Inr 5"
proof -
  have i: "rnd (real_of_int 10) = 10"
    using rnd_eval [of "3" "real_of_int 10"] by (simp add: round_half_even_def)
  have m: "rnd (1000 * 10) = 10000"
    using rnd_eval [of "13" "1000 * 10"] by (simp add: round_half_even_def)
  have d: "rnd (10000 / 2000) = 5"
    using rnd_eval [of "2" "10000 / 2000"] by (simp add: round_half_even_def)
  show ?thesis
    by (simp only: counts_to_um_def i m d) simp
qed

lemma rnd_2: "rnd 2 = 2"
  using rnd_eval [of "1" "2"] by (simp add: round_half_even_def)

lemma rnd_4: "rnd 4 = 4"
  using rnd_eval [of "2" "4"] by (simp add: round_half_even_def)

lemma rnd_10: "rnd 10 = 10"
  using rnd_eval [of "3" "10"] by (simp add: round_half_even_def)

lemma rnd_19_tenths: "rnd (19 / 10) = 4278419646001971 / 2 ^ 51"
  using rnd_eval [of "0" "19 / 10"] by (simp add: round_half_even_def)

lemma rnd_39_tenths: "rnd (39 / 10) = 8782019273372467 / 2 ^ 51"
  using rnd_eval [of "1" "39 / 10"] by (simp add: round_half_even_def)

lemma rnd_99_tenths: "rnd (99 / 10) = 5573204538870989 / 2 ^ 49"
  using rnd_eval [of "3" "99 / 10"] by (simp add: round_half_even_def)



lemmas tolerance_values = um_to_counts_4_1000 um_to_counts_4_2000 um_to_counts_tenth_1000
  um_to_counts_2_1000 um_to_counts_10_1000 um_to_counts_20_1000 counts_to_um_4_1000
  counts_to_um_4_2000 counts_to_um_2_1000 counts_to_um_10_2000 rnd_2 rnd_4 rnd_10
  rnd_19_tenths rnd_39_tenths rnd_99_tenths





text \<open>
  Claim C7 fails for a small calibration. With \<open>2\<^sup>-\<^sup>1\<^sup>0\<^sup>7\<^sup>4\<close> counts per millimetre, the
  smallest positive float, one count is \<open>1000 \<cdot> 2\<^sup>1\<^sup>0\<^sup>7\<^sup>4\<close> micrometres, beyond the float
  range: the quotient is the infinity, and converting it back raises
  \<^verbatim>\<open>OverflowError\<close>.
\<close>

theorem conversion_round_trip_counterexample:
  "(0::real) < 1 / 2 ^ 1074
   \<and> float_counts_to_um 1 (1 / 2 ^ 1074) = Inr PosInf
   \<and> float_um_to_counts PosInf (1 / 2 ^ 1074) = Inl OverflowError"
proof -
  have i: "rnd 1 = 1"
    using rnd_eval [of 0 1] by (simp add: round_half_even_def)
  have m: "rnd 1000 = 1000"
    using rnd_eval [of 9 1000] by (simp add: round_half_even_def)
  have d: "rnd (1000 * 2 ^ 1074) = 1000 * 2 ^ 1074"
    using rnd_eval [of 1083 "1000 * 2 ^ 1074"] by (simp add: round_half_even_def)
  have "fl 1 = Finite 1" "fl 1000 = Finite 1000" "fl (1000 * 2 ^ 1074) = PosInf"
    by (simp_all only: fl_def Let_def i m d) simp_all
  then have "float_counts_to_um 1 (1 / 2 ^ 1074) = Inr PosInf"
    by (simp add: float_counts_to_um_def float_of_int_def fdiv_def)
  moreover have "float_um_to_counts PosInf (1 / 2 ^ 1074) = Inl OverflowError"
    by (simp add: float_um_to_counts_def fmul_def int_of_float_def milli_def)
  ultimately show ?thesis
    by simp
qed



subsection \<open>The deceleration setter\<close>

lemma deceleration_cmd_is_acceleration_cmd: "deceleration_cmd vx vy = acceleration_cmd vx vy"
  by (simp add: deceleration_cmd_def acceleration_cmd_def)

lemma set_deceleration_in_range:
  assumes "0 \<le> vx" and "vx \<le> self_xd_max s" and "0 \<le> vy" and "vy \<le> self_yd_max s"
  shows "set_deceleration (Some vx) (Some vy) s
     = and_then (send (deceleration_cmd vx vy) False (s\<lparr>self_xd := vx, self_yd := vy\<rparr>))
         (\<lambda>_ s2. (Inr (), s2))"
  using assms by (simp add: set_deceleration_def)

text \<open>
  Claim C6. For every pair of deceleration values within \<open>[0, self_xd_max]\<close> and
  \<open>[0, self_yd_max]\<close>, \<^verbatim>\<open>set_deceleration\<close> writes the very command text that
  \<^verbatim>\<open>set_acceleration\<close> writes for these values, with the mnemonic \<^verbatim>\<open>ACC\<close>, formatted
  with the two values, and nothing else but the error query; and the cached
  deceleration fields hold the two values afterwards.
\<close>

theorem set_deceleration_sends_ACC:
  assumes "0 \<le> vx" and "vx \<le> self_xd_max s" and "0 \<le> vy" and "vy \<le> self_yd_max s"
  shows "case set_deceleration (Some vx) (Some vy) s of
           (r, s') \<Rightarrow>
             self_xd s' = vx \<and> self_yd s' = vy
             \<and> (wrote s s' [acceleration_cmd vx vy @ [NL]]
                  \<or> wrote s s' [acceleration_cmd vx vy @ [NL], ''ERR?\<newline>''])
             \<and> take 4 (acceleration_cmd vx vy) = ''ACC ''"
proof -
  let ?s1 = "s\<lparr>self_xd := vx, self_yd := vy\<rparr>"
  obtain r0 s' where sent: "send (deceleration_cmd vx vy) False ?s1 = (r0, s')"
    by (cases "send (deceleration_cmd vx vy) False ?s1")
  have res: "set_deceleration (Some vx) (Some vy) s = (map_sum id (\<lambda>_. ()) r0, s')"
    by (cases r0) (simp_all add: set_deceleration_in_range [OF assms] sent and_then_def)
  from sent have "io_only ?s1 s'"
    by (rule send_io)
  then have "self_xd s' = self_xd ?s1" and "self_yd s' = self_yd ?s1"
    by (rule io_only_fields)+
  then have cache: "self_xd s' = vx" "self_yd s' = vy"
    by simp_all
  have "is_ascii (deceleration_cmd vx vy)"
    by (rule is_ascii_cmds)
  with sent have "\<not> wrote ?s1 s' []"
    by (cases rule: send_cases) (simp_all add: wrote_def written_send_port, drule check_errors_io(2), simp add: written_send_port)
  with send_wrote [OF sent] have "wrote ?s1 s' [deceleration_cmd vx vy @ [NL]]
      \<or> wrote ?s1 s' [deceleration_cmd vx vy @ [NL], ''ERR?\<newline>'']"
    by simp
  then have traffic: "wrote s s' [acceleration_cmd vx vy @ [NL]]
      \<or> wrote s s' [acceleration_cmd vx vy @ [NL], ''ERR?\<newline>'']"
    by (simp add: wrote_def deceleration_cmd_is_acceleration_cmd)
  have "take 4 (acceleration_cmd vx vy) = ''ACC ''"
    by (simp add: acceleration_cmd_def)
  with cache traffic show ?thesis
    by (simp add: res)
qed

theorem set_deceleration_sends_ACC_witness:
  "(0::real) \<le> 500 \<and> 500 \<le> self_xd_max (example_stage ['''', ''0\<newline>''])
   \<and> (0::real) \<le> 250 \<and> 250 \<le> self_yd_max (example_stage ['''', ''0\<newline>''])
   \<and> (case set_deceleration (Some 500) (Some 250) (example_stage ['''', ''0\<newline>'']) of
         (r, s') \<Rightarrow>
           self_xd s' = 500 \<and> self_yd s' = 250
           \<and> (wrote (example_stage ['''', ''0\<newline>'']) s' [acceleration_cmd 500 250 @ [NL]]
                \<or> wrote (example_stage ['''', ''0\<newline>'']) s'
                     [acceleration_cmd 500 250 @ [NL], ''ERR?\<newline>''])
           \<and> take 4 (acceleration_cmd 500 250) = ''ACC '')
   \<and> set_deceleration (Some 500) (Some 250) (example_stage ['''', ''0\<newline>''])
       = (Inr (), (example_stage [])
           \<lparr>self_port := \<lparr>written = [''ACC 1 500.000000000 2 250.000000000 \<newline>'', ''ERR?\<newline>''],
                          in_buf = [], script = []\<rparr>,
            self_xd := 500, self_yd := 250\<rparr>)"
proof -
  have h: "(0::real) \<le> 500" "500 \<le> self_xd_max (example_stage ['''', ''0\<newline>''])"
    "(0::real) \<le> 250" "250 \<le> self_yd_max (example_stage ['''', ''0\<newline>''])"
    by (simp_all add: example_stage_def)
  have e: "set_deceleration (Some 500) (Some 250) (example_stage ['''', ''0\<newline>''])
       = (Inr (), (example_stage [])
           \<lparr>self_port := \<lparr>written = [''ACC 1 500.000000000 2 250.000000000 \<newline>'', ''ERR?\<newline>''],
                          in_buf = [], script = []\<rparr>,
            self_xd := 500, self_yd := 250\<rparr>)"
    by (simp add: set_deceleration_def example_stage_def deceleration_cmd_def eval_port eval_text)
  from h e set_deceleration_sends_ACC [OF h] show ?thesis
    by blast
qed

subsection \<open>The tolerance setter\<close>

text \<open>
  Claim C8, evaluated. On the example stage the y axis has 2000 counts per millimetre,
  so a tolerance of 4 micrometres is 8 counts of the y axis. The call converts it with
  the x calibration to 4 counts, and caches 2 micrometres for the y axis.
\<close>

theorem tolerance_y_counts_use_x_calibration:
  "fst (set_positional_tolerance_um (Some 4) (Some 4) (1 / 10)
          (example_stage ['''', ''0\<newline>'', '''', ''0\<newline>''])) = Inr ()
   \<and> self_yptc (snd (set_positional_tolerance_um (Some 4) (Some 4) (1 / 10)
          (example_stage ['''', ''0\<newline>'', '''', ''0\<newline>'']))) = 4
   \<and> self_ypt (snd (set_positional_tolerance_um (Some 4) (Some 4) (1 / 10)
          (example_stage ['''', ''0\<newline>'', '''', ''0\<newline>'']))) = 2
   \<and> um_to_counts 4 (self_y_ecpu (example_stage ['''', ''0\<newline>'', '''', ''0\<newline>''])) = 8
   \<and> written (self_port (snd (set_positional_tolerance_um (Some 4) (Some 4) (1 / 10)
          (example_stage ['''', ''0\<newline>'', '''', ''0\<newline>'']))))
       = [''SPA 1 0x407 4 2 0x407 4 \<newline>'', ''ERR?\<newline>'',
          ''SPA 1 0x406 3 2 0x406 3 \<newline>'', ''ERR?\<newline>'']"
  by (simp add: set_positional_tolerance_um_def example_stage_def tolerance_values
      tolerance_exit_cmd_def tolerance_enter_cmd_def eval_port eval_text)

text \<open>
  Claim C1 fails in two ways. A y tolerance whose counts equal the cached y bound is
  accepted and both commands are sent; and a rejected x tolerance of 20 counts
  replaces the cached 2 counts.
\<close>

theorem tolerance_rejection_counterexample:
  "self_yptc_max (example_stage ['''', ''0\<newline>'', '''', ''0\<newline>''])
     \<le> um_to_counts 10 (self_x_ecpu (example_stage ['''', ''0\<newline>'', '''', ''0\<newline>'']))
   \<and> fst (set_positional_tolerance_um (Some 2) (Some 10) (1 / 10)
          (example_stage ['''', ''0\<newline>'', '''', ''0\<newline>''])) = Inr ()
   \<and> written (self_port (snd (set_positional_tolerance_um (Some 2) (Some 10) (1 / 10)
          (example_stage ['''', ''0\<newline>'', '''', ''0\<newline>'']))))
       = [''SPA 1 0x407 2 2 0x407 10 \<newline>'', ''ERR?\<newline>'',
          ''SPA 1 0x406 1 2 0x406 9 \<newline>'', ''ERR?\<newline>'']
   \<and> self_xptc_max (example_stage []) \<le> um_to_counts 20 (self_x_ecpu (example_stage []))
   \<and> fst (set_positional_tolerance_um (Some 20) (Some 2) (1 / 10) (example_stage []))
       = Inl (AssertionError tolerance_below_max)
   \<and> self_xptc (example_stage []) = 2
   \<and> self_xptc (snd (set_positional_tolerance_um (Some 20) (Some 2) (1 / 10) (example_stage [])))
       = 20"
  by (simp add: set_positional_tolerance_um_def example_stage_def tolerance_values
      tolerance_exit_cmd_def tolerance_enter_cmd_def eval_port eval_text)

text \<open>
  Claim C1, amended. Let \<open>cx\<close>, \<open>cy\<close> and \<open>mc\<close> be the counts the call computes for the
  x tolerance, the y tolerance and the margin (all three with the x calibration; an
  omitted tolerance is the cached one). If \<open>cx\<close> is at least the cached x bound, or \<open>cy\<close>
  is greater than the cached y bound, or \<open>cx - mc\<close> or \<open>cy - mc\<close> is not positive, the
  call raises \<^verbatim>\<open>AssertionError\<close> and leaves the object as it was but for \<open>self_xptc\<close>
  and \<open>self_yptc\<close>, which hold \<open>cx\<close> and \<open>cy\<close>: the port is untouched, so no byte was
  written, and \<open>self_xpt\<close> and \<open>self_ypt\<close> are unchanged.
\<close>

theorem tolerance_rejection:
  fixes s :: controller and xpt ypt :: "real option" and margin :: real
  defines "cx \<equiv> um_to_counts (case xpt of None \<Rightarrow> self_xpt s | Some v \<Rightarrow> v) (self_x_ecpu s)"
    and "cy \<equiv> um_to_counts (case ypt of None \<Rightarrow> self_ypt s | Some v \<Rightarrow> v) (self_x_ecpu s)"
    and "mc \<equiv> um_to_counts margin (self_x_ecpu s)"
  assumes "self_xptc_max s \<le> cx \<or> self_yptc_max s < cy \<or> cx - mc \<le> 0 \<or> cy - mc \<le> 0"
  shows "\<exists>a. set_positional_tolerance_um xpt ypt margin s
           = (Inl (AssertionError a), s\<lparr>self_xptc := cx, self_yptc := cy\<rparr>)"
  using assms by (auto simp: set_positional_tolerance_um_def Let_def)

theorem tolerance_rejection_witness:
  "self_xptc_max (example_stage []) \<le> um_to_counts 20 (self_x_ecpu (example_stage []))
   \<and> set_positional_tolerance_um (Some 20) (Some 2) (1 / 10) (example_stage [])
       = (Inl (AssertionError tolerance_below_max),
          (example_stage [])\<lparr>self_xptc := 20, self_yptc := 2\<rparr>)"
  using tolerance_rejection [where s = "example_stage []" and xpt = "Some 20"
      and ypt = "Some 2" and margin = "1 / 10"]
  by (simp add: set_positional_tolerance_um_def example_stage_def tolerance_values eval_text)

subsection \<open>A command the device does not answer, and its error query\<close>

lemma port_readline_line:
  assumes "in_buf p = line @ NL # rest" and "NL \<notin> set line"
  shows "port_readline p = (line @ [NL], p\<lparr>in_buf := rest\<rparr>)"
proof -
  from assms(2) have "\<And>c. c \<in> set line \<Longrightarrow> c \<noteq> NL"
    by blast
  then have "takeWhile (\<lambda>c. c \<noteq> NL) (line @ NL # rest) = line"
    and "dropWhile (\<lambda>c. c \<noteq> NL) (line @ NL # rest) = NL # rest"
    by (simp_all add: takeWhile_append2 dropWhile_append2)
  then show ?thesis
    by (simp add: port_readline_def assms(1))
qed

lemma check_errors_reply:
  assumes "in_buf (self_port s) = []" and "script (self_port s) = (code @ [NL]) # rest"
    and "NL \<notin> set code"
  shows "check_errors s =
     (if code = ''0'' then Inr ()
      else if is_ascii code then Inl (RuntimeError (code @ [NL])) else Inl UnicodeDecodeError,
      s\<lparr>self_port := (self_port s)\<lparr>written := written (self_port s) @ [''ERR?\<newline>''],
                                     in_buf := [], script := rest\<rparr>,
        self_error := code @ [NL]\<rparr>)"
proof -
  let ?p = "port_write ''ERR?\<newline>'' (self_port s)"
  have "in_buf ?p = code @ NL # []"
    by (simp add: port_write_def assms)
  then have "port_readline ?p = (code @ [NL], ?p\<lparr>in_buf := []\<rparr>)"
    using assms(3) by (rule port_readline_line)
  moreover have "?p\<lparr>in_buf := []\<rparr> = (self_port s)\<lparr>written := written (self_port s) @ [''ERR?\<newline>''],
                                     in_buf := [], script := rest\<rparr>"
    by (simp add: port_write_def assms)
  moreover have "is_ascii (code @ [NL]) = is_ascii code"
    by (simp add: is_ascii_Cons)
  ultimately show ?thesis
    by (simp add: check_errors_def decode_ascii_def)
qed

lemma send_False_reply:
  assumes "is_ascii cmd" and "in_buf (self_port s) = []"
    and "script (self_port s) = [] # (code @ [NL]) # rest" and "NL \<notin> set code"
  shows "send cmd False s =
     (if code = ''0'' then Inr None
      else if is_ascii code then Inl (RuntimeError (code @ [NL])) else Inl UnicodeDecodeError,
      s\<lparr>self_port := (self_port s)\<lparr>written := written (self_port s) @ [cmd @ [NL], ''ERR?\<newline>''],
                                     in_buf := [], script := rest\<rparr>,
        self_error := code @ [NL]\<rparr>)"
proof -
  let ?s1 = "s\<lparr>self_port := port_write (cmd @ [NL]) (self_port s)\<rparr>"
  have p1: "in_buf (self_port ?s1) = []" "script (self_port ?s1) = (code @ [NL]) # rest"
    "written (self_port ?s1) = written (self_port s) @ [cmd @ [NL]]"
    by (simp_all add: port_write_def assms)
  have "send cmd False s = and_then (check_errors ?s1) (\<lambda>_ s2. (Inr None, s2))"
    using assms(1) p1(1) by (simp add: send_def encode_ascii_def and_then_Inr in_waiting_def)
  also have "check_errors ?s1 =
     (if code = ''0'' then Inr ()
      else if is_ascii code then Inl (RuntimeError (code @ [NL])) else Inl UnicodeDecodeError,
      ?s1\<lparr>self_port := (self_port ?s1)\<lparr>written := written (self_port ?s1) @ [''ERR?\<newline>''],
                                     in_buf := [], script := rest\<rparr>,
        self_error := code @ [NL]\<rparr>)"
    using p1(1,2) assms(4) by (rule check_errors_reply)
  finally show ?thesis
    by (simp add: and_then_def port_write_def)
qed

subsection \<open>The setters store before they send\<close>




subsection \<open>The read loop on a framed reply\<close>

lemma frame_Nil [simp]: "frame [] = []"
  by (simp add: frame_def)

lemma frame_Cons [simp]: "frame (b # bs) = b @ NL # frame bs"
  by (simp add: frame_def)

lemma is_ascii_rstrip: "is_ascii bs \<Longrightarrow> is_ascii (rstrip bs)"
proof -
  assume "is_ascii bs"
  then have "\<forall>c \<in> set bs. (of_char c :: nat) < 128"
    by (simp add: is_ascii_def list_all_iff)
  moreover have "set (rstrip bs) \<subseteq> set bs"
    using set_dropWhileD [of _ is_space "rev bs"] by (auto simp: rstrip_def)
  ultimately show ?thesis
    by (auto simp: is_ascii_def list_all_iff)
qed

lemma read_responses_line:
  assumes "in_buf p = b @ NL # tl_buf" and "NL \<notin> set b" and "is_ascii b"
  shows "read_responses p acc =
     (if b = [] \<or> last b \<noteq> CHR 0x20
      then (Inr (acc @ [rstrip (b @ [NL])]), p\<lparr>in_buf := tl_buf\<rparr>)
      else read_responses (p\<lparr>in_buf := tl_buf\<rparr>) (acc @ [rstrip (b @ [NL])]))"
proof -
  have rl: "port_readline p = (b @ [NL], p\<lparr>in_buf := tl_buf\<rparr>)"
    using assms(1,2) by (rule port_readline_line)
  have "is_ascii (b @ [NL])"
    using assms(3) by (simp add: is_ascii_Cons)
  then have dec: "decode_ascii (rstrip (b @ [NL])) = Inr (rstrip (b @ [NL]))"
    by (simp add: decode_ascii_def is_ascii_rstrip)
  have ends: "endswith_NL (b @ [NL])"
    by (simp add: endswith_NL_def)
  have before: "(b @ [NL]) ! (length (b @ [NL]) - 2) = last b" if "b \<noteq> []"
  proof -
    from that have "length b - 1 < length b" by (cases b) simp_all
    then have "(b @ [NL]) ! (length b - 1) = b ! (length b - 1)"
      by (simp add: nth_append)
    with that show ?thesis
      by (simp add: last_conv_nth)
  qed
  show ?thesis
  proof (cases "b = []")
    case True
    then show ?thesis
      using rl dec ends by (subst read_responses.simps) simp
  next
    case False
    then have "length (b @ [NL]) \<noteq> 1" by simp
    with False rl dec ends before [OF False] show ?thesis
      by (subst read_responses.simps) (simp del: length_append)
  qed
qed

lemma read_responses_frame:
  assumes "\<forall>b\<in>set bodies. NL \<notin> set b \<and> is_ascii b \<and> b \<noteq> [] \<and> last b = CHR 0x20"
    and "NL \<notin> set final" and "is_ascii final" and "final = [] \<or> last final \<noteq> CHR 0x20"
    and "in_buf p = frame (bodies @ [final]) @ extra"
  shows "read_responses p acc =
     (Inr (acc @ map (\<lambda>b. rstrip (b @ [NL])) (bodies @ [final])), p\<lparr>in_buf := extra\<rparr>)"
  using assms(1,5)
proof (induction bodies arbitrary: p acc)
  case Nil
  then have "in_buf p = final @ NL # extra" by simp
  then show ?case
    using assms(2-4) by (simp add: read_responses_line)
next
  case (Cons b bodies)
  from Cons.prems have buf: "in_buf p = b @ NL # (frame (bodies @ [final]) @ extra)"
    and b: "NL \<notin> set b" "is_ascii b" "b \<noteq> []" "last b = CHR 0x20"
    and rest: "\<forall>b\<in>set bodies. NL \<notin> set b \<and> is_ascii b \<and> b \<noteq> [] \<and> last b = CHR 0x20"
    by simp_all
  have "read_responses p acc
      = read_responses (p\<lparr>in_buf := frame (bodies @ [final]) @ extra\<rparr>) (acc @ [rstrip (b @ [NL])])"
    using read_responses_line [OF buf b(1,2)] b(3,4) by simp
  also have "\<dots> = (Inr ((acc @ [rstrip (b @ [NL])]) @ map (\<lambda>b. rstrip (b @ [NL])) (bodies @ [final])),
      p\<lparr>in_buf := frame (bodies @ [final]) @ extra\<rparr>\<lparr>in_buf := extra\<rparr>)"
    by (rule Cons.IH [OF rest]) simp
  finally show ?case by simp
qed

lemma read_responses_unterminated:
  assumes "\<forall>b\<in>set bodies. NL \<notin> set b \<and> is_ascii b \<and> b \<noteq> [] \<and> last b = CHR 0x20"
    and "NL \<notin> set partial" and "in_buf p = frame bodies @ partial"
  shows "read_responses p acc = (Inl (AssertionError response_endswith_newline), p\<lparr>in_buf := []\<rparr>)"
  using assms(1,3)
proof (induction bodies arbitrary: p acc)
  case Nil
  then have buf: "in_buf p = partial" by simp
  with assms(2) have "dropWhile (\<lambda>c. c \<noteq> NL) (in_buf p) = []"
    by auto
  then have "port_readline p = (partial, p\<lparr>in_buf := []\<rparr>)"
    using port_readline_Nil [of p] buf by simp
  moreover from assms(2) have "\<not> endswith_NL partial"
    by (metis endswith_NL_def last_in_set)
  ultimately show ?case
    by (subst read_responses.simps) simp
next
  case (Cons b bodies)
  from Cons.prems have buf: "in_buf p = b @ NL # (frame bodies @ partial)"
    and b: "NL \<notin> set b" "is_ascii b" "b \<noteq> []" "last b = CHR 0x20"
    and rest: "\<forall>b\<in>set bodies. NL \<notin> set b \<and> is_ascii b \<and> b \<noteq> [] \<and> last b = CHR 0x20"
    by simp_all
  have "read_responses p acc
      = read_responses (p\<lparr>in_buf := frame bodies @ partial\<rparr>) (acc @ [rstrip (b @ [NL])])"
    using read_responses_line [OF buf b(1,2)] b(3,4) by simp
  also have "\<dots> = (Inl (AssertionError response_endswith_newline),
      p\<lparr>in_buf := frame bodies @ partial\<rparr>\<lparr>in_buf := []\<rparr>)"
    by (rule Cons.IH [OF rest]) simp
  finally show ?case by simp
qed

subsection \<open>Sending a command that is answered\<close>

lemma send_True_read:
  assumes "is_ascii cmd"
    and "read_responses (port_write (cmd @ [NL]) (self_port s)) [] = (r, p)"
  shows "send cmd True s =
     (case r of
        Inl e \<Rightarrow> (Inl e, s\<lparr>self_port := p\<rparr>)
      | Inr responses \<Rightarrow>
          if in_waiting p \<noteq> 0 then (Inl (AssertionError in_waiting_is_zero), s\<lparr>self_port := p\<rparr>)
          else and_then (check_errors (s\<lparr>self_port := p\<rparr>)) (\<lambda>_ s2. (Inr (Some responses), s2)))"
  using assms by (cases r) (simp_all add: send_def encode_ascii_def and_then_def)

text \<open>
  Claim C5. Let the device answer a command with the lines \<open>bodies @ [final]\<close>, each
  followed by the newline, where every line of \<open>bodies\<close> ends in a space and \<open>final\<close> is
  empty or does not end in a space, all of them ASCII text. Then \<^verbatim>\<open>_send\<close> with
  \<^verbatim>\<open>respond=True\<close> reads exactly these lines and, the error query answered with 0,
  returns them in order, each with its terminator and trailing whitespace stripped.
  Bytes that follow the final line are not read: they remain in the input buffer and
  the call raises the assertion on \<^verbatim>\<open>in_waiting\<close>. A reply that ends, after lines
  ending in a space, in bytes without a newline raises the assertion on the terminator.
\<close>

theorem send_reads_framed_reply:
  assumes "is_ascii cmd" and "in_buf (self_port s) = []"
    and "\<forall>b\<in>set bodies. NL \<notin> set b \<and> is_ascii b \<and> b \<noteq> [] \<and> last b = CHR 0x20"
    and "NL \<notin> set final" and "is_ascii final" and "final = [] \<or> last final \<noteq> CHR 0x20"
  shows "(script (self_port s) = frame (bodies @ [final]) # ''0\<newline>'' # rest \<longrightarrow>
       send cmd True s =
         (Inr (Some (map (\<lambda>b. rstrip (b @ [NL])) (bodies @ [final]))),
          s\<lparr>self_port := (self_port s)\<lparr>written := written (self_port s) @ [cmd @ [NL], ''ERR?\<newline>''],
                                         in_buf := [], script := rest\<rparr>,
            self_error := ''0\<newline>''\<rparr>))
    \<and> (extra \<noteq> [] \<longrightarrow> script (self_port s) = (frame (bodies @ [final]) @ extra) # rest \<longrightarrow>
       send cmd True s =
         (Inl (AssertionError in_waiting_is_zero),
          s\<lparr>self_port := (self_port s)\<lparr>written := written (self_port s) @ [cmd @ [NL]],
                                         in_buf := extra, script := rest\<rparr>\<rparr>))
    \<and> (NL \<notin> set partial \<longrightarrow> script (self_port s) = (frame bodies @ partial) # rest \<longrightarrow>
       send cmd True s =
         (Inl (AssertionError response_endswith_newline),
          s\<lparr>self_port := (self_port s)\<lparr>written := written (self_port s) @ [cmd @ [NL]],
                                         in_buf := [], script := rest\<rparr>\<rparr>))"
proof (intro conjI impI)
  let ?p = "port_write (cmd @ [NL]) (self_port s)"
  {
    assume sc: "script (self_port s) = frame (bodies @ [final]) # ''0\<newline>'' # rest"
    let ?q = "?p\<lparr>in_buf := []\<rparr>"
    have "in_buf ?p = frame (bodies @ [final]) @ []"
      by (simp add: port_write_def assms(2) sc)
    then have rd: "read_responses ?p [] = (Inr ([] @ map (\<lambda>b. rstrip (b @ [NL])) (bodies @ [final])), ?q)"
      by (rule read_responses_frame [OF assms(3-6)])
    have q: "in_buf (self_port (s\<lparr>self_port := ?q\<rparr>)) = []"
      "script (self_port (s\<lparr>self_port := ?q\<rparr>)) = (''0'' @ [NL]) # rest"
      by (simp_all add: port_write_def sc)
    have "check_errors (s\<lparr>self_port := ?q\<rparr>) =
       (Inr (), s\<lparr>self_port := ?q\<rparr>\<lparr>self_port := (self_port (s\<lparr>self_port := ?q\<rparr>))
            \<lparr>written := written (self_port (s\<lparr>self_port := ?q\<rparr>)) @ [''ERR?\<newline>''],
             in_buf := [], script := rest\<rparr>, self_error := ''0'' @ [NL]\<rparr>)"
      using check_errors_reply [OF q] by simp
    then show "send cmd True s =
         (Inr (Some (map (\<lambda>b. rstrip (b @ [NL])) (bodies @ [final]))),
          s\<lparr>self_port := (self_port s)\<lparr>written := written (self_port s) @ [cmd @ [NL], ''ERR?\<newline>''],
                                         in_buf := [], script := rest\<rparr>,
            self_error := ''0\<newline>''\<rparr>)"
      by (simp add: send_True_read [OF assms(1) rd] in_waiting_def and_then_def port_write_def)
  }
  {
    assume ex: "extra \<noteq> []"
      and sc: "script (self_port s) = (frame (bodies @ [final]) @ extra) # rest"
    have "in_buf ?p = frame (bodies @ [final]) @ extra"
      by (simp add: port_write_def assms(2) sc)
    then have rd: "read_responses ?p [] =
        (Inr ([] @ map (\<lambda>b. rstrip (b @ [NL])) (bodies @ [final])), ?p\<lparr>in_buf := extra\<rparr>)"
      by (rule read_responses_frame [OF assms(3-6)])
    show "send cmd True s =
         (Inl (AssertionError in_waiting_is_zero),
          s\<lparr>self_port := (self_port s)\<lparr>written := written (self_port s) @ [cmd @ [NL]],
                                         in_buf := extra, script := rest\<rparr>\<rparr>)"
      using ex by (simp add: send_True_read [OF assms(1) rd] in_waiting_def port_write_def sc)
  }
  {
    assume pa: "NL \<notin> set partial"
      and sc: "script (self_port s) = (frame bodies @ partial) # rest"
    have "in_buf ?p = frame bodies @ partial"
      by (simp add: port_write_def assms(2) sc)
    with assms(3) pa have rd: "read_responses ?p [] =
        (Inl (AssertionError response_endswith_newline), ?p\<lparr>in_buf := []\<rparr>)"
      by (rule read_responses_unterminated)
    show "send cmd True s =
         (Inl (AssertionError response_endswith_newline),
          s\<lparr>self_port := (self_port s)\<lparr>written := written (self_port s) @ [cmd @ [NL]],
                                         in_buf := [], script := rest\<rparr>\<rparr>)"
      by (simp add: send_True_read [OF assms(1) rd] port_write_def sc)
  }
qed

theorem send_reads_framed_reply_witness:
  "is_ascii ''HLP?'' \<and> in_buf (self_port (example_stage [''a \<newline>b\<newline>'', ''0\<newline>''])) = []
   \<and> NL \<notin> set ''a '' \<and> is_ascii ''a '' \<and> ''a '' \<noteq> [] \<and> last ''a '' = CHR 0x20
   \<and> NL \<notin> set ''b'' \<and> is_ascii ''b'' \<and> last ''b'' \<noteq> CHR 0x20
   \<and> script (self_port (example_stage [''a \<newline>b\<newline>'', ''0\<newline>'']))
       = frame ([''a ''] @ [''b'']) # ''0\<newline>'' # []
   \<and> send ''HLP?'' True (example_stage [''a \<newline>b\<newline>'', ''0\<newline>''])
       = (Inr (Some [''a'', ''b'']),
          (example_stage [])\<lparr>self_port := \<lparr>written = [''HLP?\<newline>'', ''ERR?\<newline>''],
                                            in_buf = [], script = []\<rparr>\<rparr>)"
  using send_reads_framed_reply [where cmd = "''HLP?''"
      and s = "example_stage [''a \<newline>b\<newline>'', ''0\<newline>'']"
      and bodies = "[''a '']" and final = "''b''" and rest = "[]"]
  by (simp add: example_stage_def is_ascii_def rstrip_def is_space_def)

subsection \<open>What a move changes\<close>

lemma motion_only_refl: "motion_only s s"
  by (simp add: motion_only_def)

lemma motion_only_update:
  "motion_only s (s\<lparr>self_x := a, self_y := b\<rparr>)" "motion_only s (s\<lparr>self_moving := m\<rparr>)"
  "motion_only s (s\<lparr>self_port := p, self_moving := m\<rparr>)"
  by (simp_all add: motion_only_def)

lemma motion_only_trans:
  assumes "motion_only s s1" and "motion_only s1 s2"
  shows "motion_only s s2"
proof -
  from assms have a: "s1\<lparr>self_port := self_port s, self_error := self_error s, self_x := self_x s,
         self_y := self_y s, self_moving := self_moving s\<rparr> = s"
    and b: "s2\<lparr>self_port := self_port s1, self_error := self_error s1, self_x := self_x s1,
         self_y := self_y s1, self_moving := self_moving s1\<rparr> = s1"
    by (simp_all only: motion_only_def)
  have "s2\<lparr>self_port := self_port s, self_error := self_error s, self_x := self_x s,
         self_y := self_y s, self_moving := self_moving s\<rparr>
      = (s2\<lparr>self_port := self_port s1, self_error := self_error s1, self_x := self_x s1,
         self_y := self_y s1, self_moving := self_moving s1\<rparr>)
          \<lparr>self_port := self_port s, self_error := self_error s, self_x := self_x s,
         self_y := self_y s, self_moving := self_moving s\<rparr>"
    by simp
  also have "\<dots> = s1\<lparr>self_port := self_port s, self_error := self_error s, self_x := self_x s,
         self_y := self_y s, self_moving := self_moving s\<rparr>"
    by (simp only: b)
  also have "\<dots> = s"
    by (rule a)
  finally show ?thesis
    by (simp only: motion_only_def)
qed

lemma io_only_motion_only:
  assumes "io_only s s'"
  shows "motion_only s s'"
proof -
  from assms have a: "s'\<lparr>self_port := self_port s, self_error := self_error s\<rparr> = s"
    by (simp only: io_only_def)
  have "(\<lambda>r. r\<lparr>self_x := self_x s, self_y := self_y s, self_moving := self_moving s\<rparr>)
          (s'\<lparr>self_port := self_port s, self_error := self_error s\<rparr>)
      = (\<lambda>r. r\<lparr>self_x := self_x s, self_y := self_y s, self_moving := self_moving s\<rparr>) s"
    by (simp only: a)
  then show ?thesis
    by (simp add: motion_only_def)
qed

lemma motion_only_fields:
  assumes "motion_only s s'"
  shows "self_joystick_enabled s' = self_joystick_enabled s"
    "self_servo_enabled s' = self_servo_enabled s"
    "self_x_min s' = self_x_min s" "self_x_max s' = self_x_max s"
    "self_y_min s' = self_y_min s" "self_y_max s' = self_y_max s"
proof -
  from assms have a: "s = s'\<lparr>self_port := self_port s, self_error := self_error s, self_x := self_x s,
         self_y := self_y s, self_moving := self_moving s\<rparr>"
    by (simp only: motion_only_def)
  show "self_joystick_enabled s' = self_joystick_enabled s"
    "self_servo_enabled s' = self_servo_enabled s"
    "self_x_min s' = self_x_min s" "self_x_max s' = self_x_max s"
    "self_y_min s' = self_y_min s" "self_y_max s' = self_y_max s"
    by (subst a, simp)+
qed

lemma wrote_unique: "wrote s s' a \<Longrightarrow> wrote s s' b \<Longrightarrow> a = b"
  by (simp add: wrote_def)

lemma wrote_same_port: "self_port s' = self_port s \<Longrightarrow> wrote s s' []"
  by (simp add: wrote_def)

text \<open>Two commands sent one after the other, as the joystick is switched.\<close>

lemma send_twice:
  assumes "and_then (send c1 False s) (\<lambda>_. send c2 False) = (r, s')"
    and "is_ascii c1"
  shows "io_only s s'"
    and "\<exists>ws. wrote s s' ((c1 @ [NL]) # ws) \<and> set ws \<subseteq> {c2 @ [NL], ''ERR?\<newline>''}"
    and "(\<exists>v. r = Inr v) \<Longrightarrow> wrote s s' [c1 @ [NL], ''ERR?\<newline>'', c2 @ [NL], ''ERR?\<newline>'']"
proof -
  from assms(1) have "io_only s s' \<and> (\<exists>ws. wrote s s' ((c1 @ [NL]) # ws) \<and> set ws \<subseteq> {c2 @ [NL], ''ERR?\<newline>''})
    \<and> ((\<exists>v. r = Inr v) \<longrightarrow> wrote s s' [c1 @ [NL], ''ERR?\<newline>'', c2 @ [NL], ''ERR?\<newline>''])"
  proof (cases rule: and_then_cases)
    case (raised e)
    from raised(1) have io: "io_only s s'"
      by (rule send_io)
    from raised(1) assms(2) have "\<not> wrote s s' []"
      by (cases rule: send_cases)
        (simp_all add: wrote_def written_send_port, drule check_errors_io(2), simp add: written_send_port)
    with send_wrote [OF raised(1)] have "wrote s s' [c1 @ [NL]] \<or> wrote s s' [c1 @ [NL], ''ERR?\<newline>'']"
      by simp
    then have "\<exists>ws. wrote s s' ((c1 @ [NL]) # ws) \<and> set ws \<subseteq> {c2 @ [NL], ''ERR?\<newline>''}"
      by (elim disjE) (rule exI [of _ "[]"], simp, rule exI [of _ "[''ERR?\<newline>'']"], simp)
    with io raised(2) show ?thesis by simp
  next
    case (returned v s1)
    from returned(1) have io1: "io_only s s1" and w1: "wrote s s1 [c1 @ [NL], ''ERR?\<newline>'']"
      by (rule send_io, simp add: send_Inr)
    from returned(2) have io2: "io_only s1 s'"
      by (rule send_io)
    from io1 io2 have io: "io_only s s'"
      by (rule io_only_trans)
    from send_wrote [OF returned(2)] w1
    have "\<exists>ws. wrote s s' ((c1 @ [NL]) # ws) \<and> set ws \<subseteq> {c2 @ [NL], ''ERR?\<newline>''}"
      by (elim disjE)
        (rule exI [of _ "[''ERR?\<newline>'']"], simp add: wrote_def,
         rule exI [of _ "[''ERR?\<newline>'', c2 @ [NL]]"], simp add: wrote_def,
         rule exI [of _ "[''ERR?\<newline>'', c2 @ [NL], ''ERR?\<newline>'']"], simp add: wrote_def)
    moreover have "wrote s s' [c1 @ [NL], ''ERR?\<newline>'', c2 @ [NL], ''ERR?\<newline>'']" if "r = Inr v'" for v'
      using send_Inr [OF returned(2) [unfolded that]] w1 by (simp add: wrote_def)
    ultimately show ?thesis
      using io by blast
  qed
  then show "io_only s s'"
    and "\<exists>ws. wrote s s' ((c1 @ [NL]) # ws) \<and> set ws \<subseteq> {c2 @ [NL], ''ERR?\<newline>''}"
    and "(\<exists>v. r = Inr v) \<Longrightarrow> wrote s s' [c1 @ [NL], ''ERR?\<newline>'', c2 @ [NL], ''ERR?\<newline>'']"
    by blast+
qed

subsection \<open>The completion poll\<close>

lemma is_ascii_literals:
  "is_ascii ''HIN 1 1''" "is_ascii ''HIN 2 1''" "is_ascii ''HIN 1 0''" "is_ascii ''HIN 2 0''"
  "is_ascii ''MOV? 1 2''" "is_ascii ''SVO 1 1 2 1''" "is_ascii ''SVO 1 0 2 0''"
  by (simp_all add: is_ascii_def)

lemma finish_moving_idle: "\<not> self_moving s \<Longrightarrow> finish_moving s = Some (Inr (), s)"
  by (simp add: finish_moving_def)

lemma finish_moving_cases:
  assumes "finish_moving s = Some (r, s')"
  obtains (idle) "\<not> self_moving s" and "r = Inr ()" and "s' = s"
  | (polled) p k where "self_moving s" and "poll_motion_status (self_port s) = Some p"
      and "written p = written (self_port s) @ replicate (Suc k) [ENQ]"
      and "and_then
             (if self_joystick_enabled s
              then and_then (send ''HIN 1 1'' False (s\<lparr>self_port := p, self_moving := False\<rparr>))
                     (\<lambda>_. send ''HIN 2 1'' False)
              else (Inr None, s\<lparr>self_port := p, self_moving := False\<rparr>))
             (\<lambda>_. check_errors) = (r, s')"
proof (cases "self_moving s")
  case False
  with assms have "r = Inr ()" and "s' = s"
    by (simp_all add: finish_moving_def)
  with False show ?thesis by (rule idle)
next
  case True
  with assms obtain p where p: "poll_motion_status (self_port s) = Some p"
    by (cases "poll_motion_status (self_port s)") (simp_all add: finish_moving_def)
  then obtain k where k: "written p = written (self_port s) @ replicate (Suc k) [ENQ]"
    using poll_motion_status_written by blast
  from assms True p have "and_then
             (if self_joystick_enabled s
              then and_then (send ''HIN 1 1'' False (s\<lparr>self_port := p, self_moving := False\<rparr>))
                     (\<lambda>_. send ''HIN 2 1'' False)
              else (Inr None, s\<lparr>self_port := p, self_moving := False\<rparr>))
             (\<lambda>_. check_errors) = (r, s')"
    by (simp add: finish_moving_def)
  with True p k show ?thesis by (rule polled)
qed

lemma finish_moving_props:
  assumes "finish_moving s = Some (r, s')"
  shows "motion_only s s' \<and> \<not> self_moving s' \<and> self_x s' = self_x s \<and> self_y s' = self_y s
    \<and> (\<exists>ws. wrote s s' ws
          \<and> set ws \<subseteq> {[ENQ], ''HIN 1 1\<newline>'', ''HIN 2 1\<newline>'', ''ERR?\<newline>''}
          \<and> (self_moving s \<longrightarrow> (''HIN 1 1\<newline>'' \<in> set ws \<longleftrightarrow> self_joystick_enabled s)))
    \<and> (self_moving s \<longrightarrow> r = Inr () \<longrightarrow>
          (\<exists>k. wrote s s' (replicate (Suc k) [ENQ] @ enable_trace (self_joystick_enabled s) @ [''ERR?\<newline>''])))"
  using assms
proof (cases rule: finish_moving_cases)
  case idle
  then show ?thesis
    by (simp add: motion_only_refl wrote_def)
next
  case (polled p k)
  let ?s0 = "s\<lparr>self_port := p, self_moving := False\<rparr>"
  have m0: "motion_only s ?s0"
    by (rule motion_only_update)
  have w0: "wrote s ?s0 (replicate (Suc k) [ENQ])"
    using polled(3) by (simp add: wrote_def)
  from polled(4) show ?thesis
  proof (cases rule: and_then_cases)
    case (raised e)
    then have joy: "self_joystick_enabled s"
      and tw: "and_then (send ''HIN 1 1'' False ?s0) (\<lambda>_. send ''HIN 2 1'' False) = (Inl e, s')"
      by (simp_all split: if_splits)
    from tw is_ascii_literals(1) have io: "io_only ?s0 s'"
      by (rule send_twice)
    from send_twice(2) [OF tw is_ascii_literals(1)] obtain ws
      where ws: "wrote ?s0 s' ((''HIN 1 1'' @ [NL]) # ws)" "set ws \<subseteq> {''HIN 2 1'' @ [NL], ''ERR?\<newline>''}"
      by blast
    from io have f: "self_moving s' = self_moving ?s0" "self_x s' = self_x ?s0" "self_y s' = self_y ?s0"
      by (rule io_only_fields)+
    from m0 io_only_motion_only [OF io] have "motion_only s s'"
      by (rule motion_only_trans)
    moreover from w0 ws(1) have "wrote s s' (replicate (Suc k) [ENQ] @ (''HIN 1 1'' @ [NL]) # ws)"
      by (rule wrote_trans)
    moreover have "set (replicate (Suc k) [ENQ] @ (''HIN 1 1'' @ [NL]) # ws)
        \<subseteq> {[ENQ], ''HIN 1 1\<newline>'', ''HIN 2 1\<newline>'', ''ERR?\<newline>''}"
      using ws(2) by auto
    moreover have "''HIN 1 1\<newline>'' \<in> set (replicate (Suc k) [ENQ] @ (''HIN 1 1'' @ [NL]) # ws)"
      by simp
    ultimately show ?thesis
      using f joy raised(2)
      by (intro conjI impI exI [of _ "replicate (Suc k) [ENQ] @ (''HIN 1 1'' @ [NL]) # ws"])
         simp_all
  next
    case (returned v s1)
    have pre: "motion_only s s1 \<and> \<not> self_moving s1 \<and> self_x s1 = self_x s \<and> self_y s1 = self_y s
      \<and> wrote s s1 (replicate (Suc k) [ENQ] @ enable_trace (self_joystick_enabled s))"
    proof (cases "self_joystick_enabled s")
      case False
      with returned(1) have "s1 = ?s0" by simp
      with False m0 w0 show ?thesis
        by (simp add: enable_trace_def)
    next
      case True
      with returned(1) have tw: "and_then (send ''HIN 1 1'' False ?s0) (\<lambda>_. send ''HIN 2 1'' False) = (Inr v, s1)"
        by simp
      from tw is_ascii_literals(1) have io: "io_only ?s0 s1"
        by (rule send_twice)
      from io have f: "self_moving s1 = self_moving ?s0" "self_x s1 = self_x ?s0" "self_y s1 = self_y ?s0"
        by (rule io_only_fields)+
      from send_twice(3) [OF tw is_ascii_literals(1)]
      have "wrote ?s0 s1 [''HIN 1 1'' @ [NL], ''ERR?\<newline>'', ''HIN 2 1'' @ [NL], ''ERR?\<newline>'']"
        by blast
      with w0 have "wrote s s1 (replicate (Suc k) [ENQ]
          @ [''HIN 1 1'' @ [NL], ''ERR?\<newline>'', ''HIN 2 1'' @ [NL], ''ERR?\<newline>''])"
        by (rule wrote_trans)
      moreover from m0 io_only_motion_only [OF io] have "motion_only s s1"
        by (rule motion_only_trans)
      ultimately show ?thesis
        using f True by (simp add: enable_trace_def)
    qed
    from returned(2) have io: "io_only s1 s'"
      and w: "wrote s1 s' [''ERR?\<newline>'']"
      by (rule check_errors_io, simp add: wrote_def check_errors_io(2))
    from io have f: "self_moving s' = self_moving s1" "self_x s' = self_x s1" "self_y s' = self_y s1"
      by (rule io_only_fields)+
    from pre io_only_motion_only [OF io] have m: "motion_only s s'"
      by (blast intro: motion_only_trans)
    from pre w have tr: "wrote s s' ((replicate (Suc k) [ENQ] @ enable_trace (self_joystick_enabled s)) @ [''ERR?\<newline>''])"
      by (blast intro: wrote_trans)
    have sub: "set ((replicate (Suc k) [ENQ] @ enable_trace (self_joystick_enabled s)) @ [''ERR?\<newline>''])
        \<subseteq> {[ENQ], ''HIN 1 1\<newline>'', ''HIN 2 1\<newline>'', ''ERR?\<newline>''}"
      by (auto simp: enable_trace_def)
    have mem: "''HIN 1 1\<newline>'' \<in> set ((replicate (Suc k) [ENQ] @ enable_trace (self_joystick_enabled s)) @ [''ERR?\<newline>''])
        \<longleftrightarrow> self_joystick_enabled s"
      by (auto simp: enable_trace_def)
    from tr have tr': "\<exists>k. wrote s s' (replicate (Suc k) [ENQ] @ enable_trace (self_joystick_enabled s) @ [''ERR?\<newline>''])"
      by (auto simp del: replicate_Suc)
    from m pre f tr sub mem tr' show ?thesis
      by (intro conjI impI exI [of _ "(replicate (Suc k) [ENQ] @ enable_trace (self_joystick_enabled s)) @ [''ERR?\<newline>'']"])
         simp_all
  qed
qed

subsection \<open>Which errors a transaction raises\<close>

lemma read_responses_error:
  "read_responses p acc = (Inl e, p') \<Longrightarrow>
     e = AssertionError response_endswith_newline \<or> e = UnicodeDecodeError"
proof (induction p acc rule: read_responses.induct)
  case (1 p responses)
  obtain response p1 where rl: "port_readline p = (response, p1)"
    by (cases "port_readline p")
  show ?case
  proof (cases "endswith_NL response")
    case False
    with 1(2) rl show ?thesis
      by (subst (asm) read_responses.simps) simp
  next
    case True
    show ?thesis
    proof (cases "decode_ascii (rstrip response)")
      case (Inl e')
      then have "e' = UnicodeDecodeError"
        by (simp add: decode_ascii_def split: if_splits)
      with 1(2) rl True Inl show ?thesis
        by (subst (asm) read_responses.simps) simp
    next
      case (Inr line)
      show ?thesis
      proof (cases "length response = 1 \<or> response ! (length response - 2) \<noteq> CHR 0x20")
        case stop: True
        with 1(2) rl True Inr show ?thesis
          by (subst (asm) read_responses.simps) (auto split: if_splits)
      next
        case more: False
        with 1(2) rl True Inr have "read_responses p1 (responses @ [line]) = (Inl e, p')"
          by (subst (asm) read_responses.simps) simp
        with 1(1) [OF rl [symmetric] _ Inr] True more show ?thesis
          by simp
      qed
    qed
  qed
qed

lemma check_errors_not_limit: "check_errors s = (Inl e, s') \<Longrightarrow> \<not> is_limit_error e"
  by (auto simp: check_errors_def Let_def is_limit_error_def decode_ascii_def
      split: prod.splits if_splits)

lemma send_not_limit:
  assumes "send cmd respond s = (Inl e, s')"
  shows "\<not> is_limit_error e"
  using assms
proof (cases rule: send_cases)
  case encode
  then show ?thesis by (simp add: is_limit_error_def)
next
  case (read e')
  show ?thesis
  proof (cases respond)
    case False
    with assms read(1) have "e = AssertionError in_waiting_is_zero
        \<or> (\<exists>s1. check_errors s1 = (Inl e, s'))"
      by (cases "check_errors (s\<lparr>self_port := port_write (cmd @ [NL]) (self_port s)\<rparr>)")
         (auto simp: send_def encode_ascii_def and_then_def split: if_splits sum.splits)
    then show ?thesis
      using check_errors_not_limit by (auto simp: is_limit_error_def)
  next
    case True
    obtain rr p where rd: "read_responses (port_write (cmd @ [NL]) (self_port s)) [] = (rr, p)"
      by (cases "read_responses (port_write (cmd @ [NL]) (self_port s)) []")
    show ?thesis
    proof (cases rr)
      case (Inl e2)
      with read_responses_error rd have "e2 = AssertionError response_endswith_newline \<or> e2 = UnicodeDecodeError"
        by blast
      moreover from assms True Inl have "e = e2"
        by (simp add: send_True_read [OF read(1) rd])
      ultimately show ?thesis
        by (auto simp: is_limit_error_def)
    next
      case (Inr responses)
      with assms True have "e = AssertionError in_waiting_is_zero
        \<or> check_errors (s\<lparr>self_port := p\<rparr>) = (Inl e, s')"
        by (cases "check_errors (s\<lparr>self_port := p\<rparr>)")
           (auto simp: send_True_read [OF read(1) rd] and_then_def split: if_splits sum.splits)
      then show ?thesis
        using check_errors_not_limit by (auto simp: is_limit_error_def)
    qed
  qed
next
  case (checked u)
  then show ?thesis
    using check_errors_not_limit by (cases u) auto
qed


subsection \<open>Reading the position\<close>

lemma parse_floats_error:
  "parse_floats float_of lines = Inl e \<Longrightarrow> e = IndexError \<or> e = ValueError"
proof (induction lines arbitrary: e)
  case Nil
  then show ?case by simp
next
  case (Cons a lines)
  then show ?case
    by (auto simp: split_eq_1_def split: sum.splits option.splits list.splits)
qed

lemma get_position_mm_props:
  assumes "get_position_mm float_of s = (r, s')"
  shows "motion_only s s' \<and> self_moving s' = self_moving s
    \<and> (\<exists>ws. wrote s s' ws \<and> set ws \<subseteq> {''MOV? 1 2\<newline>'', ''ERR?\<newline>''})
    \<and> (\<forall>pos. r = Inr pos \<longrightarrow>
          wrote s s' [''MOV? 1 2\<newline>'', ''ERR?\<newline>''] \<and> self_x s' = fst pos \<and> self_y s' = snd pos)
    \<and> (\<forall>e. r = Inl e \<longrightarrow> \<not> is_limit_error e)"
  using assms unfolding get_position_mm_def
proof (cases rule: and_then_cases)
  case (raised e)
  from raised(1) have io: "io_only s s'"
    by (rule send_io)
  from io have "self_moving s' = self_moving s"
    by (rule io_only_fields)
  moreover from send_wrote [OF raised(1)]
  have "\<exists>ws. wrote s s' ws \<and> set ws \<subseteq> {''MOV? 1 2\<newline>'', ''ERR?\<newline>''}"
    by (elim disjE)
      (rule exI [of _ "[]"], simp, rule exI [of _ "[''MOV? 1 2\<newline>'']"], simp,
       rule exI [of _ "[''MOV? 1 2\<newline>'', ''ERR?\<newline>'']"], simp)
  moreover from raised(1) have "\<not> is_limit_error e"
    by (rule send_not_limit)
  ultimately show ?thesis
    using io_only_motion_only [OF io] raised(2) by simp
next
  case (returned v s1)
  from returned(1) have io: "io_only s s1"
    by (rule send_io)
  from io have mv: "self_moving s1 = self_moving s"
    by (rule io_only_fields)
  from send_Inr [OF returned(1)] have w: "wrote s s1 [''MOV? 1 2\<newline>'', ''ERR?\<newline>'']"
    by simp
  have m1: "motion_only s s1"
    using io by (rule io_only_motion_only)
  consider (same) e where "r = Inl e" and "s' = s1" and "\<not> is_limit_error e"
    | (stored) a b where "r = Inr (a, b)" and "s' = s1\<lparr>self_x := a, self_y := b\<rparr>"
    using returned(2) parse_floats_error [of float_of]
    by (fastforce simp: is_limit_error_def split: option.splits sum.splits list.splits)
  then show ?thesis
  proof cases
    case same
    with m1 mv w show ?thesis
      by (auto intro: exI [of _ "[''MOV? 1 2\<newline>'', ''ERR?\<newline>'']"])
  next
    case stored
    have "motion_only s1 s'"
      unfolding stored(2) by (rule motion_only_update)
    with m1 have "motion_only s s'"
      by (rule motion_only_trans)
    moreover from w have "wrote s s' [''MOV? 1 2\<newline>'', ''ERR?\<newline>'']"
      by (simp add: wrote_def stored(2))
    ultimately show ?thesis
      using mv stored
      by (auto intro: exI [of _ "[''MOV? 1 2\<newline>'', ''ERR?\<newline>'']"])
  qed
qed

subsection \<open>The stages of a move\<close>

lemma start_move_cases:
  assumes "start_move float_of dx dy relative s = (r, s')"
  obtains (joystick) e where "self_joystick_enabled s"
      and "and_then (send ''HIN 1 0'' False s) (\<lambda>_. send ''HIN 2 0'' False) = (Inl e, s')"
      and "r = Inl e"
  | (position) s1 e where "joystick_off s s1" and "relative"
      and "get_position_mm float_of s1 = (Inl e, s')" and "r = Inl e"
  | (target) s1 s3 where "joystick_off s s1" and "target_stored float_of dx dy relative s1 s3"
      and "(if \<not> (self_x_min s3 \<le> self_x s3 \<and> self_x s3 \<le> self_x_max s3)
            then (Inl (AssertionError x_within_limits), s3)
            else if \<not> (self_y_min s3 \<le> self_y s3 \<and> self_y s3 \<le> self_y_max s3)
            then (Inl (AssertionError y_within_limits), s3)
            else and_then (send (move_cmd (self_x s3) (self_y s3)) False s3)
                   (\<lambda>_ s4. (Inr (), s4\<lparr>self_moving := True\<rparr>))) = (r, s')"
  using assms unfolding start_move_def
proof (cases rule: and_then_cases)
  case (raised e)
  then have "self_joystick_enabled s"
    and "and_then (send ''HIN 1 0'' False s) (\<lambda>_. send ''HIN 2 0'' False) = (Inl e, s')"
    by (simp_all split: if_splits)
  then show ?thesis
    using raised(2) by (rule joystick)
next
  case (returned v s1)
  from returned(1) have off: "joystick_off s s1"
    by (auto simp: joystick_off_def split: if_splits)
  from returned(2) show ?thesis
  proof (cases rule: and_then_cases)
    case (raised e)
    then have rel: "relative"
      and "and_then (get_position_mm float_of s1)
             (\<lambda>_ s2. (Inr (), s2\<lparr>self_x := self_x s2 + dx, self_y := self_y s2 + dy\<rparr>)) = (Inl e, s')"
      by (simp_all split: if_splits)
    then have "get_position_mm float_of s1 = (Inl e, s')"
      by (cases "get_position_mm float_of s1") (auto simp: and_then_def split: sum.splits)
    with off rel show ?thesis
      using raised(2) by (rule position)
  next
    case (returned u s3)
    have "target_stored float_of dx dy relative s1 s3"
    proof (cases relative)
      case False
      with returned(1) show ?thesis
        by (simp add: target_stored_def)
    next
      case True
      with returned(1) have "and_then (get_position_mm float_of s1)
             (\<lambda>_ s2. (Inr (), s2\<lparr>self_x := self_x s2 + dx, self_y := self_y s2 + dy\<rparr>)) = (Inr u, s3)"
        by simp
      then obtain pos s2 where gp: "get_position_mm float_of s1 = (Inr pos, s2)"
        and s3: "s3 = s2\<lparr>self_x := self_x s2 + dx, self_y := self_y s2 + dy\<rparr>"
        by (cases "get_position_mm float_of s1") (auto simp: and_then_def split: sum.splits)
      from get_position_mm_props [OF gp] have "self_x s2 = fst pos" "self_y s2 = snd pos"
        by simp_all
      with gp s3 True show ?thesis
        by (auto simp: target_stored_def)
    qed
    with off show ?thesis
      using returned(2) by (rule target)
  qed
qed

lemma joystick_off_props:
  assumes "joystick_off s s1"
  shows "io_only s s1" and "wrote s s1 (disable_trace (self_joystick_enabled s))"
proof -
  have "io_only s s1 \<and> wrote s s1 (disable_trace (self_joystick_enabled s))"
  proof (cases "self_joystick_enabled s")
    case False
    with assms show ?thesis
      by (simp add: joystick_off_def io_only_refl disable_trace_def wrote_def)
  next
    case True
    with assms obtain v where
      tw: "and_then (send ''HIN 1 0'' False s) (\<lambda>_. send ''HIN 2 0'' False) = (Inr v, s1)"
      by (auto simp: joystick_off_def)
    from tw is_ascii_literals(3) have "io_only s s1"
      by (rule send_twice)
    moreover from send_twice(3) [OF tw is_ascii_literals(3)]
    have "wrote s s1 (disable_trace (self_joystick_enabled s))"
      using True by (simp add: disable_trace_def)
    ultimately show ?thesis by simp
  qed
  then show "io_only s s1" and "wrote s s1 (disable_trace (self_joystick_enabled s))"
    by simp_all
qed

lemma target_stored_props:
  assumes "target_stored float_of dx dy relative s1 s3"
  shows "motion_only s1 s3" and "self_moving s3 = self_moving s1"
    and "wrote s1 s3 (if relative then [''MOV? 1 2\<newline>'', ''ERR?\<newline>''] else [])"
    and "\<not> relative \<Longrightarrow> self_x s3 = dx \<and> self_y s3 = dy"
proof -
  have "motion_only s1 s3 \<and> self_moving s3 = self_moving s1
    \<and> wrote s1 s3 (if relative then [''MOV? 1 2\<newline>'', ''ERR?\<newline>''] else [])
    \<and> (\<not> relative \<longrightarrow> self_x s3 = dx \<and> self_y s3 = dy)"
  proof (cases relative)
    case False
    with assms have "s3 = s1\<lparr>self_x := dx, self_y := dy\<rparr>"
      by (simp add: target_stored_def)
    with False show ?thesis
      by (simp add: motion_only_update wrote_def)
  next
    case True
    with assms obtain pos s2 where gp: "get_position_mm float_of s1 = (Inr pos, s2)"
      and s3: "s3 = s2\<lparr>self_x := fst pos + dx, self_y := snd pos + dy\<rparr>"
      by (auto simp: target_stored_def)
    from get_position_mm_props [OF gp] have m: "motion_only s1 s2"
      and mv: "self_moving s2 = self_moving s1"
      and w: "wrote s1 s2 [''MOV? 1 2\<newline>'', ''ERR?\<newline>'']"
      by simp_all
    have "motion_only s2 s3"
      unfolding s3 by (rule motion_only_update)
    with m have "motion_only s1 s3"
      by (rule motion_only_trans)
    with mv w True show ?thesis
      by (simp add: s3 wrote_def)
  qed
  then show "motion_only s1 s3" and "self_moving s3 = self_moving s1"
    and "wrote s1 s3 (if relative then [''MOV? 1 2\<newline>'', ''ERR?\<newline>''] else [])"
    and "\<not> relative \<Longrightarrow> self_x s3 = dx \<and> self_y s3 = dy"
    by simp_all
qed

lemma start_move_frame:
  assumes "start_move float_of dx dy relative s = (r, s')"
  shows "motion_only s s'"
  using assms
proof (cases rule: start_move_cases)
  case (joystick e)
  from joystick(2) is_ascii_literals(3) have "io_only s s'"
    by (rule send_twice)
  then show ?thesis by (rule io_only_motion_only)
next
  case (position s1 e)
  from joystick_off_props(1) [OF position(1)] have "motion_only s s1"
    by (rule io_only_motion_only)
  moreover from get_position_mm_props [OF position(3)] have "motion_only s1 s'"
    by simp
  ultimately show ?thesis by (rule motion_only_trans)
next
  case (target s1 s3)
  from joystick_off_props(1) [OF target(1)] have "motion_only s s1"
    by (rule io_only_motion_only)
  moreover from target(2) have "motion_only s1 s3"
    by (rule target_stored_props)
  ultimately have m3: "motion_only s s3"
    by (rule motion_only_trans)
  consider (rejected) "s' = s3"
    | (sent) "and_then (send (move_cmd (self_x s3) (self_y s3)) False s3)
                   (\<lambda>_ s4. (Inr (), s4\<lparr>self_moving := True\<rparr>)) = (r, s')"
    using target(3) by (auto split: if_splits)
  then show ?thesis
  proof cases
    case rejected
    with m3 show ?thesis by simp
  next
    case sent
    then show ?thesis
    proof (cases rule: and_then_cases)
      case (raised e)
      from raised(1) have "io_only s3 s'"
        by (rule send_io)
      then have "motion_only s3 s'"
        by (rule io_only_motion_only)
      with m3 show ?thesis by (rule motion_only_trans)
    next
      case (returned v s4)
      from returned(1) have "io_only s3 s4"
        by (rule send_io)
      then have "motion_only s3 s4"
        by (rule io_only_motion_only)
      moreover from returned(2) have "motion_only s4 s'"
        by (auto simp: motion_only_update)
      ultimately have "motion_only s3 s'"
        by (rule motion_only_trans)
      with m3 show ?thesis by (rule motion_only_trans)
    qed
  qed
qed

lemma start_move_Inr:
  assumes "start_move float_of dx dy relative s = (Inr u, s')"
  shows "wrote s s' (disable_trace (self_joystick_enabled s)
           @ (if relative then [''MOV? 1 2\<newline>'', ''ERR?\<newline>''] else [])
           @ [move_cmd (self_x s') (self_y s') @ [NL], ''ERR?\<newline>''])
    \<and> self_moving s' \<and> within_limits s'
    \<and> (\<not> relative \<longrightarrow> self_x s' = dx \<and> self_y s' = dy)"
  using assms
proof (cases rule: start_move_cases)
  case (joystick e)
  then show ?thesis by simp
next
  case (position s1 e)
  then show ?thesis by simp
next
  case (target s1 s3)
  have w1: "wrote s s1 (disable_trace (self_joystick_enabled s))"
    using target(1) by (rule joystick_off_props)
  have w3: "wrote s1 s3 (if relative then [''MOV? 1 2\<newline>'', ''ERR?\<newline>''] else [])"
    using target(2) by (rule target_stored_props)
  from target(3) have lim: "self_x_min s3 \<le> self_x s3 \<and> self_x s3 \<le> self_x_max s3"
      "self_y_min s3 \<le> self_y s3 \<and> self_y s3 \<le> self_y_max s3"
    and sent: "and_then (send (move_cmd (self_x s3) (self_y s3)) False s3)
                   (\<lambda>_ s4. (Inr (), s4\<lparr>self_moving := True\<rparr>)) = (Inr u, s')"
    by (auto split: if_splits)
  from sent obtain v s4 where s4: "send (move_cmd (self_x s3) (self_y s3)) False s3 = (Inr v, s4)"
    and s': "s' = s4\<lparr>self_moving := True\<rparr>"
    by (cases rule: and_then_cases) auto
  from s4 have io: "io_only s3 s4"
    by (rule send_io)
  from io have f: "self_x s4 = self_x s3" "self_y s4 = self_y s3"
    "self_x_min s4 = self_x_min s3" "self_x_max s4 = self_x_max s3"
    "self_y_min s4 = self_y_min s3" "self_y_max s4 = self_y_max s3"
    by (rule io_only_fields)+
  from send_Inr [OF s4] have w4: "wrote s3 s4 [move_cmd (self_x s3) (self_y s3) @ [NL], ''ERR?\<newline>'']"
    by simp
  from w1 w3 have "wrote s s3 (disable_trace (self_joystick_enabled s)
      @ (if relative then [''MOV? 1 2\<newline>'', ''ERR?\<newline>''] else []))"
    by (rule wrote_trans)
  from this w4 have "wrote s s4 ((disable_trace (self_joystick_enabled s)
      @ (if relative then [''MOV? 1 2\<newline>'', ''ERR?\<newline>''] else []))
      @ [move_cmd (self_x s3) (self_y s3) @ [NL], ''ERR?\<newline>''])"
    by (rule wrote_trans)
  then have "wrote s s' (disable_trace (self_joystick_enabled s)
           @ (if relative then [''MOV? 1 2\<newline>'', ''ERR?\<newline>''] else [])
           @ [move_cmd (self_x s') (self_y s') @ [NL], ''ERR?\<newline>''])"
    by (simp add: wrote_def s' f)
  moreover have "within_limits s'"
    using lim by (simp add: within_limits_def s' f)
  moreover have "\<not> relative \<longrightarrow> self_x s' = dx \<and> self_y s' = dy"
    using target_stored_props(4) [OF target(2)] by (simp add: s' f)
  ultimately show ?thesis
    by (simp add: s')
qed


subsection \<open>A move rejected at the limits\<close>

lemma move_mm_cases:
  assumes "move_mm float_of dx dy relative block s = Some (r, s')"
  obtains (unsettled) e where "finish_moving s = Some (Inl e, s')" and "r = Inl e"
  | (not_started) s1 e where "finish_moving s = Some (Inr (), s1)"
      and "start_move float_of dx dy relative s1 = (Inl e, s')" and "r = Inl e"
  | (started) s1 where "finish_moving s = Some (Inr (), s1)"
      and "start_move float_of dx dy relative s1 = (Inr (), s')" and "\<not> block" and "r = Inr ()"
  | (blocked) s1 s2 where "finish_moving s = Some (Inr (), s1)"
      and "start_move float_of dx dy relative s1 = (Inr (), s2)" and "block"
      and "finish_moving s2 = Some (r, s')"
proof -
  from assms obtain r1 s1 where f1: "finish_moving s = Some (r1, s1)"
    by (cases "finish_moving s") (auto simp: move_mm_def)
  show ?thesis
  proof (cases r1)
    case (Inl e)
    with assms f1 have "finish_moving s = Some (Inl e, s')" and "r = Inl e"
      by (simp_all add: move_mm_def)
    then show ?thesis by (rule unsettled)
  next
    case (Inr u)
    with f1 have f1': "finish_moving s = Some (Inr (), s1)" by simp
    obtain r2 s2 where st: "start_move float_of dx dy relative s1 = (r2, s2)"
      by (cases "start_move float_of dx dy relative s1")
    show ?thesis
    proof (cases r2)
      case (Inl e)
      with assms f1' st have "start_move float_of dx dy relative s1 = (Inl e, s')" and "r = Inl e"
        by (simp_all add: move_mm_def)
      with f1' show ?thesis by (rule not_started)
    next
      case r2: (Inr u2)
      with st have st': "start_move float_of dx dy relative s1 = (Inr (), s2)" by simp
      show ?thesis
      proof (cases block)
        case True
        with assms f1' st' have "finish_moving s2 = Some (r, s')"
          by (simp add: move_mm_def)
        with f1' st' True show ?thesis by (rule blocked)
      next
        case False
        with assms f1' st' have "s' = s2" and "r = Inr ()"
          by (simp_all add: move_mm_def)
        with f1' st' False show ?thesis by (auto intro: started)
      qed
    qed
  qed
qed


lemma move_mm_frame:
  assumes "move_mm float_of dx dy relative block s = Some (r, s')"
  shows "motion_only s s'"
  using assms
proof (cases rule: move_mm_cases)
  case (unsettled e)
  with finish_moving_props show ?thesis by blast
next
  case (not_started s1 e)
  from finish_moving_props [OF not_started(1)] have "motion_only s s1" by simp
  moreover from not_started(2) have "motion_only s1 s'" by (rule start_move_frame)
  ultimately show ?thesis by (rule motion_only_trans)
next
  case (started s1)
  from finish_moving_props [OF started(1)] have "motion_only s s1" by simp
  moreover from started(2) have "motion_only s1 s'" by (rule start_move_frame)
  ultimately show ?thesis by (rule motion_only_trans)
next
  case (blocked s1 s2)
  from finish_moving_props [OF blocked(1)] have "motion_only s s1" by simp
  moreover from blocked(2) have "motion_only s1 s2" by (rule start_move_frame)
  ultimately have "motion_only s s2" by (rule motion_only_trans)
  moreover from finish_moving_props [OF blocked(4)] have "motion_only s2 s'" by simp
  ultimately show ?thesis by (rule motion_only_trans)
qed



subsection \<open>An absolute move outside the limits\<close>





subsection \<open>Two moves in a row\<close>

lemma start_move_trace:
  assumes "start_move float_of dx dy relative s = (Inr (), s')"
  shows "wrote s s' (disable_trace (self_joystick_enabled s) @ position_query relative
           @ [move_cmd (self_x s') (self_y s') @ [NL], ''ERR?\<newline>''])"
  using start_move_Inr [OF assms] by (simp add: position_query_def)

text \<open>
  Claim C2, amended. Let \<^verbatim>\<open>move_mm\<close> be called twice, the first call with
  \<^verbatim>\<open>block=False\<close>, on an object at rest with the joystick flag on, and let both calls
  return without an error. After the first call the moving flag is set. The bytes
  written by the pair are, in this order: the two joystick-off commands, the first
  \<^verbatim>\<open>MOV\<close>; then, in the second call, at least one status request, the two joystick-on
  commands, again the two joystick-off commands and the second \<^verbatim>\<open>MOV\<close>; and, if the
  second call blocks, status requests and the two joystick-on commands once more. So
  the second call runs the completion poll before it sends its \<^verbatim>\<open>MOV\<close>, the joystick is
  switched off twice, and it is switched on after each poll: before the second
  \<^verbatim>\<open>MOV\<close>, and after the second move settles if the second call blocks.
\<close>

theorem two_moves_trace:
  assumes "self_joystick_enabled s" and "\<not> self_moving s"
    and "move_mm float_of dx1 dy1 rel1 False s = Some (Inr (), s1)"
    and "move_mm float_of dx2 dy2 rel2 block s1 = Some (Inr (), s2)"
  shows "self_moving s1 \<and> self_joystick_enabled s2 \<and> self_moving s2 = (\<not> block)
    \<and> (\<exists>k rest.
          wrote s s2
            (disable_trace True @ position_query rel1
             @ [move_cmd (self_x s1) (self_y s1) @ [NL], ''ERR?\<newline>'']
             @ replicate (Suc k) [ENQ] @ enable_trace True @ [''ERR?\<newline>'']
             @ disable_trace True @ position_query rel2
             @ [move_cmd (self_x s2) (self_y s2) @ [NL], ''ERR?\<newline>'']
             @ rest)
          \<and> (if block
               then \<exists>k2. rest = replicate (Suc k2) [ENQ] @ enable_trace True @ [''ERR?\<newline>'']
               else rest = []))"
proof -
  \<comment> \<open>the first call\<close>
  from assms(2) have idle: "finish_moving s = Some (Inr (), s)"
    by (rule finish_moving_idle)
  from assms(3) have st1: "start_move float_of dx1 dy1 rel1 s = (Inr (), s1)"
    by (cases rule: move_mm_cases) (simp_all add: idle)
  from start_move_Inr [OF st1] have mv1: "self_moving s1"
    by simp
  from start_move_trace [OF st1] assms(1)
  have w1: "wrote s s1 (disable_trace True @ position_query rel1
      @ [move_cmd (self_x s1) (self_y s1) @ [NL], ''ERR?\<newline>''])"
    by simp
  from st1 have "motion_only s s1"
    by (rule start_move_frame)
  then have "self_joystick_enabled s1 = self_joystick_enabled s"
    by (rule motion_only_fields)
  with assms(1) have joy1: "self_joystick_enabled s1"
    by simp
  \<comment> \<open>the second call: the poll, then the move\<close>
  from assms(4) obtain sa sb where fm: "finish_moving s1 = Some (Inr (), sa)"
    and st2: "start_move float_of dx2 dy2 rel2 sa = (Inr (), sb)"
    and last: "if block then finish_moving sb = Some (Inr (), s2) else s2 = sb"
    by (cases rule: move_mm_cases) auto
  from finish_moving_props [OF fm] mv1 joy1 obtain k where ma: "motion_only s1 sa"
    and wa: "wrote s1 sa (replicate (Suc k) [ENQ] @ enable_trace True @ [''ERR?\<newline>''])"
    by auto
  from ma have "self_joystick_enabled sa = self_joystick_enabled s1"
    by (rule motion_only_fields)
  with joy1 have joya: "self_joystick_enabled sa"
    by simp
  from start_move_trace [OF st2] joya
  have wb: "wrote sa sb (disable_trace True @ position_query rel2
      @ [move_cmd (self_x sb) (self_y sb) @ [NL], ''ERR?\<newline>''])"
    by simp
  from start_move_Inr [OF st2] have mvb: "self_moving sb"
    by simp
  from st2 have "motion_only sa sb"
    by (rule start_move_frame)
  then have "self_joystick_enabled sb = self_joystick_enabled sa"
    by (rule motion_only_fields)
  with joya have joyb: "self_joystick_enabled sb"
    by simp
  from w1 wa have "wrote s sa ((disable_trace True @ position_query rel1
      @ [move_cmd (self_x s1) (self_y s1) @ [NL], ''ERR?\<newline>''])
      @ (replicate (Suc k) [ENQ] @ enable_trace True @ [''ERR?\<newline>'']))"
    by (rule wrote_trans)
  from this wb have wsb: "wrote s sb (((disable_trace True @ position_query rel1
      @ [move_cmd (self_x s1) (self_y s1) @ [NL], ''ERR?\<newline>''])
      @ (replicate (Suc k) [ENQ] @ enable_trace True @ [''ERR?\<newline>'']))
      @ (disable_trace True @ position_query rel2
      @ [move_cmd (self_x sb) (self_y sb) @ [NL], ''ERR?\<newline>'']))"
    by (rule wrote_trans)
  show ?thesis
  proof (cases block)
    case False
    with last have "s2 = sb" by simp
    with wsb mv1 mvb joyb False show ?thesis
      by (auto simp del: replicate_Suc intro!: exI [of _ k])
  next
    case True
    with last have fm2: "finish_moving sb = Some (Inr (), s2)" by simp
    from finish_moving_props [OF fm2] mvb joyb obtain k2 where m2: "motion_only sb s2"
      and idle2: "\<not> self_moving s2" and xy: "self_x s2 = self_x sb" "self_y s2 = self_y sb"
      and w2: "wrote sb s2 (replicate (Suc k2) [ENQ] @ enable_trace True @ [''ERR?\<newline>''])"
      by auto
    from m2 have "self_joystick_enabled s2 = self_joystick_enabled sb"
      by (rule motion_only_fields)
    with joyb have joy2: "self_joystick_enabled s2"
      by simp
    from wsb w2 have "wrote s s2 ((((disable_trace True @ position_query rel1
      @ [move_cmd (self_x s1) (self_y s1) @ [NL], ''ERR?\<newline>''])
      @ (replicate (Suc k) [ENQ] @ enable_trace True @ [''ERR?\<newline>'']))
      @ (disable_trace True @ position_query rel2
      @ [move_cmd (self_x sb) (self_y sb) @ [NL], ''ERR?\<newline>'']))
      @ (replicate (Suc k2) [ENQ] @ enable_trace True @ [''ERR?\<newline>'']))"
      by (rule wrote_trans)
    then have "wrote s s2
            (disable_trace True @ position_query rel1
             @ [move_cmd (self_x s1) (self_y s1) @ [NL], ''ERR?\<newline>'']
             @ replicate (Suc k) [ENQ] @ enable_trace True @ [''ERR?\<newline>'']
             @ disable_trace True @ position_query rel2
             @ [move_cmd (self_x s2) (self_y s2) @ [NL], ''ERR?\<newline>'']
             @ (replicate (Suc k2) [ENQ] @ enable_trace True @ [''ERR?\<newline>'']))"
      by (simp add: xy del: replicate_Suc)
    with mv1 joy2 idle2 True show ?thesis
      by (intro conjI exI [of _ k] exI [of _ "replicate (Suc k2) [ENQ] @ enable_trace True @ [''ERR?\<newline>'']"])
         (auto simp del: replicate_Suc)
  qed
qed

text \<open>
  Claim C2 fails on the demonstration of the source: a non-blocking move to (1, 1), then
  a blocking move to (0, 0), the device acknowledging every command and reporting the
  first move settled at the second status request. The joystick-off commands are
  written twice, and the joystick-on commands are written before the second
  \<^verbatim>\<open>MOV\<close> and again after it.
\<close>

theorem two_moves_counterexample:
  "self_joystick_enabled
      (example_stage (ack @ ack @ ack @ [''1\<newline>'', ''0\<newline>''] @ ack @ ack @ [''0\<newline>'']
          @ ack @ ack @ ack @ [''0\<newline>''] @ ack @ ack @ [''0\<newline>'']))
   \<and> move_mm no_float 1 1 False False
      (example_stage (ack @ ack @ ack @ [''1\<newline>'', ''0\<newline>''] @ ack @ ack @ [''0\<newline>'']
          @ ack @ ack @ ack @ [''0\<newline>''] @ ack @ ack @ [''0\<newline>'']))
     = Some (Inr (), ((example_stage [])
         \<lparr>self_port :=
            \<lparr>written = [''HIN 1 0\<newline>'', ''ERR?\<newline>'', ''HIN 2 0\<newline>'', ''ERR?\<newline>'',
                    ''MOV 1 1.000000000 2 1.000000000 \<newline>'', ''ERR?\<newline>''],
             in_buf = [],
             script = [''1\<newline>'', ''0\<newline>''] @ ack @ ack @ [''0\<newline>''] @ ack @ ack @ ack
               @ [''0\<newline>''] @ ack @ ack @ [''0\<newline>'']\<rparr>,
          self_x := 1, self_y := 1, self_moving := True\<rparr>))
   \<and> move_mm no_float 0 0 False True
      ((example_stage [])
         \<lparr>self_port :=
            \<lparr>written = [''HIN 1 0\<newline>'', ''ERR?\<newline>'', ''HIN 2 0\<newline>'', ''ERR?\<newline>'',
                    ''MOV 1 1.000000000 2 1.000000000 \<newline>'', ''ERR?\<newline>''],
             in_buf = [],
             script = [''1\<newline>'', ''0\<newline>''] @ ack @ ack @ [''0\<newline>''] @ ack @ ack @ ack
               @ [''0\<newline>''] @ ack @ ack @ [''0\<newline>'']\<rparr>,
          self_x := 1, self_y := 1, self_moving := True\<rparr>)
     = Some (Inr (), ((example_stage [])
         \<lparr>self_port := \<lparr>written = [''HIN 1 0\<newline>'', ''ERR?\<newline>'', ''HIN 2 0\<newline>'', ''ERR?\<newline>'',
                    ''MOV 1 1.000000000 2 1.000000000 \<newline>'', ''ERR?\<newline>'',
                    [ENQ], [ENQ],
                    ''HIN 1 1\<newline>'', ''ERR?\<newline>'', ''HIN 2 1\<newline>'', ''ERR?\<newline>'', ''ERR?\<newline>'',
                    ''HIN 1 0\<newline>'', ''ERR?\<newline>'', ''HIN 2 0\<newline>'', ''ERR?\<newline>'',
                    ''MOV 1 0.000000000 2 0.000000000 \<newline>'', ''ERR?\<newline>'',
                    [ENQ],
                    ''HIN 1 1\<newline>'', ''ERR?\<newline>'', ''HIN 2 1\<newline>'', ''ERR?\<newline>'', ''ERR?\<newline>''],
                        in_buf = [], script = []\<rparr>,
          self_x := 0, self_y := 0, self_moving := False\<rparr>))
   \<and> count_list [''HIN 1 0\<newline>'', ''ERR?\<newline>'', ''HIN 2 0\<newline>'', ''ERR?\<newline>'',
                    ''MOV 1 1.000000000 2 1.000000000 \<newline>'', ''ERR?\<newline>'',
                    [ENQ], [ENQ],
                    ''HIN 1 1\<newline>'', ''ERR?\<newline>'', ''HIN 2 1\<newline>'', ''ERR?\<newline>'', ''ERR?\<newline>'',
                    ''HIN 1 0\<newline>'', ''ERR?\<newline>'', ''HIN 2 0\<newline>'', ''ERR?\<newline>'',
                    ''MOV 1 0.000000000 2 0.000000000 \<newline>'', ''ERR?\<newline>'',
                    [ENQ],
                    ''HIN 1 1\<newline>'', ''ERR?\<newline>'', ''HIN 2 1\<newline>'', ''ERR?\<newline>'', ''ERR?\<newline>''] ''HIN 1 0\<newline>'' = 2
   \<and> count_list [''HIN 1 0\<newline>'', ''ERR?\<newline>'', ''HIN 2 0\<newline>'', ''ERR?\<newline>'',
                    ''MOV 1 1.000000000 2 1.000000000 \<newline>'', ''ERR?\<newline>'',
                    [ENQ], [ENQ],
                    ''HIN 1 1\<newline>'', ''ERR?\<newline>'', ''HIN 2 1\<newline>'', ''ERR?\<newline>'', ''ERR?\<newline>'',
                    ''HIN 1 0\<newline>'', ''ERR?\<newline>'', ''HIN 2 0\<newline>'', ''ERR?\<newline>'',
                    ''MOV 1 0.000000000 2 0.000000000 \<newline>'', ''ERR?\<newline>'',
                    [ENQ],
                    ''HIN 1 1\<newline>'', ''ERR?\<newline>'', ''HIN 2 1\<newline>'', ''ERR?\<newline>'', ''ERR?\<newline>''] ''HIN 1 1\<newline>'' = 2"
proof -
  have "self_joystick_enabled
      (example_stage (ack @ ack @ ack @ [''1\<newline>'', ''0\<newline>''] @ ack @ ack @ [''0\<newline>'']
          @ ack @ ack @ ack @ [''0\<newline>''] @ ack @ ack @ [''0\<newline>'']))"
    by (simp add: example_stage_def)
  moreover have "move_mm no_float 1 1 False False
      (example_stage (ack @ ack @ ack @ [''1\<newline>'', ''0\<newline>''] @ ack @ ack @ [''0\<newline>'']
          @ ack @ ack @ ack @ [''0\<newline>''] @ ack @ ack @ [''0\<newline>'']))
     = Some (Inr (), ((example_stage [])
         \<lparr>self_port :=
            \<lparr>written = [''HIN 1 0\<newline>'', ''ERR?\<newline>'', ''HIN 2 0\<newline>'', ''ERR?\<newline>'',
                    ''MOV 1 1.000000000 2 1.000000000 \<newline>'', ''ERR?\<newline>''],
             in_buf = [],
             script = [''1\<newline>'', ''0\<newline>''] @ ack @ ack @ [''0\<newline>''] @ ack @ ack @ ack
               @ [''0\<newline>''] @ ack @ ack @ [''0\<newline>'']\<rparr>,
          self_x := 1, self_y := 1, self_moving := True\<rparr>))"
    by (simp add: move_mm_def finish_moving_def start_move_def example_stage_def ack_def
        poll_motion_status.simps move_cmd_def eval_port eval_text)
  moreover have "move_mm no_float 0 0 False True
      ((example_stage [])
         \<lparr>self_port :=
            \<lparr>written = [''HIN 1 0\<newline>'', ''ERR?\<newline>'', ''HIN 2 0\<newline>'', ''ERR?\<newline>'',
                    ''MOV 1 1.000000000 2 1.000000000 \<newline>'', ''ERR?\<newline>''],
             in_buf = [],
             script = [''1\<newline>'', ''0\<newline>''] @ ack @ ack @ [''0\<newline>''] @ ack @ ack @ ack
               @ [''0\<newline>''] @ ack @ ack @ [''0\<newline>'']\<rparr>,
          self_x := 1, self_y := 1, self_moving := True\<rparr>)
     = Some (Inr (), ((example_stage [])
         \<lparr>self_port := \<lparr>written = [''HIN 1 0\<newline>'', ''ERR?\<newline>'', ''HIN 2 0\<newline>'', ''ERR?\<newline>'',
                    ''MOV 1 1.000000000 2 1.000000000 \<newline>'', ''ERR?\<newline>'',
                    [ENQ], [ENQ],
                    ''HIN 1 1\<newline>'', ''ERR?\<newline>'', ''HIN 2 1\<newline>'', ''ERR?\<newline>'', ''ERR?\<newline>'',
                    ''HIN 1 0\<newline>'', ''ERR?\<newline>'', ''HIN 2 0\<newline>'', ''ERR?\<newline>'',
                    ''MOV 1 0.000000000 2 0.000000000 \<newline>'', ''ERR?\<newline>'',
                    [ENQ],
                    ''HIN 1 1\<newline>'', ''ERR?\<newline>'', ''HIN 2 1\<newline>'', ''ERR?\<newline>'', ''ERR?\<newline>''],
                        in_buf = [], script = []\<rparr>,
          self_x := 0, self_y := 0, self_moving := False\<rparr>))"
    by (simp add: move_mm_def finish_moving_def start_move_def example_stage_def ack_def
        poll_motion_status.simps move_cmd_def eval_port eval_text)
  moreover have "count_list [''HIN 1 0\<newline>'', ''ERR?\<newline>'', ''HIN 2 0\<newline>'', ''ERR?\<newline>'',
                    ''MOV 1 1.000000000 2 1.000000000 \<newline>'', ''ERR?\<newline>'',
                    [ENQ], [ENQ],
                    ''HIN 1 1\<newline>'', ''ERR?\<newline>'', ''HIN 2 1\<newline>'', ''ERR?\<newline>'', ''ERR?\<newline>'',
                    ''HIN 1 0\<newline>'', ''ERR?\<newline>'', ''HIN 2 0\<newline>'', ''ERR?\<newline>'',
                    ''MOV 1 0.000000000 2 0.000000000 \<newline>'', ''ERR?\<newline>'',
                    [ENQ],
                    ''HIN 1 1\<newline>'', ''ERR?\<newline>'', ''HIN 2 1\<newline>'', ''ERR?\<newline>'', ''ERR?\<newline>''] ''HIN 1 0\<newline>'' = 2"
    by simp
  moreover have "count_list [''HIN 1 0\<newline>'', ''ERR?\<newline>'', ''HIN 2 0\<newline>'', ''ERR?\<newline>'',
                    ''MOV 1 1.000000000 2 1.000000000 \<newline>'', ''ERR?\<newline>'',
                    [ENQ], [ENQ],
                    ''HIN 1 1\<newline>'', ''ERR?\<newline>'', ''HIN 2 1\<newline>'', ''ERR?\<newline>'', ''ERR?\<newline>'',
                    ''HIN 1 0\<newline>'', ''ERR?\<newline>'', ''HIN 2 0\<newline>'', ''ERR?\<newline>'',
                    ''MOV 1 0.000000000 2 0.000000000 \<newline>'', ''ERR?\<newline>'',
                    [ENQ],
                    ''HIN 1 1\<newline>'', ''ERR?\<newline>'', ''HIN 2 1\<newline>'', ''ERR?\<newline>'', ''ERR?\<newline>''] ''HIN 1 1\<newline>'' = 2"
    by simp
  ultimately show ?thesis
    by (intro conjI)
qed

theorem two_moves_trace_witness:
  "self_joystick_enabled
      (example_stage (ack @ ack @ ack @ [''1\<newline>'', ''0\<newline>''] @ ack @ ack @ [''0\<newline>'']
          @ ack @ ack @ ack @ [''0\<newline>''] @ ack @ ack @ [''0\<newline>'']))
   \<and> \<not> self_moving
      (example_stage (ack @ ack @ ack @ [''1\<newline>'', ''0\<newline>''] @ ack @ ack @ [''0\<newline>'']
          @ ack @ ack @ ack @ [''0\<newline>''] @ ack @ ack @ [''0\<newline>'']))
   \<and> move_mm no_float 1 1 False False
      (example_stage (ack @ ack @ ack @ [''1\<newline>'', ''0\<newline>''] @ ack @ ack @ [''0\<newline>'']
          @ ack @ ack @ ack @ [''0\<newline>''] @ ack @ ack @ [''0\<newline>'']))
     = Some (Inr (), ((example_stage [])
         \<lparr>self_port :=
            \<lparr>written = [''HIN 1 0\<newline>'', ''ERR?\<newline>'', ''HIN 2 0\<newline>'', ''ERR?\<newline>'',
                    ''MOV 1 1.000000000 2 1.000000000 \<newline>'', ''ERR?\<newline>''],
             in_buf = [],
             script = [''1\<newline>'', ''0\<newline>''] @ ack @ ack @ [''0\<newline>''] @ ack @ ack @ ack
               @ [''0\<newline>''] @ ack @ ack @ [''0\<newline>'']\<rparr>,
          self_x := 1, self_y := 1, self_moving := True\<rparr>))
   \<and> move_mm no_float 0 0 False True
      ((example_stage [])
         \<lparr>self_port :=
            \<lparr>written = [''HIN 1 0\<newline>'', ''ERR?\<newline>'', ''HIN 2 0\<newline>'', ''ERR?\<newline>'',
                    ''MOV 1 1.000000000 2 1.000000000 \<newline>'', ''ERR?\<newline>''],
             in_buf = [],
             script = [''1\<newline>'', ''0\<newline>''] @ ack @ ack @ [''0\<newline>''] @ ack @ ack @ ack
               @ [''0\<newline>''] @ ack @ ack @ [''0\<newline>'']\<rparr>,
          self_x := 1, self_y := 1, self_moving := True\<rparr>)
     = Some (Inr (), ((example_stage [])
         \<lparr>self_port := \<lparr>written = [''HIN 1 0\<newline>'', ''ERR?\<newline>'', ''HIN 2 0\<newline>'', ''ERR?\<newline>'',
                    ''MOV 1 1.000000000 2 1.000000000 \<newline>'', ''ERR?\<newline>'',
                    [ENQ], [ENQ],
                    ''HIN 1 1\<newline>'', ''ERR?\<newline>'', ''HIN 2 1\<newline>'', ''ERR?\<newline>'', ''ERR?\<newline>'',
                    ''HIN 1 0\<newline>'', ''ERR?\<newline>'', ''HIN 2 0\<newline>'', ''ERR?\<newline>'',
                    ''MOV 1 0.000000000 2 0.000000000 \<newline>'', ''ERR?\<newline>'',
                    [ENQ],
                    ''HIN 1 1\<newline>'', ''ERR?\<newline>'', ''HIN 2 1\<newline>'', ''ERR?\<newline>'', ''ERR?\<newline>''],
                        in_buf = [], script = []\<rparr>,
          self_x := 0, self_y := 0, self_moving := False\<rparr>))
   \<and> self_moving ((example_stage [])
         \<lparr>self_port :=
            \<lparr>written = [''HIN 1 0\<newline>'', ''ERR?\<newline>'', ''HIN 2 0\<newline>'', ''ERR?\<newline>'',
                    ''MOV 1 1.000000000 2 1.000000000 \<newline>'', ''ERR?\<newline>''],
             in_buf = [],
             script = [''1\<newline>'', ''0\<newline>''] @ ack @ ack @ [''0\<newline>''] @ ack @ ack @ ack
               @ [''0\<newline>''] @ ack @ ack @ [''0\<newline>'']\<rparr>,
          self_x := 1, self_y := 1, self_moving := True\<rparr>)
   \<and> self_joystick_enabled ((example_stage [])
         \<lparr>self_port := \<lparr>written = [''HIN 1 0\<newline>'', ''ERR?\<newline>'', ''HIN 2 0\<newline>'', ''ERR?\<newline>'',
                    ''MOV 1 1.000000000 2 1.000000000 \<newline>'', ''ERR?\<newline>'',
                    [ENQ], [ENQ],
                    ''HIN 1 1\<newline>'', ''ERR?\<newline>'', ''HIN 2 1\<newline>'', ''ERR?\<newline>'', ''ERR?\<newline>'',
                    ''HIN 1 0\<newline>'', ''ERR?\<newline>'', ''HIN 2 0\<newline>'', ''ERR?\<newline>'',
                    ''MOV 1 0.000000000 2 0.000000000 \<newline>'', ''ERR?\<newline>'',
                    [ENQ],
                    ''HIN 1 1\<newline>'', ''ERR?\<newline>'', ''HIN 2 1\<newline>'', ''ERR?\<newline>'', ''ERR?\<newline>''],
                        in_buf = [], script = []\<rparr>,
          self_x := 0, self_y := 0, self_moving := False\<rparr>)
   \<and> \<not> self_moving ((example_stage [])
         \<lparr>self_port := \<lparr>written = [''HIN 1 0\<newline>'', ''ERR?\<newline>'', ''HIN 2 0\<newline>'', ''ERR?\<newline>'',
                    ''MOV 1 1.000000000 2 1.000000000 \<newline>'', ''ERR?\<newline>'',
                    [ENQ], [ENQ],
                    ''HIN 1 1\<newline>'', ''ERR?\<newline>'', ''HIN 2 1\<newline>'', ''ERR?\<newline>'', ''ERR?\<newline>'',
                    ''HIN 1 0\<newline>'', ''ERR?\<newline>'', ''HIN 2 0\<newline>'', ''ERR?\<newline>'',
                    ''MOV 1 0.000000000 2 0.000000000 \<newline>'', ''ERR?\<newline>'',
                    [ENQ],
                    ''HIN 1 1\<newline>'', ''ERR?\<newline>'', ''HIN 2 1\<newline>'', ''ERR?\<newline>'', ''ERR?\<newline>''],
                        in_buf = [], script = []\<rparr>,
          self_x := 0, self_y := 0, self_moving := False\<rparr>)"
proof -
  have h1: "self_joystick_enabled
      (example_stage (ack @ ack @ ack @ [''1\<newline>'', ''0\<newline>''] @ ack @ ack @ [''0\<newline>'']
          @ ack @ ack @ ack @ [''0\<newline>''] @ ack @ ack @ [''0\<newline>'']))"
    and h2: "\<not> self_moving
      (example_stage (ack @ ack @ ack @ [''1\<newline>'', ''0\<newline>''] @ ack @ ack @ [''0\<newline>'']
          @ ack @ ack @ ack @ [''0\<newline>''] @ ack @ ack @ [''0\<newline>'']))"
    by (simp_all add: example_stage_def)
  have e1: "move_mm no_float 1 1 False False
      (example_stage (ack @ ack @ ack @ [''1\<newline>'', ''0\<newline>''] @ ack @ ack @ [''0\<newline>'']
          @ ack @ ack @ ack @ [''0\<newline>''] @ ack @ ack @ [''0\<newline>'']))
     = Some (Inr (), ((example_stage [])
         \<lparr>self_port :=
            \<lparr>written = [''HIN 1 0\<newline>'', ''ERR?\<newline>'', ''HIN 2 0\<newline>'', ''ERR?\<newline>'',
                    ''MOV 1 1.000000000 2 1.000000000 \<newline>'', ''ERR?\<newline>''],
             in_buf = [],
             script = [''1\<newline>'', ''0\<newline>''] @ ack @ ack @ [''0\<newline>''] @ ack @ ack @ ack
               @ [''0\<newline>''] @ ack @ ack @ [''0\<newline>'']\<rparr>,
          self_x := 1, self_y := 1, self_moving := True\<rparr>))"
    by (simp add: move_mm_def finish_moving_def start_move_def example_stage_def ack_def
        poll_motion_status.simps move_cmd_def eval_port eval_text)
  have e2: "move_mm no_float 0 0 False True
      ((example_stage [])
         \<lparr>self_port :=
            \<lparr>written = [''HIN 1 0\<newline>'', ''ERR?\<newline>'', ''HIN 2 0\<newline>'', ''ERR?\<newline>'',
                    ''MOV 1 1.000000000 2 1.000000000 \<newline>'', ''ERR?\<newline>''],
             in_buf = [],
             script = [''1\<newline>'', ''0\<newline>''] @ ack @ ack @ [''0\<newline>''] @ ack @ ack @ ack
               @ [''0\<newline>''] @ ack @ ack @ [''0\<newline>'']\<rparr>,
          self_x := 1, self_y := 1, self_moving := True\<rparr>)
     = Some (Inr (), ((example_stage [])
         \<lparr>self_port := \<lparr>written = [''HIN 1 0\<newline>'', ''ERR?\<newline>'', ''HIN 2 0\<newline>'', ''ERR?\<newline>'',
                    ''MOV 1 1.000000000 2 1.000000000 \<newline>'', ''ERR?\<newline>'',
                    [ENQ], [ENQ],
                    ''HIN 1 1\<newline>'', ''ERR?\<newline>'', ''HIN 2 1\<newline>'', ''ERR?\<newline>'', ''ERR?\<newline>'',
                    ''HIN 1 0\<newline>'', ''ERR?\<newline>'', ''HIN 2 0\<newline>'', ''ERR?\<newline>'',
                    ''MOV 1 0.000000000 2 0.000000000 \<newline>'', ''ERR?\<newline>'',
                    [ENQ],
                    ''HIN 1 1\<newline>'', ''ERR?\<newline>'', ''HIN 2 1\<newline>'', ''ERR?\<newline>'', ''ERR?\<newline>''],
                        in_buf = [], script = []\<rparr>,
          self_x := 0, self_y := 0, self_moving := False\<rparr>))"
    by (simp add: move_mm_def finish_moving_def start_move_def example_stage_def ack_def
        poll_motion_status.simps move_cmd_def eval_port eval_text)
  from two_moves_trace [OF h1 h2 e1 e2] h1 h2 e1 e2 show ?thesis
    by simp
qed

subsection \<open>The joystick flag\<close>

lemma send_flag: "self_joystick_enabled (snd (send cmd respond s)) = self_joystick_enabled s"
proof -
  have "send cmd respond s = (fst (send cmd respond s), snd (send cmd respond s))"
    by simp
  then have "io_only s (snd (send cmd respond s))"
    by (rule send_io)
  then show ?thesis
    by (rule io_only_fields)
qed

lemma snd_and_then_return: "snd (and_then m (\<lambda>_ s2. (Inr v, s2))) = snd m"
  by (cases m) (auto simp: and_then_def split: sum.splits)

lemma setters_flag:
  "self_joystick_enabled (snd (set_velocity a b s)) = self_joystick_enabled s"
  "self_joystick_enabled (snd (set_acceleration a b s)) = self_joystick_enabled s"
  "self_joystick_enabled (snd (set_deceleration a b s)) = self_joystick_enabled s"
  "self_joystick_enabled (snd (set_settling_time_ms a b s)) = self_joystick_enabled s"
  by (simp_all add: set_velocity_def set_acceleration_def set_deceleration_def
      set_settling_time_ms_def Let_def snd_and_then_return send_flag)

lemma enable_servo_flag:
  "self_joystick_enabled (snd (enable_servo enable s)) = self_joystick_enabled s"
proof -
  obtain r s1 where sent: "(if enable then send ''SVO 1 1 2 1'' False s else send ''SVO 1 0 2 0'' False s) = (r, s1)"
    by (cases "if enable then send ''SVO 1 1 2 1'' False s else send ''SVO 1 0 2 0'' False s")
  then have "self_joystick_enabled s1 = self_joystick_enabled s"
    using send_flag [of "''SVO 1 1 2 1''" False s] send_flag [of "''SVO 1 0 2 0''" False s]
    by (auto split: if_splits)
  with sent show ?thesis
    by (cases r) (simp_all add: enable_servo_def and_then_def)
qed

lemma set_positional_tolerance_um_flag:
  "self_joystick_enabled (snd (set_positional_tolerance_um a b margin s)) = self_joystick_enabled s"
proof -
  define s1 where "s1 = s\<lparr>self_xptc := um_to_counts (case a of None \<Rightarrow> self_xpt s | Some v \<Rightarrow> v) (self_x_ecpu s),
      self_yptc := um_to_counts (case b of None \<Rightarrow> self_ypt s | Some v \<Rightarrow> v) (self_x_ecpu s)\<rparr>"
  have f1: "self_joystick_enabled s1 = self_joystick_enabled s"
    by (simp add: s1_def)
  obtain r2 s2 where e2: "send (tolerance_exit_cmd (self_xptc s1) (self_yptc s1)) False s1 = (r2, s2)"
    by (cases "send (tolerance_exit_cmd (self_xptc s1) (self_yptc s1)) False s1")
  have f2: "self_joystick_enabled s2 = self_joystick_enabled s1"
    using send_flag [of "tolerance_exit_cmd (self_xptc s1) (self_yptc s1)" False s1] e2 by simp
  obtain r3 s3 where e3: "send (tolerance_enter_cmd (self_xptc s2) (self_yptc s2) margin) False s2 = (r3, s3)"
    by (cases "send (tolerance_enter_cmd (self_xptc s2) (self_yptc s2) margin) False s2")
  have f3: "self_joystick_enabled s3 = self_joystick_enabled s2"
    using send_flag [of "tolerance_enter_cmd (self_xptc s2) (self_yptc s2) margin" False s2] e3 by simp
  show ?thesis
    using f1 f2 f3 e2 e3
    by (cases r2; cases r3)
       (auto simp: set_positional_tolerance_um_def Let_def s1_def [symmetric] and_then_def
          split: sum.splits)
qed

lemma enable_joystick_flag:
  assumes "enable_joystick enable s = (r, s')"
  shows "self_joystick_enabled s' = (if r = Inr () then enable else self_joystick_enabled s)"
  using assms unfolding enable_joystick_def
proof (cases rule: and_then_cases)
  case (raised e)
  then have "and_then (send ''HIN 1 1'' False s) (\<lambda>_. send ''HIN 2 1'' False) = (Inl e, s')
      \<or> and_then (send ''HIN 1 0'' False s) (\<lambda>_. send ''HIN 2 0'' False) = (Inl e, s')"
    by (simp split: if_splits)
  then have "io_only s s'"
    using send_twice(1) is_ascii_literals(1,3) by blast
  then have "self_joystick_enabled s' = self_joystick_enabled s"
    by (rule io_only_fields)
  with raised(2) show ?thesis by simp
next
  case (returned v s1)
  then show ?thesis by auto
qed

lemma check_errors_flag: "self_joystick_enabled (snd (check_errors s)) = self_joystick_enabled s"
proof -
  have "check_errors s = (fst (check_errors s), snd (check_errors s))"
    by simp
  then have "io_only s (snd (check_errors s))"
    by (rule check_errors_io)
  then show ?thesis
    by (rule io_only_fields)
qed

lemma developer_methods_flag:
  "self_joystick_enabled (snd (get_cmd_list s)) = self_joystick_enabled s"
  "self_joystick_enabled (snd (get_parameter_list s)) = self_joystick_enabled s"
  "self_joystick_enabled (snd (get_parameter p_id s)) = self_joystick_enabled s"
  "self_joystick_enabled (snd (set_parameter p_id v s)) = self_joystick_enabled s"
  "self_joystick_enabled (snd (close s)) = self_joystick_enabled s"
proof -
  show "self_joystick_enabled (snd (get_cmd_list s)) = self_joystick_enabled s"
    using send_flag [of "''HLP?''" True s]
    by (cases "send ''HLP?'' True s") (auto simp: get_cmd_list_def and_then_def split: sum.splits)
  show "self_joystick_enabled (snd (get_parameter_list s)) = self_joystick_enabled s"
    using send_flag [of "''HPA?''" True s]
    by (cases "send ''HPA?'' True s") (auto simp: get_parameter_list_def and_then_def split: sum.splits)
  show "self_joystick_enabled (snd (get_parameter p_id s)) = self_joystick_enabled s"
    by (simp add: get_parameter_def send_flag)
  show "self_joystick_enabled (snd (set_parameter p_id v s)) = self_joystick_enabled s"
    by (simp add: set_parameter_def snd_and_then_return send_flag)
  show "self_joystick_enabled (snd (close s)) = self_joystick_enabled s"
    by (simp add: close_def)
qed

lemma wait_for_macro_flag:
  assumes "wait_for_macro s = Some (r, s')"
  shows "self_joystick_enabled s' = self_joystick_enabled s"
proof -
  have "self_joystick_enabled (snd res) = self_joystick_enabled s" if "wait_for_macro s = Some res" for res
    using that
  proof (induction s res rule: wait_for_macro.raw_induct [rotated, consumes 1, case_names step])
    case (step wait s res)
    obtain r1 s1 where sent: "send ''RMC?'' True s = (r1, s1)"
      by (cases "send ''RMC?'' True s")
    with send_flag [of "''RMC?''" True s] have f1: "self_joystick_enabled s1 = self_joystick_enabled s"
      by simp
    show ?case
    proof (cases r1)
      case (Inl e)
      with step(2) sent f1 show ?thesis by auto
    next
      case (Inr responses)
      show ?thesis
      proof (cases responses)
        case None
        with step(2) sent f1 Inr show ?thesis by auto
      next
        case (Some lines)
        show ?thesis
        proof (cases lines)
          case Nil
          with step(2) sent f1 Inr Some show ?thesis by auto
        next
          case (Cons first others)
          show ?thesis
          proof (cases "first = []")
            case True
            with step(2) sent f1 Inr Some Cons show ?thesis by auto
          next
            case False
            with step(2) sent Inr Some Cons have "wait s1 = Some res"
              by simp
            then have "self_joystick_enabled (snd res) = self_joystick_enabled s1"
              by (rule step(1))
            with f1 show ?thesis by simp
          qed
        qed
      qed
    qed
  qed
  from this [OF assms] show ?thesis
    by simp
qed

lemma reboot_flag:
  assumes "reboot finish_macro s = Some (r, s')"
  shows "self_joystick_enabled s' = self_joystick_enabled s"
proof -
  let ?s0 = "s\<lparr>self_port := port_write ''RBT\<newline>'' (self_port s)\<rparr>"
  obtain r1 s1 where ce: "check_errors ?s0 = (r1, s1)"
    by (cases "check_errors ?s0")
  with check_errors_flag [of ?s0] have f1: "self_joystick_enabled s1 = self_joystick_enabled s"
    by simp
  show ?thesis
  proof (cases r1)
    case (Inl e)
    with assms ce f1 show ?thesis
      by (simp add: reboot_def)
  next
    case (Inr u)
    show ?thesis
    proof (cases finish_macro)
      case False
      with assms ce f1 Inr show ?thesis
        by (simp add: reboot_def)
    next
      case True
      with assms ce Inr obtain r2 s2 where w: "wait_for_macro (s1\<lparr>self_verbose := False\<rparr>) = Some (r2, s2)"
        and s': "s' = s2 \<or> s' = s2\<lparr>self_verbose := self_verbose s1\<rparr>"
        by (auto simp: reboot_def split: option.splits sum.splits)
      from w have "self_joystick_enabled s2 = self_joystick_enabled (s1\<lparr>self_verbose := False\<rparr>)"
        by (rule wait_for_macro_flag)
      with f1 s' show ?thesis
        by auto
    qed
  qed
qed

lemma call_method_flag:
  assumes "call_method float_of c s = Some s'" and "\<not> is_enable_joystick c"
  shows "self_joystick_enabled s' = self_joystick_enabled s"
proof (cases c)
  case (Move dx dy relative block)
  with assms(1) obtain r where "move_mm float_of dx dy relative block s = Some (r, s')"
    by auto
  then have "motion_only s s'"
    by (rule move_mm_frame)
  then show ?thesis
    by (rule motion_only_fields)
next
  case FinishMoving
  with assms(1) obtain r where "finish_moving s = Some (r, s')"
    by auto
  with finish_moving_props have "motion_only s s'"
    by blast
  then show ?thesis
    by (rule motion_only_fields)
next
  case GetPosition
  with assms(1) have "get_position_mm float_of s = (fst (get_position_mm float_of s), s')"
    by auto
  with get_position_mm_props have "motion_only s s'"
    by blast
  then show ?thesis
    by (rule motion_only_fields)
next
  case (SetTolerance a b margin)
  with assms(1) show ?thesis
    by (auto simp: set_positional_tolerance_um_flag)
next
  case (SetSettlingTime a b)
  with assms(1) show ?thesis
    by (auto simp: setters_flag)
next
  case (SetVelocity a b)
  with assms(1) show ?thesis
    by (auto simp: setters_flag)
next
  case (SetAcceleration a b)
  with assms(1) show ?thesis
    by (auto simp: setters_flag)
next
  case (SetDeceleration a b)
  with assms(1) show ?thesis
    by (auto simp: setters_flag)
next
  case (EnableServo enable)
  with assms(1) show ?thesis
    by (auto simp: enable_servo_flag)
next
  case (EnableJoystick enable)
  with assms(2) show ?thesis by simp
next
  case GetCmdList
  with assms(1) show ?thesis
    by (auto simp: developer_methods_flag)
next
  case GetParameterList
  with assms(1) show ?thesis
    by (auto simp: developer_methods_flag)
next
  case (GetParameter p_id)
  with assms(1) show ?thesis
    by (auto simp: developer_methods_flag)
next
  case (SetParameter p_id v)
  with assms(1) show ?thesis
    by (auto simp: developer_methods_flag)
next
  case (Reboot finish_macro)
  with assms(1) obtain r where "reboot finish_macro s = Some (r, s')"
    by auto
  then show ?thesis
    by (rule reboot_flag)
next
  case Close
  with assms(1) show ?thesis
    by (auto simp: developer_methods_flag)
qed

lemma call_methods_flag:
  assumes "\<forall>c\<in>set calls. \<not> is_enable_joystick c" and "call_methods float_of calls s = Some s'"
  shows "self_joystick_enabled s' = self_joystick_enabled s"
  using assms
proof (induction calls arbitrary: s)
  case Nil
  then show ?case by simp
next
  case (Cons c calls)
  from Cons.prems(2) obtain s1 where c: "call_method float_of c s = Some s1"
    and rest: "call_methods float_of calls s1 = Some s'"
    by (auto split: option.splits)
  from c Cons.prems(1) have "self_joystick_enabled s1 = self_joystick_enabled s"
    by (simp add: call_method_flag)
  moreover from Cons.IH [OF _ rest] Cons.prems(1) have "self_joystick_enabled s' = self_joystick_enabled s1"
    by simp
  ultimately show ?case by simp
qed

lemma poll_motion_status_completes:
  assumes "in_buf p = []" and "script p = busy @ ''0\<newline>'' # rest"
    and "\<forall>b\<in>set busy. length b \<le> 2 \<and> b \<noteq> ''0\<newline>''"
  shows "poll_motion_status p
    = Some (p\<lparr>written := written p @ replicate (Suc (length busy)) [ENQ], in_buf := [], script := rest\<rparr>)"
  using assms
proof (induction busy arbitrary: p)
  case Nil
  then show ?case
    by (subst poll_motion_status.simps) (simp add: port_write_def port_read_def)
next
  case (Cons b busy)
  let ?p1 = "p\<lparr>written := written p @ [[ENQ]], in_buf := [], script := busy @ ''0\<newline>'' # rest\<rparr>"
  from Cons.prems have b: "length b \<le> 2" "b \<noteq> ''0\<newline>''"
    by simp_all
  with Cons.prems(1,2) have "port_read 2 (port_write [ENQ] p) = (b, ?p1)"
    by (simp add: port_write_def port_read_def)
  with b(2) have "poll_motion_status p = poll_motion_status ?p1"
    by (subst poll_motion_status.simps) simp
  also have "\<dots> = Some (?p1\<lparr>written := written ?p1 @ replicate (Suc (length busy)) [ENQ],
      in_buf := [], script := rest\<rparr>)"
    using Cons.prems(3) by (intro Cons.IH) simp_all
  also have "?p1\<lparr>written := written ?p1 @ replicate (Suc (length busy)) [ENQ], in_buf := [], script := rest\<rparr>
      = p\<lparr>written := written p @ replicate (Suc (length (b # busy))) [ENQ], in_buf := [], script := rest\<rparr>"
    by simp
  finally show ?case .
qed

lemma finish_moving_returns:
  assumes "self_moving s" and "poll_motion_status (self_port s) = Some p"
  shows "\<exists>r s'. finish_moving s = Some (r, s')"
proof -
  obtain r s' where "and_then
         (if self_joystick_enabled s
          then and_then (send ''HIN 1 1'' False (s\<lparr>self_port := p, self_moving := False\<rparr>))
                 (\<lambda>_. send ''HIN 2 1'' False)
          else (Inr None, s\<lparr>self_port := p, self_moving := False\<rparr>))
         (\<lambda>_. check_errors) = (r, s')"
    by (cases "and_then
         (if self_joystick_enabled s
          then and_then (send ''HIN 1 1'' False (s\<lparr>self_port := p, self_moving := False\<rparr>))
                 (\<lambda>_. send ''HIN 2 1'' False)
          else (Inr None, s\<lparr>self_port := p, self_moving := False\<rparr>))
         (\<lambda>_. check_errors)")
  with assms have "finish_moving s = Some (r, s')"
    by (simp add: finish_moving_def)
  then show ?thesis
    by blast
qed

lemma finish_moving_completes:
  assumes moving: "self_moving s" and quiet: "in_buf (self_port s) = []"
    and busy: "\<forall>b\<in>set busy. length b \<le> 2 \<and> b \<noteq> ''0\<newline>''"
    and script: "script (self_port s)
      = busy @ [''0\<newline>''] @ (if self_joystick_enabled s then ack @ ack else []) @ ''0\<newline>'' # rest"
  shows "finish_moving s
    = Some (Inr (),
        s\<lparr>self_port := (self_port s)
             \<lparr>written := written (self_port s) @ replicate (Suc (length busy)) [ENQ]
                @ enable_trace (self_joystick_enabled s) @ [''ERR?\<newline>''],
              in_buf := [], script := rest\<rparr>,
          self_error := ''0\<newline>'', self_moving := False\<rparr>)"
proof (cases "self_joystick_enabled s")
  case False
  let ?p = "(self_port s)\<lparr>written := written (self_port s) @ replicate (Suc (length busy)) [ENQ],
      in_buf := [], script := ''0\<newline>'' # rest\<rparr>"
  let ?s0 = "s\<lparr>self_port := ?p, self_moving := False\<rparr>"
  let ?s3 = "?s0\<lparr>self_port := (self_port ?s0)\<lparr>written := written (self_port ?s0) @ [''ERR?\<newline>''],
      in_buf := [], script := rest\<rparr>, self_error := ''0'' @ [NL]\<rparr>"
  from script False have "script (self_port s) = busy @ ''0\<newline>'' # ''0\<newline>'' # rest"
    by simp
  with quiet have poll: "poll_motion_status (self_port s) = Some ?p"
    using busy by (rule poll_motion_status_completes)
  have s3: "check_errors ?s0 = (Inr (), ?s3)"
    using check_errors_reply [of ?s0 "''0''" rest] by simp
  have "finish_moving s = Some (check_errors ?s0)"
    using moving poll False by (simp add: finish_moving_def and_then_Inr)
  also have "\<dots> = Some (Inr (), ?s3)"
    by (simp only: s3)
  also have "?s3 = s\<lparr>self_port := (self_port s)
             \<lparr>written := written (self_port s) @ replicate (Suc (length busy)) [ENQ]
                @ enable_trace (self_joystick_enabled s) @ [''ERR?\<newline>''],
              in_buf := [], script := rest\<rparr>,
          self_error := ''0\<newline>'', self_moving := False\<rparr>"
    using False by (simp add: enable_trace_def)
  finally show ?thesis .
next
  case True
  let ?p = "(self_port s)\<lparr>written := written (self_port s) @ replicate (Suc (length busy)) [ENQ],
      in_buf := [], script := [] # (''0'' @ [NL]) # [] # (''0'' @ [NL]) # (''0'' @ [NL]) # rest\<rparr>"
  let ?s0 = "s\<lparr>self_port := ?p, self_moving := False\<rparr>"
  let ?s1 = "?s0\<lparr>self_port := (self_port ?s0)\<lparr>written := written (self_port ?s0) @ [''HIN 1 1'' @ [NL], ''ERR?\<newline>''],
      in_buf := [], script := [] # (''0'' @ [NL]) # (''0'' @ [NL]) # rest\<rparr>, self_error := ''0'' @ [NL]\<rparr>"
  let ?s2 = "?s1\<lparr>self_port := (self_port ?s1)\<lparr>written := written (self_port ?s1) @ [''HIN 2 1'' @ [NL], ''ERR?\<newline>''],
      in_buf := [], script := (''0'' @ [NL]) # rest\<rparr>, self_error := ''0'' @ [NL]\<rparr>"
  let ?s3 = "?s2\<lparr>self_port := (self_port ?s2)\<lparr>written := written (self_port ?s2) @ [''ERR?\<newline>''],
      in_buf := [], script := rest\<rparr>, self_error := ''0'' @ [NL]\<rparr>"
  from script True have "script (self_port s)
      = busy @ ''0\<newline>'' # [] # (''0'' @ [NL]) # [] # (''0'' @ [NL]) # (''0'' @ [NL]) # rest"
    by (simp add: ack_def)
  with quiet have poll: "poll_motion_status (self_port s) = Some ?p"
    using busy by (rule poll_motion_status_completes)
  have ascii: "is_ascii ''HIN 1 1''" "is_ascii ''HIN 2 1''"
    by (simp_all add: is_ascii_def)
  have zero: "NL \<notin> set ''0''"
    by simp
  have s1: "send ''HIN 1 1'' False ?s0 = (Inr None, ?s1)"
  proof -
    have "in_buf (self_port ?s0) = []"
        "script (self_port ?s0) = [] # (''0'' @ [NL]) # [] # (''0'' @ [NL]) # (''0'' @ [NL]) # rest"
      by simp_all
    from send_False_reply [OF ascii(1) this zero] show ?thesis
      by (simp only: simp_thms if_True)
  qed
  have s2: "send ''HIN 2 1'' False ?s1 = (Inr None, ?s2)"
  proof -
    have "in_buf (self_port ?s1) = []"
        "script (self_port ?s1) = [] # (''0'' @ [NL]) # (''0'' @ [NL]) # rest"
      by simp_all
    from send_False_reply [OF ascii(2) this zero] show ?thesis
      by (simp only: simp_thms if_True)
  qed
  have s3: "check_errors ?s2 = (Inr (), ?s3)"
  proof -
    have "in_buf (self_port ?s2) = []" "script (self_port ?s2) = (''0'' @ [NL]) # rest"
      by simp_all
    from check_errors_reply [OF this zero] show ?thesis
      by (simp only: simp_thms if_True)
  qed
  have "finish_moving s
      = Some (and_then (and_then (send ''HIN 1 1'' False ?s0) (\<lambda>_. send ''HIN 2 1'' False))
                (\<lambda>_. check_errors))"
    using moving poll True by (simp add: finish_moving_def)
  also have "\<dots> = Some (Inr (), ?s3)"
    by (simp only: s1 s2 s3 and_then_Inr)
  also have "?s3 = s\<lparr>self_port := (self_port s)
             \<lparr>written := written (self_port s) @ replicate (Suc (length busy)) [ENQ]
                @ enable_trace (self_joystick_enabled s) @ [''ERR?\<newline>''],
              in_buf := [], script := rest\<rparr>,
          self_error := ''0\<newline>'', self_moving := False\<rparr>"
    using True by (simp add: enable_trace_def)
  finally show ?thesis .
qed

text \<open>
  Claim C10. \<^verbatim>\<open>move_mm\<close> leaves the joystick flag as it found it, whatever it sends
  and however it ends. So does every sequence of calls of the methods of the class other
  than \<^verbatim>\<open>_enable_joystick\<close> (\<^verbatim>\<open>move_mm\<close>, \<^verbatim>\<open>_finish_moving\<close>, \<^verbatim>\<open>get_position_mm\<close>,
  the five setters, \<^verbatim>\<open>_enable_servo\<close>, \<^verbatim>\<open>_get_cmd_list\<close>, \<^verbatim>\<open>_get_parameter_list\<close>,
  \<^verbatim>\<open>_get_parameter\<close>, \<^verbatim>\<open>_set_parameter\<close>, \<^verbatim>\<open>_reboot\<close>, \<^verbatim>\<open>close\<close>), whether they
  return or raise. \<^verbatim>\<open>_enable_joystick\<close> sets the flag to its argument when it returns,
  and leaves it when it raises; so after a call of \<^verbatim>\<open>_enable_joystick\<close> that returned,
  followed by any calls of the other methods, the flag is the argument of that call.

  When the status poll of an outstanding move completes, \<^verbatim>\<open>_finish_moving\<close> returns or
  raises, and the command \<^verbatim>\<open>HIN 1 1\<close> is among the bytes it writes exactly when the flag
  is on; if it returns without an error, it has written both joystick-on commands when
  the flag is on, and neither when it is off. On a device that answers the status
  request some number of times with at most two bytes other than \<^verbatim>\<open>0\<close> and a newline,
  then with \<^verbatim>\<open>0\<close> and a newline, and that accepts every command, \<^verbatim>\<open>_finish_moving\<close>
  does return: it has written the status requests, the two joystick-on commands with
  their error queries when the flag is on and nothing when it is off, and the closing
  error query, and the moving flag is cleared.
\<close>

theorem joystick_flag_changes_only_in_enable_joystick:
  "(\<forall>dx dy relative block r s'.
      move_mm float_of dx dy relative block s = Some (r, s') \<longrightarrow>
        self_joystick_enabled s' = self_joystick_enabled s)
   \<and> (\<forall>calls s'.
      (\<forall>c\<in>set calls. \<not> is_enable_joystick c) \<longrightarrow> call_methods float_of calls s = Some s' \<longrightarrow>
        self_joystick_enabled s' = self_joystick_enabled s)
   \<and> (\<forall>enable r s'.
      enable_joystick enable s = (r, s') \<longrightarrow>
        self_joystick_enabled s' = (if r = Inr () then enable else self_joystick_enabled s))
   \<and> (\<forall>enable s1 calls s'.
      enable_joystick enable s = (Inr (), s1) \<longrightarrow>
      (\<forall>c\<in>set calls. \<not> is_enable_joystick c) \<longrightarrow> call_methods float_of calls s1 = Some s' \<longrightarrow>
        self_joystick_enabled s' = enable)
   \<and> (\<forall>r s'.
      finish_moving s = Some (r, s') \<longrightarrow>
        self_joystick_enabled s' = self_joystick_enabled s
        \<and> (self_moving s \<longrightarrow>
             (\<exists>ws. wrote s s' ws \<and> (''HIN 1 1\<newline>'' \<in> set ws \<longleftrightarrow> self_joystick_enabled s)))
        \<and> (self_moving s \<longrightarrow> r = Inr () \<longrightarrow>
             (\<exists>k. wrote s s' (replicate (Suc k) [ENQ] @ enable_trace (self_joystick_enabled s)
                                @ [''ERR?\<newline>'']))))
   \<and> (\<forall>p.
      self_moving s \<longrightarrow> poll_motion_status (self_port s) = Some p \<longrightarrow>
        (\<exists>r s'. finish_moving s = Some (r, s')))
   \<and> (\<forall>busy rest.
      self_moving s \<longrightarrow> in_buf (self_port s) = [] \<longrightarrow>
      (\<forall>b\<in>set busy. length b \<le> 2 \<and> b \<noteq> ''0\<newline>'') \<longrightarrow>
      script (self_port s)
        = busy @ [''0\<newline>''] @ (if self_joystick_enabled s then ack @ ack else []) @ ''0\<newline>'' # rest \<longrightarrow>
        finish_moving s
          = Some (Inr (),
              s\<lparr>self_port := (self_port s)
                   \<lparr>written := written (self_port s) @ replicate (Suc (length busy)) [ENQ]
                      @ enable_trace (self_joystick_enabled s) @ [''ERR?\<newline>''],
                    in_buf := [], script := rest\<rparr>,
                self_error := ''0\<newline>'', self_moving := False\<rparr>))"
proof (intro conjI allI impI)
  fix dx dy relative block r s'
  assume "move_mm float_of dx dy relative block s = Some (r, s')"
  then have "motion_only s s'"
    by (rule move_mm_frame)
  then show "self_joystick_enabled s' = self_joystick_enabled s"
    by (rule motion_only_fields)
next
  fix calls s'
  assume "\<forall>c\<in>set calls. \<not> is_enable_joystick c" and "call_methods float_of calls s = Some s'"
  then show "self_joystick_enabled s' = self_joystick_enabled s"
    by (rule call_methods_flag)
next
  fix enable r s'
  assume "enable_joystick enable s = (r, s')"
  then show "self_joystick_enabled s' = (if r = Inr () then enable else self_joystick_enabled s)"
    by (rule enable_joystick_flag)
next
  fix enable s1 calls s'
  assume "enable_joystick enable s = (Inr (), s1)"
  then have "self_joystick_enabled s1 = (if (Inr () :: error + unit) = Inr () then enable else self_joystick_enabled s)"
    by (rule enable_joystick_flag)
  moreover assume "\<forall>c\<in>set calls. \<not> is_enable_joystick c" and "call_methods float_of calls s1 = Some s'"
  then have "self_joystick_enabled s' = self_joystick_enabled s1"
    by (rule call_methods_flag)
  ultimately show "self_joystick_enabled s' = enable"
    by simp
next
  fix r s'
  assume fm: "finish_moving s = Some (r, s')"
  from finish_moving_props [OF fm] have "motion_only s s'"
    by simp
  then show "self_joystick_enabled s' = self_joystick_enabled s"
    by (rule motion_only_fields)
  {
    assume "self_moving s"
    with finish_moving_props [OF fm]
    show "\<exists>ws. wrote s s' ws \<and> (''HIN 1 1\<newline>'' \<in> set ws \<longleftrightarrow> self_joystick_enabled s)"
      by blast
  }
  {
    assume "self_moving s" and "r = Inr ()"
    with finish_moving_props [OF fm]
    show "\<exists>k. wrote s s' (replicate (Suc k) [ENQ] @ enable_trace (self_joystick_enabled s)
                                @ [''ERR?\<newline>''])"
      by blast
  }
next
  fix p
  assume "self_moving s" and "poll_motion_status (self_port s) = Some p"
  then show "\<exists>r s'. finish_moving s = Some (r, s')"
    by (rule finish_moving_returns)
next
  fix busy rest
  assume "self_moving s" and "in_buf (self_port s) = []"
    and "\<forall>b\<in>set busy. length b \<le> 2 \<and> b \<noteq> ''0\<newline>''"
    and "script (self_port s)
        = busy @ [''0\<newline>''] @ (if self_joystick_enabled s then ack @ ack else []) @ ''0\<newline>'' # rest"
  then show "finish_moving s
          = Some (Inr (),
              s\<lparr>self_port := (self_port s)
                   \<lparr>written := written (self_port s) @ replicate (Suc (length busy)) [ENQ]
                      @ enable_trace (self_joystick_enabled s) @ [''ERR?\<newline>''],
                    in_buf := [], script := rest\<rparr>,
                self_error := ''0\<newline>'', self_moving := False\<rparr>)"
    by (rule finish_moving_completes)
qed


theorem joystick_flag_changes_only_in_enable_joystick_witness:
  "self_moving ((example_stage (''1\<newline>'' # ''0\<newline>'' # ack @ ack @ [''0\<newline>'']))\<lparr>self_moving := True\<rparr>)
   \<and> self_joystick_enabled ((example_stage (''1\<newline>'' # ''0\<newline>'' # ack @ ack @ [''0\<newline>'']))\<lparr>self_moving := True\<rparr>)
   \<and> in_buf (self_port ((example_stage (''1\<newline>'' # ''0\<newline>'' # ack @ ack @ [''0\<newline>'']))\<lparr>self_moving := True\<rparr>)) = []
   \<and> length ''1\<newline>'' \<le> 2 \<and> ''1\<newline>'' \<noteq> ''0\<newline>''
   \<and> finish_moving ((example_stage (''1\<newline>'' # ''0\<newline>'' # ack @ ack @ [''0\<newline>'']))\<lparr>self_moving := True\<rparr>)
     = Some (Inr (), ((example_stage [])
           \<lparr>self_port := \<lparr>written = [[ENQ], [ENQ], ''HIN 1 1\<newline>'', ''ERR?\<newline>'', ''HIN 2 1\<newline>'',
                            ''ERR?\<newline>'', ''ERR?\<newline>''],
                          in_buf = [], script = []\<rparr>,
            self_moving := False\<rparr>))
   \<and> ''HIN 1 1\<newline>'' \<in> set (written (self_port ((example_stage [])
           \<lparr>self_port := \<lparr>written = [[ENQ], [ENQ], ''HIN 1 1\<newline>'', ''ERR?\<newline>'', ''HIN 2 1\<newline>'',
                            ''ERR?\<newline>'', ''ERR?\<newline>''],
                          in_buf = [], script = []\<rparr>,
            self_moving := False\<rparr>)))
   \<and> self_joystick_enabled ((example_stage [])
           \<lparr>self_port := \<lparr>written = [[ENQ], [ENQ], ''HIN 1 1\<newline>'', ''ERR?\<newline>'', ''HIN 2 1\<newline>'',
                            ''ERR?\<newline>'', ''ERR?\<newline>''],
                          in_buf = [], script = []\<rparr>,
            self_moving := False\<rparr>)
   \<and> finish_moving ((example_stage [''0\<newline>'', ''0\<newline>''])\<lparr>self_joystick_enabled := False, self_moving := True\<rparr>)
     = Some (Inr (), ((example_stage [])
           \<lparr>self_port := \<lparr>written = [[ENQ], ''ERR?\<newline>''], in_buf = [], script = []\<rparr>,
            self_joystick_enabled := False, self_moving := False\<rparr>))
   \<and> ''HIN 1 1\<newline>'' \<notin> set (written (self_port ((example_stage [])
           \<lparr>self_port := \<lparr>written = [[ENQ], ''ERR?\<newline>''], in_buf = [], script = []\<rparr>,
            self_joystick_enabled := False, self_moving := False\<rparr>)))
   \<and> call_methods no_float [Reboot True, GetCmdList, SetParameter ''0x3F'' ''0.001'', Close]
        (example_stage ['''', ''0\<newline>'', ''\<newline>'', ''0\<newline>'', ''MOV \<newline>VEL\<newline>'', ''0\<newline>'', '''', ''0\<newline>''])
     = Some ((example_stage [])
           \<lparr>self_port := \<lparr>written = [''RBT\<newline>'', ''ERR?\<newline>'', ''RMC?\<newline>'', ''ERR?\<newline>'', ''HLP?\<newline>'',
                            ''ERR?\<newline>'', ''SPA 1 0x3F 0.001 2 0x3F 0.001\<newline>'', ''ERR?\<newline>''],
                          in_buf = [], script = []\<rparr>,
            self_cmd_list := Some [''MOV'', ''VEL'']\<rparr>)
   \<and> self_joystick_enabled ((example_stage [])
           \<lparr>self_port := \<lparr>written = [''RBT\<newline>'', ''ERR?\<newline>'', ''RMC?\<newline>'', ''ERR?\<newline>'', ''HLP?\<newline>'',
                            ''ERR?\<newline>'', ''SPA 1 0x3F 0.001 2 0x3F 0.001\<newline>'', ''ERR?\<newline>''],
                          in_buf = [], script = []\<rparr>,
            self_cmd_list := Some [''MOV'', ''VEL'']\<rparr>)
   \<and> enable_joystick False (example_stage (ack @ ack @ ack))
     = (Inr (), ((example_stage ack)
           \<lparr>self_port := \<lparr>written = [''HIN 1 0\<newline>'', ''ERR?\<newline>'', ''HIN 2 0\<newline>'', ''ERR?\<newline>''],
                          in_buf = [], script = ack\<rparr>,
            self_joystick_enabled := False\<rparr>))
   \<and> call_methods no_float [SetVelocity (Some 20) None, Close]
        ((example_stage ack)
           \<lparr>self_port := \<lparr>written = [''HIN 1 0\<newline>'', ''ERR?\<newline>'', ''HIN 2 0\<newline>'', ''ERR?\<newline>''],
                          in_buf = [], script = ack\<rparr>,
            self_joystick_enabled := False\<rparr>)
     = Some ((example_stage [])
           \<lparr>self_port := \<lparr>written = [''HIN 1 0\<newline>'', ''ERR?\<newline>'', ''HIN 2 0\<newline>'', ''ERR?\<newline>'',
                            ''VEL 1 20.000000000 2 10.000000000 \<newline>'', ''ERR?\<newline>''],
                          in_buf = [], script = []\<rparr>,
            self_xv := 20,
            self_joystick_enabled := False\<rparr>)
   \<and> \<not> self_joystick_enabled ((example_stage [])
           \<lparr>self_port := \<lparr>written = [''HIN 1 0\<newline>'', ''ERR?\<newline>'', ''HIN 2 0\<newline>'', ''ERR?\<newline>'',
                            ''VEL 1 20.000000000 2 10.000000000 \<newline>'', ''ERR?\<newline>''],
                          in_buf = [], script = []\<rparr>,
            self_xv := 20,
            self_joystick_enabled := False\<rparr>)"
proof -
  let ?on = "((example_stage (''1\<newline>'' # ''0\<newline>'' # ack @ ack @ [''0\<newline>'']))\<lparr>self_moving := True\<rparr>)"
  let ?off = "((example_stage [''0\<newline>'', ''0\<newline>''])\<lparr>self_joystick_enabled := False, self_moving := True\<rparr>)"
  let ?T = "(example_stage ['''', ''0\<newline>'', ''\<newline>'', ''0\<newline>'', ''MOV \<newline>VEL\<newline>'', ''0\<newline>'', '''', ''0\<newline>''])"
  let ?E = "(example_stage (ack @ ack @ ack))"
  let ?E1 = "((example_stage ack)
           \<lparr>self_port := \<lparr>written = [''HIN 1 0\<newline>'', ''ERR?\<newline>'', ''HIN 2 0\<newline>'', ''ERR?\<newline>''],
                          in_buf = [], script = ack\<rparr>,
            self_joystick_enabled := False\<rparr>)"
  let ?E2 = "((example_stage [])
           \<lparr>self_port := \<lparr>written = [''HIN 1 0\<newline>'', ''ERR?\<newline>'', ''HIN 2 0\<newline>'', ''ERR?\<newline>'',
                            ''VEL 1 20.000000000 2 10.000000000 \<newline>'', ''ERR?\<newline>''],
                          in_buf = [], script = []\<rparr>,
            self_xv := 20,
            self_joystick_enabled := False\<rparr>)"
  have hyp: "self_moving ?on" "self_joystick_enabled ?on" "in_buf (self_port ?on) = []"
      "\<forall>b\<in>set [''1\<newline>'']. length b \<le> 2 \<and> b \<noteq> ''0\<newline>''"
      "script (self_port ?on)
        = [''1\<newline>''] @ [''0\<newline>''] @ (if self_joystick_enabled ?on then ack @ ack else []) @ ''0\<newline>'' # []"
    by (simp_all add: example_stage_def)
  from joystick_flag_changes_only_in_enable_joystick [of no_float ?on] hyp(1,3,4,5)
  have "finish_moving ?on
          = Some (Inr (),
              ?on\<lparr>self_port := (self_port ?on)
                   \<lparr>written := written (self_port ?on) @ replicate (Suc (length [''1\<newline>''])) [ENQ]
                      @ enable_trace (self_joystick_enabled ?on) @ [''ERR?\<newline>''],
                    in_buf := [], script := []\<rparr>,
                self_error := ''0\<newline>'', self_moving := False\<rparr>)"
    by blast
  then have on: "finish_moving ?on = Some (Inr (), ((example_stage [])
           \<lparr>self_port := \<lparr>written = [[ENQ], [ENQ], ''HIN 1 1\<newline>'', ''ERR?\<newline>'', ''HIN 2 1\<newline>'',
                            ''ERR?\<newline>'', ''ERR?\<newline>''],
                          in_buf = [], script = []\<rparr>,
            self_moving := False\<rparr>))"
    by (simp add: example_stage_def enable_trace_def)
  have off_moving: "self_moving ?off"
    by (simp add: example_stage_def)
  have off: "finish_moving ?off = Some (Inr (), ((example_stage [])
           \<lparr>self_port := \<lparr>written = [[ENQ], ''ERR?\<newline>''], in_buf = [], script = []\<rparr>,
            self_joystick_enabled := False, self_moving := False\<rparr>))"
    by (simp add: finish_moving_def example_stage_def poll_motion_status.simps eval_port)
  note finish = joystick_flag_changes_only_in_enable_joystick [of no_float ?off,
      THEN conjunct2, THEN conjunct2, THEN conjunct2, THEN conjunct2, THEN conjunct1,
      THEN spec, THEN spec, THEN mp, OF off]
  from finish off_moving
  obtain ws where "wrote ?off ((example_stage [])
           \<lparr>self_port := \<lparr>written = [[ENQ], ''ERR?\<newline>''], in_buf = [], script = []\<rparr>,
            self_joystick_enabled := False, self_moving := False\<rparr>) ws"
      and "(''HIN 1 1\<newline>'' \<in> set ws) = self_joystick_enabled ?off"
    by blast
  then have off_trace: "''HIN 1 1\<newline>'' \<notin> set (written (self_port ((example_stage [])
           \<lparr>self_port := \<lparr>written = [[ENQ], ''ERR?\<newline>''], in_buf = [], script = []\<rparr>,
            self_joystick_enabled := False, self_moving := False\<rparr>)))"
    by (simp add: wrote_def example_stage_def)
  have cm: "call_methods no_float [Reboot True, GetCmdList, SetParameter ''0x3F'' ''0.001'', Close] ?T
     = Some ((example_stage [])
           \<lparr>self_port := \<lparr>written = [''RBT\<newline>'', ''ERR?\<newline>'', ''RMC?\<newline>'', ''ERR?\<newline>'', ''HLP?\<newline>'',
                            ''ERR?\<newline>'', ''SPA 1 0x3F 0.001 2 0x3F 0.001\<newline>'', ''ERR?\<newline>''],
                          in_buf = [], script = []\<rparr>,
            self_cmd_list := Some [''MOV'', ''VEL'']\<rparr>)"
    by (simp add: example_stage_def reboot_def wait_for_macro.simps get_cmd_list_def
        set_parameter_def close_def read_responses.simps endswith_NL_def rstrip_def is_space_def
        eval_port)
  have no_enable: "\<forall>c\<in>set [Reboot True, GetCmdList, SetParameter ''0x3F'' ''0.001'', Close]. \<not> is_enable_joystick c"
      "\<forall>c\<in>set [SetVelocity (Some 20) None, Close]. \<not> is_enable_joystick c"
    by simp_all
  from joystick_flag_changes_only_in_enable_joystick [of no_float ?T] no_enable(1) cm
  have "self_joystick_enabled ((example_stage [])
           \<lparr>self_port := \<lparr>written = [''RBT\<newline>'', ''ERR?\<newline>'', ''RMC?\<newline>'', ''ERR?\<newline>'', ''HLP?\<newline>'',
                            ''ERR?\<newline>'', ''SPA 1 0x3F 0.001 2 0x3F 0.001\<newline>'', ''ERR?\<newline>''],
                          in_buf = [], script = []\<rparr>,
            self_cmd_list := Some [''MOV'', ''VEL'']\<rparr>) = self_joystick_enabled ?T"
    by blast
  then have cm_flag: "self_joystick_enabled ((example_stage [])
           \<lparr>self_port := \<lparr>written = [''RBT\<newline>'', ''ERR?\<newline>'', ''RMC?\<newline>'', ''ERR?\<newline>'', ''HLP?\<newline>'',
                            ''ERR?\<newline>'', ''SPA 1 0x3F 0.001 2 0x3F 0.001\<newline>'', ''ERR?\<newline>''],
                          in_buf = [], script = []\<rparr>,
            self_cmd_list := Some [''MOV'', ''VEL'']\<rparr>)"
    by (simp add: example_stage_def)
  have ej: "enable_joystick False ?E = (Inr (), ?E1)"
    by (simp add: enable_joystick_def example_stage_def ack_def eval_port)
  have ecm: "call_methods no_float [SetVelocity (Some 20) None, Close] ?E1 = Some ?E2"
    by (simp add: example_stage_def ack_def set_velocity_def velocity_cmd_def close_def
        eval_port eval_text)
  from joystick_flag_changes_only_in_enable_joystick [of no_float ?E] ej no_enable(2) ecm
  have "self_joystick_enabled ?E2 = False"
    by blast
  then have e_flag: "\<not> self_joystick_enabled ?E2"
    by simp
  have on_trace: "''HIN 1 1\<newline>'' \<in> set (written (self_port ((example_stage [])
           \<lparr>self_port := \<lparr>written = [[ENQ], [ENQ], ''HIN 1 1\<newline>'', ''ERR?\<newline>'', ''HIN 2 1\<newline>'',
                            ''ERR?\<newline>'', ''ERR?\<newline>''],
                          in_buf = [], script = []\<rparr>,
            self_moving := False\<rparr>)))"
      "self_joystick_enabled ((example_stage [])
           \<lparr>self_port := \<lparr>written = [[ENQ], [ENQ], ''HIN 1 1\<newline>'', ''ERR?\<newline>'', ''HIN 2 1\<newline>'',
                            ''ERR?\<newline>'', ''ERR?\<newline>''],
                          in_buf = [], script = []\<rparr>,
            self_moving := False\<rparr>)"
    by (simp_all add: example_stage_def)
  have small: "length ''1\<newline>'' \<le> 2" "''1\<newline>'' \<noteq> ''0\<newline>''"
    by simp_all
  from hyp(1,2,3) small on on_trace off off_trace cm cm_flag ej ecm e_flag show ?thesis
    by (intro conjI)
qed

end
